theory Spec2Isabelle
  imports Main "HOL-Library.Word"
begin

unbundle bit_operations_syntax

section \<open>Data model of \<open>omx_video_decode_accelerator.cc\<close>\<close>

text \<open>
  The adapter is one C++ object whose methods all run on one thread.  Its members are the
  fields of the record \<open>ovda\<close> below; every method is a function from the object before the
  call to the object after it.  What the object does to the outside world (calls on the
  client interface, calls into the OpenMAX engine) is appended to the field \<open>trace\<close>.
  What the outside world answers (the result code of each engine call, whether a fence has
  signalled, whether a shared-memory region maps) is read from fields that the object never
  writes except to consume them.
\<close>

datatype CurrentStateChange =
  NO_TRANSITION | INITIALIZING | FLUSHING | RESETTING | DESTROYING | ERRORING

datatype OMX_STATETYPE =
  OMX_StateInvalid | OMX_StateLoaded | OMX_StateIdle | OMX_StateExecuting
  | OMX_StatePause | OMX_StateWaitForResources | OMX_StateMax

datatype Error = ILLEGAL_STATE | INVALID_ARGUMENT | UNREADABLE_INPUT | PLATFORM_FAILURE

datatype OMX_COMMANDTYPE =
  OMX_CommandStateSet | OMX_CommandFlush | OMX_CommandPortDisable
  | OMX_CommandPortEnable | OMX_CommandMarkBuffer

datatype OMX_INDEXTYPE =
  OMX_IndexParamVideoInit | OMX_IndexParamStandardComponentRole
  | OMX_IndexParamPortDefinition | OMX_IndexConfigCommonOutputCrop
  | OMX_IndexConfigCommonScale | OMX_IndexOther

datatype Codec = UNKNOWN | H264 | VP8

datatype OMX_VIDEO_AVCPROFILETYPE =
  OMX_VIDEO_AVCProfileBaseline | OMX_VIDEO_AVCProfileMain | OMX_VIDEO_AVCProfileExtended
  | OMX_VIDEO_AVCProfileHigh | OMX_VIDEO_AVCProfileHigh10 | OMX_VIDEO_AVCProfileHigh422
  | OMX_VIDEO_AVCProfileHigh444 | OMX_VIDEO_AVCProfileMax

text \<open>\<open>media::BitstreamBuffer\<close>: the id is an \<open>int32_t\<close>.  \<open>bb_mappable\<close> is the answer
  \<open>SharedMemory::Map\<close> will give for this buffer's handle.\<close>

record BitstreamBuffer =
  bb_id :: "32 word"
  bb_handle :: nat
  bb_size :: nat
  bb_mappable :: bool

record Picture =
  picture_buffer_id :: "32 word"
  bitstream_buffer_id :: "32 word"

record PictureBuffer =
  pb_id :: "32 word"
  pb_texture_id :: nat

text \<open>What \<open>pAppPrivate\<close> points to: the \<open>SharedMemoryAndId\<close> pair of an input header
  (mapped region, bitstream buffer id) or the \<open>media::Picture\<close> of an output header.\<close>

datatype AppPrivate = SharedMemoryAndId nat "32 word" | PicturePtr Picture

datatype DataPtr = Placeholder | ShmMemory nat | PictureBufferMem "32 word" | EngineMem

text \<open>\<open>OMX_BUFFERHEADERTYPE\<close>: \<open>nFlags\<close> is an \<open>OMX_U32\<close>, \<open>nTimeStamp\<close> a 64-bit
  \<open>OMX_TICKS\<close>.  A null \<open>pAppPrivate\<close> is \<open>None\<close>.\<close>

record OMX_BUFFERHEADERTYPE =
  pBuffer :: DataPtr
  nAllocLen :: nat
  nFilledLen :: nat
  nOffset :: nat
  pAppPrivate :: "AppPrivate option"
  nFlags :: "32 word"
  nTimeStamp :: "64 word"
  nInputPortIndex :: nat
  nOutputPortIndex :: nat

definition OMX_BUFFERFLAG_EOS :: "32 word" where
  "OMX_BUFFERFLAG_EOS = 1"

record OutputPicture =
  picture_buffer :: PictureBuffer
  omx_buffer_header :: "nat option"

text \<open>The answers \<open>CreateComponent\<close> reads from the engine through out-parameters.\<close>

record EngineInfo =
  num_components :: nat
  nPorts :: nat
  nStartPortNumber :: nat
  input_port_is_input :: bool
  output_port_is_output :: bool
  nBufferCountActual :: nat
  nBufferSize :: nat
  nBufferCountMin :: nat
  nFrameWidth :: nat
  nFrameHeight :: nat

datatype ClientCall =
  NotifyInitializationComplete bool
  | ProvidePictureBuffers nat nat nat
  | DismissPictureBuffer "32 word"
  | PictureReady Picture
  | NotifyEndOfBitstreamBuffer "32 word"
  | NotifyFlushDone
  | NotifyResetDone
  | NotifyError Error

datatype OmxCall =
  OMX_Init
  | OMX_Deinit
  | OMX_GetComponentsOfRole string
  | OMX_GetHandle
  | OMX_FreeHandle
  | OMX_GetParameter OMX_INDEXTYPE
  | OMX_SetParameter OMX_INDEXTYPE
  | OMX_SendCommandStateSet OMX_STATETYPE
  | OMX_SendCommandPort OMX_COMMANDTYPE nat
  | OMX_UseBuffer nat
  | OMX_AllocateBuffer nat
  | OMX_FreeBuffer nat nat
  | OMX_EmptyThisBuffer nat OMX_BUFFERHEADERTYPE
  | OMX_FillThisBuffer "nat option"

text \<open>What \<open>eglGetSyncAttribKHR\<close> can answer for a fence: the call fails (it returns
  \<open>EGL_FALSE\<close> and leaves the value as it was, \<open>EGL_UNSIGNALED_KHR\<close>), or it succeeds with one
  of the two values.\<close>

datatype SyncStatus = EGL_FAILED | EGL_UNSIGNALED_KHR | EGL_SIGNALED_KHR

text \<open>One entry of the trace: a call on the client, or a call into the engine together with
  whether it returned \<open>OMX_ErrorNone\<close>, or the creation of a fence for a picture.\<close>

datatype Effect =
  Client ClientCall
  | Engine OmxCall bool
  | CreateSync "32 word"

text \<open>
  The object.  Pointers to buffer headers are addresses (\<open>nat\<close>) into \<open>headers\<close>, the
  engine's heap of headers.  \<open>client\<close> is the weak pointer to the client (true while it is
  valid), \<open>client_ptr_factory\<close> whether the factory has been created, \<open>component_handle\<close>
  whether the handle is non-null.  \<open>fault\<close> is set when the process has been stopped by a
  failed assertion or a null dereference; \<open>deleted\<close> when the object has been destroyed.
  \<open>dcheck_is_on\<close> is the build's setting: \<open>DCHECK\<close> is compiled out of release builds.
  The counters and the buffer count are \<open>int\<close> members.
\<close>

record ovda =
  dcheck_is_on :: bool
  fault :: bool
  deleted :: bool
  pre_sandbox_init_done :: bool
  component_handle :: bool
  client_ptr_factory :: bool
  client :: bool
  init_begun :: bool
  client_state :: OMX_STATETYPE
  current_state_change :: CurrentStateChange
  input_buffer_count :: nat
  input_buffer_size :: nat
  input_port :: nat
  input_buffers_at_component :: int
  output_port :: nat
  output_buffers_at_component :: int
  free_input_buffers :: "nat list"
  queued_bitstream_buffers :: "BitstreamBuffer list"
  queued_picture_buffer_ids :: "32 word list"
  pictures :: "(32 word \<times> OutputPicture) list"
  fake_output_buffers :: "nat list"
  last_requested_picture_buffer_dimensions :: "nat \<times> nat"
  codec :: Codec
  h264_profile :: OMX_VIDEO_AVCPROFILETYPE
  headers :: "nat \<Rightarrow> OMX_BUFFERHEADERTYPE option"
  next_header :: nat
  engine :: EngineInfo
  omx_results :: "bool list"
  make_context_current :: bool
  egl_display :: bool
  egl_sync_created :: "bool list"
  egl_synced :: "SyncStatus list"
  pending_sync :: "32 word list"
  busy_loop :: bool
  trace :: "Effect list"

section \<open>Assertions, faults and calls to the outside\<close>

definition crash :: "ovda \<Rightarrow> ovda" where
  "crash s = s\<lparr>fault := True\<rparr>"

text \<open>\<open>DCHECK(c)\<close> stops the process when the build checks it and \<open>c\<close> is false.\<close>

definition DCHECK :: "bool \<Rightarrow> ovda \<Rightarrow> ovda" where
  "DCHECK c s = (if dcheck_is_on s \<and> \<not> c then crash s else s)"

text \<open>Statements in sequence; nothing runs after the process has stopped.\<close>

primrec seq :: "(ovda \<Rightarrow> ovda) list \<Rightarrow> ovda \<Rightarrow> ovda" where
  "seq [] s = s"
| "seq (f # fs) s = (if fault s then s else seq fs (f s))"

definition notify :: "ClientCall \<Rightarrow> ovda \<Rightarrow> ovda" where
  "notify c s = s\<lparr>trace := trace s @ [Client c]\<rparr>"

text \<open>An engine call: its result is the next entry of \<open>omx_results\<close> (\<open>OMX_ErrorNone\<close> once
  the entries are used up); the call and its result are appended to the trace.\<close>

definition omx_ok :: "ovda \<Rightarrow> bool" where
  "omx_ok s = (case omx_results s of [] \<Rightarrow> True | r # _ \<Rightarrow> r)"

definition omx_done :: "OmxCall \<Rightarrow> ovda \<Rightarrow> ovda" where
  "omx_done c s =
     s\<lparr>omx_results := tl (omx_results s), trace := trace s @ [Engine c (omx_ok s)]\<rparr>"

lemma omx_done_shorter:
  "\<not> omx_ok s \<Longrightarrow> length (omx_results (omx_done c s)) < length (omx_results s)"
  by (cases "omx_results s") (simp_all add: omx_ok_def omx_done_def)

lemma DCHECK_omx_results: "omx_results (DCHECK c s) = omx_results s"
  by (simp add: DCHECK_def crash_def)

lemma DCHECK_omx_ok: "omx_ok (DCHECK c s) = omx_ok s"
  by (simp add: omx_ok_def DCHECK_omx_results)

section \<open>\<open>BeginTransitionToState\<close> and \<open>StopOnError\<close>\<close>

text \<open>
  The two methods call each other: \<open>RETURN_ON_OMX_FAILURE\<close> in \<open>BeginTransitionToState\<close>
  calls \<open>StopOnError\<close>, which calls \<open>BeginTransitionToState(OMX_StateInvalid)\<close> before it
  sets \<open>ERRORING\<close>.  Each round consumes one failing engine result.
  \<open>client_ptr_factory_->InvalidateWeakPtrs()\<close> dereferences the factory pointer, which is
  null until \<open>Initialize\<close> creates it.
\<close>

function BeginTransitionToState :: "OMX_STATETYPE \<Rightarrow> ovda \<Rightarrow> ovda"
  and StopOnError :: "Error \<Rightarrow> ovda \<Rightarrow> ovda" where
  "BeginTransitionToState new_state s =
     (let s1 = (if new_state \<noteq> OMX_StateInvalid
                then DCHECK (current_state_change s \<noteq> NO_TRANSITION) s else s)
      in if fault s1 then s1
         else if current_state_change s1 = ERRORING then s1
         else if omx_ok s1 then omx_done (OMX_SendCommandStateSet new_state) s1
         else StopOnError PLATFORM_FAILURE (omx_done (OMX_SendCommandStateSet new_state) s1))"
| "StopOnError error s =
     (if current_state_change s = ERRORING then s
      else
        let s1 = (if client s \<and> init_begun s then notify (NotifyError error) s else s)
        in if \<not> client_ptr_factory s1 then crash s1
           else
             let s2 = s1\<lparr>client := False\<rparr>
             in if client_state s2 = OMX_StateInvalid \<or> client_state s2 = OMX_StateMax then s2
                else
                  let s3 = BeginTransitionToState OMX_StateInvalid s2
                  in if fault s3 then s3 else s3\<lparr>current_state_change := ERRORING\<rparr>)"
  by pat_completeness auto
termination
proof (relation "measure (\<lambda>x. case x of
          Inl (n, s) \<Rightarrow> 2 * length (omx_results s)
        | Inr (e, s) \<Rightarrow> 2 * length (omx_results s) + 1)", goal_cases)
  case 1
  show ?case by simp
next
  case (2 new_state s x)
  have "length (omx_results (omx_done (OMX_SendCommandStateSet new_state) x))
        < length (omx_results x)"
    using 2 by (intro omx_done_shorter) simp
  moreover have "omx_results x = omx_results s"
    using 2 by (simp add: DCHECK_omx_results split: if_splits)
  ultimately show ?case by simp
next
  case (3 error s x xa)
  then show ?case by (simp add: notify_def split: if_splits)
qed

declare BeginTransitionToState.simps [simp del] StopOnError.simps [simp del]

lemma StopOnError_ERRORING:
  "current_state_change s = ERRORING \<Longrightarrow> StopOnError e s = s"
  by (simp add: StopOnError.simps)

section \<open>Profiles and \<open>Initialize\<close>\<close>

text \<open>
  \<open>media::VideoCodecProfile\<close> is an enumeration declared in \<open>media/base/video_codecs.h\<close>,
  which is not among the sources, so the values of its enumerators are a parameter of the
  model: a record with one integer for each enumerator that the source names.  A profile
  is the integer value of its enumerator.
\<close>

record video_codecs =
  H264PROFILE_MIN :: int
  H264PROFILE_BASELINE :: int
  H264PROFILE_MAIN :: int
  H264PROFILE_EXTENDED :: int
  H264PROFILE_HIGH :: int
  H264PROFILE_HIGH10PROFILE :: int
  H264PROFILE_HIGH422PROFILE :: int
  H264PROFILE_HIGH444PREDICTIVEPROFILE :: int
  H264PROFILE_SCALABLEBASELINE :: int
  H264PROFILE_SCALABLEHIGH :: int
  H264PROFILE_STEREOHIGH :: int
  H264PROFILE_MULTIVIEWHIGH :: int
  H264PROFILE_MAX :: int
  VP8PROFILE_MIN :: int
  VP8PROFILE_ANY :: int
  VP8PROFILE_MAX :: int

definition kNumPictureBuffers :: nat where
  "kNumPictureBuffers = 8"

text \<open>The \<open>switch\<close> of \<open>MapH264ProfileToOMXAVCProfile\<close>, case by case; the \<open>default\<close>
  branch returns \<open>OMX_VIDEO_AVCProfileMax\<close> after \<open>NOTREACHED()\<close>, which \<open>Initialize\<close> models
  as a \<open>DCHECK\<close> at the call.  (The method takes the profile as \<open>uint32_t\<close>; the conversion
  is one to one on enumerator values, so the comparisons are those of the integers.)\<close>

definition MapH264ProfileToOMXAVCProfile :: "video_codecs \<Rightarrow> int \<Rightarrow> OMX_VIDEO_AVCPROFILETYPE" where
  "MapH264ProfileToOMXAVCProfile vc profile =
     (if profile = H264PROFILE_BASELINE vc then OMX_VIDEO_AVCProfileBaseline
      else if profile = H264PROFILE_MAIN vc then OMX_VIDEO_AVCProfileMain
      else if profile = H264PROFILE_EXTENDED vc then OMX_VIDEO_AVCProfileExtended
      else if profile = H264PROFILE_HIGH vc then OMX_VIDEO_AVCProfileHigh
      else if profile = H264PROFILE_HIGH10PROFILE vc then OMX_VIDEO_AVCProfileHigh10
      else if profile = H264PROFILE_HIGH422PROFILE vc then OMX_VIDEO_AVCProfileHigh422
      else if profile = H264PROFILE_HIGH444PREDICTIVEPROFILE vc then OMX_VIDEO_AVCProfileHigh444
      else if profile = H264PROFILE_SCALABLEBASELINE vc \<or> profile = H264PROFILE_SCALABLEHIGH vc
              \<or> profile = H264PROFILE_STEREOHIGH vc \<or> profile = H264PROFILE_MULTIVIEWHIGH vc
        then OMX_VIDEO_AVCProfileHigh444
      else OMX_VIDEO_AVCProfileMax)"

definition kSupportedProfiles :: "video_codecs \<Rightarrow> int list" where
  "kSupportedProfiles vc =
     [H264PROFILE_BASELINE vc, H264PROFILE_MAIN vc, H264PROFILE_HIGH vc, VP8PROFILE_ANY vc]"

text \<open>\<open>GetSupportedProfiles\<close>: one entry per element of \<open>kSupportedProfiles\<close>, as
  (profile, min resolution, max resolution, encrypted only).\<close>

definition GetSupportedProfiles ::
  "video_codecs \<Rightarrow> (int \<times> (nat \<times> nat) \<times> (nat \<times> nat) \<times> bool) list" where
  "GetSupportedProfiles vc =
     map (\<lambda>profile. (profile, (16, 16), (1920, 1080), False)) (kSupportedProfiles vc)"

definition SendCommandToPort :: "OMX_COMMANDTYPE \<Rightarrow> nat \<Rightarrow> ovda \<Rightarrow> bool \<times> ovda" where
  "SendCommandToPort cmd port_index s =
     (let s1 = omx_done (OMX_SendCommandPort cmd port_index) s
      in if omx_ok s then (True, s1) else (False, StopOnError PLATFORM_FAILURE s1))"

definition CanFillBuffer :: "ovda \<Rightarrow> bool" where
  "CanFillBuffer s =
     ((current_state_change s \<noteq> DESTROYING \<and> current_state_change s \<noteq> ERRORING
        \<and> current_state_change s \<noteq> RESETTING)
      \<and> (client_state s = OMX_StateIdle \<or> client_state s = OMX_StateExecuting
          \<or> client_state s = OMX_StatePause))"

definition CreateComponent :: "ovda \<Rightarrow> bool \<times> ovda" where
  "CreateComponent s =
     (let role_name = (if codec s = H264 then ''video_decoder.avc'' else ''video_decoder.vpx'');
          s1 = omx_done (OMX_GetComponentsOfRole role_name) s
      in if \<not> omx_ok s then (False, StopOnError PLATFORM_FAILURE s1)
      else if num_components (engine s1) \<noteq> 1 then (False, StopOnError PLATFORM_FAILURE s1)
      else
      let s2 = omx_done OMX_GetHandle s1
      in if \<not> omx_ok s1 then (False, StopOnError PLATFORM_FAILURE s2)
      else
      let s3 = s2\<lparr>component_handle := True, client_state := OMX_StateLoaded\<rparr>;
          s4 = omx_done (OMX_GetParameter OMX_IndexParamVideoInit) s3
      in if \<not> (omx_ok s3 \<and> nPorts (engine s4) = 2)
         then (False, StopOnError PLATFORM_FAILURE s4)
      else
      let s5 = s4\<lparr>input_port := nStartPortNumber (engine s4),
                  output_port := nStartPortNumber (engine s4) + 1\<rparr>;
          s6 = omx_done (OMX_SetParameter OMX_IndexParamStandardComponentRole) s5
      in if \<not> omx_ok s5 then (False, StopOnError PLATFORM_FAILURE s6)
      else
      let s7 = omx_done (OMX_GetParameter OMX_IndexParamPortDefinition) s6
      in if \<not> omx_ok s6 then (False, StopOnError PLATFORM_FAILURE s7)
      else if \<not> input_port_is_input (engine s7) then (False, StopOnError PLATFORM_FAILURE s7)
      else
      let s8 = s7\<lparr>input_buffer_count := nBufferCountActual (engine s7),
                  input_buffer_size := nBufferSize (engine s7)\<rparr>;
          s9 = omx_done (OMX_GetParameter OMX_IndexParamPortDefinition) s8
      in if \<not> omx_ok s8 then (False, StopOnError PLATFORM_FAILURE s9)
      else if \<not> output_port_is_output (engine s9) then (False, StopOnError PLATFORM_FAILURE s9)
      else
      let s10 = omx_done (OMX_SetParameter OMX_IndexParamPortDefinition) s9
      in if \<not> omx_ok s9 then (False, StopOnError PLATFORM_FAILURE s10)
      else (True, s10))"

text \<open>A header as the engine hands it out from \<open>OMX_UseBuffer\<close> / \<open>OMX_AllocateBuffer\<close>:
  the adapter passes a null \<open>pAppPrivate\<close> and size 0.\<close>

definition new_header :: "DataPtr \<Rightarrow> OMX_BUFFERHEADERTYPE" where
  "new_header p =
     \<lparr>pBuffer = p, nAllocLen = 0, nFilledLen = 0, nOffset = 0, pAppPrivate = None,
      nFlags = 0, nTimeStamp = 0, nInputPortIndex = 0, nOutputPortIndex = 0\<rparr>"

text \<open>The body of the \<open>for\<close> loop of \<open>AllocateInputBuffers\<close>, for the iterations that remain.\<close>

fun AllocateInputBuffers_loop :: "nat \<Rightarrow> ovda \<Rightarrow> bool \<times> ovda" where
  "AllocateInputBuffers_loop 0 s = (True, s)"
| "AllocateInputBuffers_loop (Suc n) s =
     (let s1 = omx_done (OMX_UseBuffer (input_port s)) s
      in if \<not> omx_ok s then (False, StopOnError PLATFORM_FAILURE s1)
         else
           let buffer = next_header s1;
               h = (new_header Placeholder)\<lparr>nInputPortIndex := input_port s1, nOffset := 0,
                                              nFlags := 0\<rparr>
           in AllocateInputBuffers_loop n
                (s1\<lparr>headers := (headers s1)(buffer \<mapsto> h), next_header := buffer + 1,
                     free_input_buffers := free_input_buffers s1 @ [buffer]\<rparr>))"

definition AllocateInputBuffers :: "ovda \<Rightarrow> bool \<times> ovda" where
  "AllocateInputBuffers s = AllocateInputBuffers_loop (input_buffer_count s) s"

fun AllocateFakeOutputBuffers_loop :: "nat \<Rightarrow> ovda \<Rightarrow> bool \<times> ovda" where
  "AllocateFakeOutputBuffers_loop 0 s = (True, s)"
| "AllocateFakeOutputBuffers_loop (Suc n) s =
     (let s1 = omx_done (OMX_AllocateBuffer (output_port s)) s
      in if \<not> omx_ok s then (False, StopOnError PLATFORM_FAILURE s1)
         else
           let buffer = next_header s1;
               h = (new_header EngineMem)\<lparr>pAppPrivate := None, nTimeStamp := - 1,
                                            nOutputPortIndex := output_port s1\<rparr>;
               s2 = s1\<lparr>headers := (headers s1)(buffer \<mapsto> h), next_header := buffer + 1\<rparr>
           in if buffer \<in> set (fake_output_buffers s2) then (False, crash s2)
              else AllocateFakeOutputBuffers_loop n
                     (s2\<lparr>fake_output_buffers := insort buffer (fake_output_buffers s2)\<rparr>))"

definition AllocateFakeOutputBuffers :: "ovda \<Rightarrow> bool \<times> ovda" where
  "AllocateFakeOutputBuffers s = AllocateFakeOutputBuffers_loop kNumPictureBuffers s"

text \<open>\<open>Initialize\<close>.  The first \<open>let\<close> is the \<open>if\<close> / \<open>else if\<close> / \<open>else\<close> on the profile:
  its first component is false when the method has returned false there.\<close>

definition Initialize :: "video_codecs \<Rightarrow> int \<Rightarrow> ovda \<Rightarrow> bool \<times> ovda" where
  "Initialize vc profile s =
     (let r1 =
            (if H264PROFILE_MIN vc \<le> profile \<and> profile \<le> H264PROFILE_MAX vc then
               let s1 = DCHECK (MapH264ProfileToOMXAVCProfile vc profile \<noteq> OMX_VIDEO_AVCProfileMax)
                          (s\<lparr>codec := H264\<rparr>);
                   s2 = s1\<lparr>h264_profile := MapH264ProfileToOMXAVCProfile vc profile\<rparr>
               in if fault s2 then (False, s2)
                  else if h264_profile s2 \<noteq> OMX_VIDEO_AVCProfileMax then (True, s2)
                  else (False, StopOnError INVALID_ARGUMENT s2)
             else if VP8PROFILE_MIN vc \<le> profile \<and> profile \<le> VP8PROFILE_MAX vc then
               (True, s\<lparr>codec := VP8\<rparr>)
             else (False, StopOnError INVALID_ARGUMENT s));
          s1 = snd r1
      in if \<not> fst r1 then (False, s1)
      else if \<not> make_context_current s1 then (False, StopOnError PLATFORM_FAILURE s1)
      else
      let r3 = CreateComponent (s1\<lparr>client_ptr_factory := True, client := True\<rparr>); s3 = snd r3
      in if \<not> fst r3 then (False, s3)
      else
      let s4 = DCHECK (current_state_change s3 = NO_TRANSITION) s3
      in if fault s4 then (False, s4)
      else
      let s5 = BeginTransitionToState OMX_StateIdle (s4\<lparr>current_state_change := INITIALIZING\<rparr>)
      in if fault s5 then (False, s5)
      else
      let r6 = AllocateInputBuffers s5; s6 = snd r6
      in if \<not> fst r6 then (False, s6)
      else
      let r7 = AllocateFakeOutputBuffers s6; s7 = snd r7
      in if \<not> fst r7 then (False, s7)
      else (True, s7\<lparr>init_begun := True\<rparr>))"

text \<open>The constructor.  \<open>pre\<close> is the static \<open>pre_sandbox_init_done_\<close>, \<open>stubs\<close> the answer of
  \<open>InitializeStubs\<close>, \<open>display\<close> whether the \<open>egl_display\<close> argument is a display (and not
  \<open>EGL_NO_DISPLAY\<close>); the remaining arguments are the build setting and the outside
  world's future answers.\<close>

definition PostSandboxInitialization :: "bool \<Rightarrow> bool \<Rightarrow> bool" where
  "PostSandboxInitialization pre stubs = (if \<not> pre then False else stubs)"

definition OmxVideoDecodeAccelerator ::
  "bool \<Rightarrow> bool \<Rightarrow> bool \<Rightarrow> EngineInfo \<Rightarrow> bool list \<Rightarrow> bool \<Rightarrow> bool \<Rightarrow> bool list
     \<Rightarrow> SyncStatus list \<Rightarrow> ovda" where
  "OmxVideoDecodeAccelerator dchecks pre stubs eng results display ctx created synced =
     (let s = \<lparr>dcheck_is_on = dchecks, fault = False, deleted = False,
               pre_sandbox_init_done = pre, component_handle = False,
               client_ptr_factory = False, client = False, init_begun = False,
               client_state = OMX_StateMax, current_state_change = NO_TRANSITION,
               input_buffer_count = 0, input_buffer_size = 0, input_port = 0,
               input_buffers_at_component = 0, output_port = 0,
               output_buffers_at_component = 0, free_input_buffers = [],
               queued_bitstream_buffers = [], queued_picture_buffer_ids = [],
               pictures = [], fake_output_buffers = [],
               last_requested_picture_buffer_dimensions = (0, 0), codec = UNKNOWN,
               h264_profile = OMX_VIDEO_AVCProfileMax, headers = (\<lambda>a. None),
               next_header = 0, engine = eng, omx_results = results,
               make_context_current = ctx, egl_display = display,
               egl_sync_created = created, egl_synced = synced, pending_sync = [],
               busy_loop = False, trace = []\<rparr>
      in if \<not> PostSandboxInitialization pre stubs then StopOnError PLATFORM_FAILURE s
         else if omx_ok s then omx_done OMX_Init s
         else StopOnError PLATFORM_FAILURE (omx_done OMX_Init s))"

section \<open>\<open>Decode\<close>\<close>

text \<open>The stamp written into an input header: the \<open>int32_t\<close> id converted to the 64-bit
  \<open>nTimeStamp\<close> (sign extension).\<close>

definition Decode :: "BitstreamBuffer \<Rightarrow> ovda \<Rightarrow> ovda" where
  "Decode bitstream_buffer s =
     (if current_state_change s = RESETTING \<or> current_state_change s = INITIALIZING
         \<or> queued_bitstream_buffers s \<noteq> [] \<or> free_input_buffers s = []
      then s\<lparr>queued_bitstream_buffers := queued_bitstream_buffers s @ [bitstream_buffer]\<rparr>
      else if \<not> ((current_state_change s = NO_TRANSITION \<or> current_state_change s = FLUSHING)
                  \<and> (client_state s = OMX_StateIdle \<or> client_state s = OMX_StateExecuting))
      then StopOnError ILLEGAL_STATE s
      else
        let omx_buffer = hd (free_input_buffers s);
            s1 = s\<lparr>free_input_buffers := tl (free_input_buffers s)\<rparr>
        in case headers s1 omx_buffer of
             None \<Rightarrow> crash s1
           | Some h \<Rightarrow>
               if bb_id bitstream_buffer = - 1 \<and> bb_size bitstream_buffer = 0 then
                 let h1 = h\<lparr>nFilledLen := 0, nAllocLen := 0,
                            nFlags := nFlags h OR OMX_BUFFERFLAG_EOS, nTimeStamp := - 2\<rparr>;
                     s2 = s1\<lparr>headers := (headers s1)(omx_buffer \<mapsto> h1)\<rparr>;
                     s3 = omx_done (OMX_EmptyThisBuffer omx_buffer h1) s2
                 in if \<not> omx_ok s2 then StopOnError PLATFORM_FAILURE s3
                    else s3\<lparr>input_buffers_at_component := input_buffers_at_component s3 + 1\<rparr>
               else if \<not> bb_mappable bitstream_buffer then StopOnError UNREADABLE_INPUT s1
               else
                 let s2 = DCHECK (pAppPrivate h = None) s1
                 in if fault s2 then s2
                    else
                      let h1 = h\<lparr>pAppPrivate := Some (SharedMemoryAndId
                                    (bb_handle bitstream_buffer) (bb_id bitstream_buffer)),
                                 pBuffer := ShmMemory (bb_handle bitstream_buffer),
                                 nFilledLen := bb_size bitstream_buffer,
                                 nAllocLen := bb_size bitstream_buffer,
                                 nFlags := nFlags h AND NOT OMX_BUFFERFLAG_EOS,
                                 nTimeStamp := scast (bb_id bitstream_buffer)\<rparr>;
                          s3 = s2\<lparr>headers := (headers s2)(omx_buffer \<mapsto> h1)\<rparr>;
                          s4 = omx_done (OMX_EmptyThisBuffer omx_buffer h1) s3
                      in if \<not> omx_ok s3 then StopOnError PLATFORM_FAILURE s4
                         else s4\<lparr>input_buffers_at_component :=
                                    input_buffers_at_component s4 + 1\<rparr>)"

section \<open>Pictures: \<open>AssignPictureBuffers\<close>, reuse, queueing\<close>

definition update_picture ::
  "32 word \<Rightarrow> (OutputPicture \<Rightarrow> OutputPicture) \<Rightarrow> (32 word \<times> OutputPicture) list
     \<Rightarrow> (32 word \<times> OutputPicture) list" where
  "update_picture k f ps = map (\<lambda>(k', p). if k' = k then (k', f p) else (k', p)) ps"

text \<open>The loop of \<open>AllocateOutputBuffers\<close> over the entries of \<open>pictures_\<close> that remain.\<close>

fun AllocateOutputBuffers_loop :: "(32 word \<times> OutputPicture) list \<Rightarrow> ovda \<Rightarrow> bool \<times> ovda" where
  "AllocateOutputBuffers_loop [] s = (True, s)"
| "AllocateOutputBuffers_loop ((k, p) # rest) s =
     (let s0 = DCHECK (omx_buffer_header p = None) s
      in if fault s0 then (False, s0)
      else
      let s1 = omx_done (OMX_UseBuffer (output_port s0)) s0
      in if \<not> omx_ok s0 then (False, StopOnError PLATFORM_FAILURE s1)
         else
           let buffer = next_header s1;
               picture = \<lparr>picture_buffer_id = pb_id (picture_buffer p),
                          bitstream_buffer_id = - 1\<rparr>;
               h = (new_header (PictureBufferMem (pb_id (picture_buffer p))))
                     \<lparr>pAppPrivate := Some (PicturePtr picture)\<rparr>
           in AllocateOutputBuffers_loop rest
                (s1\<lparr>headers := (headers s1)(buffer \<mapsto> h), next_header := buffer + 1,
                     pictures := update_picture k (\<lambda>q. q\<lparr>omx_buffer_header := Some buffer\<rparr>)
                                   (pictures s1)\<rparr>))"

definition AllocateOutputBuffers :: "ovda \<Rightarrow> bool \<times> ovda" where
  "AllocateOutputBuffers s =
     (let s1 = DCHECK (pictures s \<noteq> []) s
      in if fault s1 then (False, s1) else AllocateOutputBuffers_loop (pictures s1) s1)"

text \<open>The loop that would insert into \<open>pictures_\<close> has an empty body in the source (the
  insertion is commented out), so \<open>AssignPictureBuffers\<close> registers nothing itself.\<close>

definition AssignPictureBuffers :: "PictureBuffer list \<Rightarrow> ovda \<Rightarrow> ovda" where
  "AssignPictureBuffers buffers s =
     (if current_state_change s = RESETTING \<or> current_state_change s = DESTROYING
         \<or> current_state_change s = ERRORING
      then s
      else if \<not> CanFillBuffer s then StopOnError ILLEGAL_STATE s
      else if kNumPictureBuffers \<noteq> length buffers then StopOnError INVALID_ARGUMENT s
      else
        seq [\<lambda>s. DCHECK (output_buffers_at_component s = 0) s,
             \<lambda>s. DCHECK (length (fake_output_buffers s) = 0) s,
             \<lambda>s. DCHECK (length (pictures s) = 0) s,
             \<lambda>s. if \<not> make_context_current s then s
                  else
                    let r = AllocateOutputBuffers s
                    in if \<not> fst r then snd r
                       else snd (SendCommandToPort OMX_CommandPortEnable
                                   (output_port (snd r)) (snd r))] s)"

definition QueuePictureBuffer :: "32 word \<Rightarrow> ovda \<Rightarrow> ovda" where
  "QueuePictureBuffer picture_id s =
     (if current_state_change s = RESETTING
      then s\<lparr>queued_picture_buffer_ids := queued_picture_buffer_ids s @ [picture_id]\<rparr>
      else if \<not> CanFillBuffer s then s
      else case map_of (pictures s) picture_id of
             None \<Rightarrow> StopOnError INVALID_ARGUMENT s
           | Some output_picture \<Rightarrow>
               let s1 = s\<lparr>output_buffers_at_component := output_buffers_at_component s + 1\<rparr>;
                   s2 = omx_done (OMX_FillThisBuffer (omx_buffer_header output_picture)) s1
               in if omx_ok s1 then s2 else StopOnError PLATFORM_FAILURE s2)"

text \<open>\<open>IsSynced\<close> asks \<open>eglGetSyncAttribKHR\<close>, whose answer is the next entry of \<open>egl_synced\<close>
  (signalled once the entries are used up), asserts that the call succeeded and returns
  whether the value is \<open>EGL_SIGNALED_KHR\<close>.  A fence that has not signalled leaves a poll
  task pending for the picture.\<close>

definition CheckPictureStatus :: "32 word \<Rightarrow> ovda \<Rightarrow> ovda" where
  "CheckPictureStatus picture_id s =
     (case egl_synced s of
        [] \<Rightarrow> QueuePictureBuffer picture_id s
      | status # rest \<Rightarrow>
          let s1 = DCHECK (status \<noteq> EGL_FAILED) (s\<lparr>egl_synced := rest\<rparr>)
          in if fault s1 then s1
             else if status \<noteq> EGL_SIGNALED_KHR
             then s1\<lparr>pending_sync := pending_sync s1 @ [picture_id]\<rparr>
             else QueuePictureBuffer picture_id s1)"

text \<open>\<open>ReusePictureBuffer\<close> constructs a \<open>PictureSyncObject\<close>: the constructor asserts that
  the display is not \<open>EGL_NO_DISPLAY\<close>, creates the fence with \<open>eglCreateSyncKHR\<close> (whose
  answer is the next entry of \<open>egl_sync_created\<close>, a fence once the entries are used up) and
  asserts that it is not \<open>EGL_NO_SYNC_KHR\<close>.\<close>

definition ReusePictureBuffer :: "32 word \<Rightarrow> ovda \<Rightarrow> ovda" where
  "ReusePictureBuffer picture_id s =
     (let s1 = DCHECK (egl_display s) s
      in if fault s1 then s1
      else
      let created = (case egl_sync_created s1 of [] \<Rightarrow> True | c # rest \<Rightarrow> c);
          s2 = DCHECK created
                 (s1\<lparr>trace := trace s1 @ [CreateSync picture_id],
                     egl_sync_created := tl (egl_sync_created s1)\<rparr>)
      in if fault s2 then s2 else CheckPictureStatus picture_id s2)"

section \<open>\<open>Flush\<close>, \<open>Reset\<close> and their completions\<close>

definition Flush :: "ovda \<Rightarrow> ovda" where
  "Flush s =
     seq [\<lambda>s. DCHECK (current_state_change s = NO_TRANSITION) s,
          \<lambda>s. DCHECK (client_state s = OMX_StateExecuting) s,
          \<lambda>s. s\<lparr>current_state_change := FLUSHING\<rparr>,
          Decode \<lparr>bb_id = - 1, bb_handle = 0, bb_size = 0, bb_mappable = False\<rparr>] s"

definition OnReachedEOSInFlushing :: "ovda \<Rightarrow> ovda" where
  "OnReachedEOSInFlushing s =
     seq [\<lambda>s. DCHECK (client_state s = OMX_StateExecuting) s,
          \<lambda>s. s\<lparr>current_state_change := NO_TRANSITION\<rparr>,
          \<lambda>s. if client s then notify NotifyFlushDone s else s] s"

definition FlushIOPorts :: "ovda \<Rightarrow> ovda" where
  "FlushIOPorts s = snd (SendCommandToPort OMX_CommandFlush (input_port s) s)"

definition InputPortFlushDone :: "ovda \<Rightarrow> ovda" where
  "InputPortFlushDone s =
     seq [\<lambda>s. DCHECK (input_buffers_at_component s = 0) s,
          \<lambda>s. snd (SendCommandToPort OMX_CommandFlush (output_port s) s)] s"

definition OutputPortFlushDone :: "ovda \<Rightarrow> ovda" where
  "OutputPortFlushDone s =
     seq [\<lambda>s. DCHECK (output_buffers_at_component s = 0) s,
          BeginTransitionToState OMX_StateExecuting] s"

definition Reset :: "ovda \<Rightarrow> ovda" where
  "Reset s =
     seq [\<lambda>s. DCHECK (current_state_change s = NO_TRANSITION) s,
          \<lambda>s. DCHECK (client_state s = OMX_StateExecuting) s,
          \<lambda>s. s\<lparr>current_state_change := RESETTING\<rparr>,
          BeginTransitionToState OMX_StatePause] s"

section \<open>Teardown\<close>

definition ShutdownComponent :: "ovda \<Rightarrow> ovda" where
  "ShutdownComponent s =
     (let s1 = omx_done OMX_FreeHandle s;
          s2 = omx_done OMX_Deinit (s1\<lparr>client_state := OMX_StateMax\<rparr>)
      in s2\<lparr>component_handle := False\<rparr>)"

text \<open>The destructor: its \<open>DCHECK\<close>s, then the object is gone.\<close>

definition destructor :: "ovda \<Rightarrow> ovda" where
  "destructor s =
     seq [\<lambda>s. DCHECK (free_input_buffers s = []) s,
          \<lambda>s. DCHECK (input_buffers_at_component s = 0) s,
          \<lambda>s. DCHECK (output_buffers_at_component s = 0) s,
          \<lambda>s. DCHECK (pictures s = []) s,
          \<lambda>s. s\<lparr>deleted := True, busy_loop := False\<rparr>] s"

text \<open>\<open>BusyLoopInDestroying\<close> owns the object: it lets go of it (which deletes it) once the
  handle is null, and otherwise posts itself again.\<close>

definition BusyLoopInDestroying :: "ovda \<Rightarrow> ovda" where
  "BusyLoopInDestroying s =
     (if \<not> component_handle s then destructor s else s\<lparr>busy_loop := True\<rparr>)"

text \<open>\<open>OMX_FreeBuffer\<close> on each header of a list, collecting \<open>failure_seen\<close>; a header that
  was freed leaves the engine's heap.\<close>

fun free_headers :: "nat \<Rightarrow> nat list \<Rightarrow> bool \<times> ovda \<Rightarrow> bool \<times> ovda" where
  "free_headers port [] r = r"
| "free_headers port (a # as) (failure_seen, s) =
     free_headers port as
       (failure_seen \<or> \<not> omx_ok s,
        (omx_done (OMX_FreeBuffer port a) s)
          \<lparr>headers := (if omx_ok s then (headers s)(a := None) else headers s)\<rparr>)"

fun FreeOMXBuffers_pictures ::
  "(32 word \<times> OutputPicture) list \<Rightarrow> bool \<times> ovda \<Rightarrow> bool \<times> ovda" where
  "FreeOMXBuffers_pictures [] r = r"
| "FreeOMXBuffers_pictures ((k, p) # rest) (failure_seen, s) =
     (if fault s then (failure_seen, s)
      else case omx_buffer_header p of
             None \<Rightarrow> (failure_seen, crash s)
           | Some a \<Rightarrow>
               (case headers s a of
                  None \<Rightarrow> (failure_seen, crash s)
                | Some h \<Rightarrow>
                    let s1 = (omx_done (OMX_FreeBuffer (output_port s) a) s)
                               \<lparr>headers := (if omx_ok s then (headers s)(a := None)
                                             else headers s)\<rparr>;
                        s2 = (if client s1 then notify (DismissPictureBuffer k) s1 else s1)
                    in FreeOMXBuffers_pictures rest (failure_seen \<or> \<not> omx_ok s, s2)))"

definition FreeOMXBuffers :: "ovda \<Rightarrow> ovda" where
  "FreeOMXBuffers s =
     (let r1 = free_headers (input_port s) (free_input_buffers s) (False, s);
          s1 = (snd r1)\<lparr>free_input_buffers := []\<rparr>;
          r2 = FreeOMXBuffers_pictures (pictures s1) (fst r1, s1)
      in if fault (snd r2) then snd r2
      else
      let s2 = (snd r2)\<lparr>pictures := []\<rparr>;
          r3 = free_headers (output_port s2) (fake_output_buffers s2) (fst r2, s2);
          s3 = (snd r3)\<lparr>fake_output_buffers := []\<rparr>;
          s4 = (if client s3
                then s3\<lparr>trace := trace s3
                          @ map (\<lambda>i. Client (DismissPictureBuffer i)) (queued_picture_buffer_ids s3)\<rparr>
                else s3);
          s5 = s4\<lparr>queued_picture_buffer_ids := []\<rparr>
      in if fst r3 then StopOnError PLATFORM_FAILURE s5 else s5)"

definition Destroy :: "ovda \<Rightarrow> ovda" where
  "Destroy s =
     (if \<not> client_ptr_factory s then crash s
      else
        let s1 = s\<lparr>client := False\<rparr>
        in if current_state_change s1 = ERRORING \<or> current_state_change s1 = DESTROYING
           then destructor s1
           else
             let s2 = DCHECK (current_state_change s1 = NO_TRANSITION
                              \<or> current_state_change s1 = FLUSHING
                              \<or> current_state_change s1 = RESETTING) s1
             in if fault s2 then s2
                else if client_state s2 = OMX_StateMax then destructor s2
                else if client_state s2 = OMX_StateInvalid \<or> client_state s2 = OMX_StateLoaded
                then seq [ShutdownComponent, destructor] s2
                else
                  seq [\<lambda>s. DCHECK (client_state s = OMX_StateExecuting
                                    \<or> client_state s = OMX_StateIdle
                                    \<or> client_state s = OMX_StatePause) s,
                       \<lambda>s. s\<lparr>current_state_change := DESTROYING\<rparr>,
                       BeginTransitionToState OMX_StateIdle,
                       BusyLoopInDestroying] s2)"

definition OnReachedIdleInDestroying :: "ovda \<Rightarrow> ovda" where
  "OnReachedIdleInDestroying s =
     seq [\<lambda>s. DCHECK (client_state s = OMX_StateExecuting \<or> client_state s = OMX_StateIdle
                       \<or> client_state s = OMX_StatePause) s,
          \<lambda>s. s\<lparr>client_state := OMX_StateIdle\<rparr>,
          BeginTransitionToState OMX_StateLoaded,
          FreeOMXBuffers] s"

definition OnReachedLoadedInDestroying :: "ovda \<Rightarrow> ovda" where
  "OnReachedLoadedInDestroying s =
     seq [\<lambda>s. DCHECK (client_state s = OMX_StateIdle) s,
          \<lambda>s. s\<lparr>client_state := OMX_StateLoaded, current_state_change := NO_TRANSITION\<rparr>,
          ShutdownComponent] s"

definition OnReachedInvalidInErroring :: "ovda \<Rightarrow> ovda" where
  "OnReachedInvalidInErroring s =
     seq [\<lambda>s. s\<lparr>client_state := OMX_StateInvalid\<rparr>, FreeOMXBuffers, ShutdownComponent] s"

section \<open>Engine acknowledgements while initializing and resetting\<close>

definition OnReachedIdleInInitializing :: "ovda \<Rightarrow> ovda" where
  "OnReachedIdleInInitializing s =
     seq [\<lambda>s. DCHECK (client_state s = OMX_StateLoaded) s,
          \<lambda>s. s\<lparr>client_state := OMX_StateIdle\<rparr>,
          BeginTransitionToState OMX_StateExecuting] s"

fun FillFakeOutputBuffers :: "nat list \<Rightarrow> ovda \<Rightarrow> bool \<times> ovda" where
  "FillFakeOutputBuffers [] s = (True, s)"
| "FillFakeOutputBuffers (buffer # rest) s =
     (let s1 = omx_done (OMX_FillThisBuffer (Some buffer)) s
      in if \<not> omx_ok s then (False, StopOnError PLATFORM_FAILURE s1)
         else FillFakeOutputBuffers rest
                (s1\<lparr>output_buffers_at_component := output_buffers_at_component s1 + 1\<rparr>))"

definition OnReachedExecutingInInitializing :: "ovda \<Rightarrow> ovda" where
  "OnReachedExecutingInInitializing s =
     seq [\<lambda>s. DCHECK (client_state s = OMX_StateIdle) s,
          \<lambda>s. s\<lparr>client_state := OMX_StateExecuting, current_state_change := NO_TRANSITION\<rparr>,
          \<lambda>s. let r = FillFakeOutputBuffers (fake_output_buffers s) s
               in if \<not> fst r then snd r
                  else if client (snd r) then notify (NotifyInitializationComplete True) (snd r)
                  else snd r] s"

definition OnReachedPauseInResetting :: "ovda \<Rightarrow> ovda" where
  "OnReachedPauseInResetting s =
     seq [\<lambda>s. DCHECK (client_state s = OMX_StateExecuting) s,
          \<lambda>s. s\<lparr>client_state := OMX_StatePause\<rparr>,
          FlushIOPorts] s"

text \<open>\<open>DecodeQueuedBitstreamBuffers\<close> swaps the queue into a local vector, so the queue is
  empty whether or not the buffers are then decoded.\<close>

definition DecodeQueuedBitstreamBuffers :: "ovda \<Rightarrow> ovda" where
  "DecodeQueuedBitstreamBuffers s =
     (let buffers = queued_bitstream_buffers s;
          s1 = s\<lparr>queued_bitstream_buffers := []\<rparr>
      in if current_state_change s1 = DESTROYING \<or> current_state_change s1 = ERRORING then s1
         else seq (map Decode buffers) s1)"

text \<open>
  The second loop of \<open>OnReachedExecutingInResetting\<close> indexes the member vector
  \<open>queued_picture_buffer_ids_\<close> itself and compares against its current size, while its
  body may append to that vector (\<open>QueuePictureBuffer\<close> does when a reset is in progress).
  It is therefore a loop that need not end, and its result is optional.
\<close>

partial_function (option) ReuseQueuedPictureBuffers :: "nat \<Rightarrow> ovda \<Rightarrow> ovda option" where
  "ReuseQueuedPictureBuffers i s =
     (if fault s then Some s
      else if i < length (queued_picture_buffer_ids s)
      then ReuseQueuedPictureBuffers (Suc i)
             (ReusePictureBuffer (queued_picture_buffer_ids s ! i) s)
      else Some s)"

declare ReuseQueuedPictureBuffers.simps [code]

text \<open>The last statement, \<open>client_->NotifyResetDone()\<close>, dereferences the weak pointer
  without testing it.\<close>

definition OnReachedExecutingInResetting :: "ovda \<Rightarrow> ovda option" where
  "OnReachedExecutingInResetting s =
     (let s0 = DCHECK (client_state s = OMX_StatePause) s
      in if fault s0 then Some s0
      else
      let s1 = s0\<lparr>client_state := OMX_StateExecuting, current_state_change := NO_TRANSITION\<rparr>
      in if \<not> client s1 then Some s1
      else
      let s2 = DecodeQueuedBitstreamBuffers s1
      in if fault s2 then Some s2
      else case ReuseQueuedPictureBuffers 0 s2 of
             None \<Rightarrow> None
           | Some s3 \<Rightarrow>
               if fault s3 then Some s3
               else
                 let s4 = s3\<lparr>queued_picture_buffer_ids := []\<rparr>
                 in if \<not> client s4 then Some (crash s4)
                    else Some (notify NotifyResetDone s4))"

section \<open>Port events and returned buffers\<close>

definition OnOutputPortDisabled :: "ovda \<Rightarrow> ovda" where
  "OnOutputPortDisabled s =
     (let s1 = omx_done (OMX_GetParameter OMX_IndexParamPortDefinition) s
      in if \<not> omx_ok s then StopOnError PLATFORM_FAILURE s1
         else
           seq [\<lambda>s. DCHECK (nBufferCountMin (engine s) \<le> kNumPictureBuffers) s,
                \<lambda>s. s\<lparr>last_requested_picture_buffer_dimensions :=
                          (nFrameWidth (engine s), nFrameHeight (engine s))\<rparr>,
                \<lambda>s. if client s
                     then notify (ProvidePictureBuffers kNumPictureBuffers
                                    (nFrameWidth (engine s)) (nFrameHeight (engine s))) s
                     else s] s1)"

fun OnOutputPortEnabled_loop :: "(32 word \<times> OutputPicture) list \<Rightarrow> ovda \<Rightarrow> ovda" where
  "OnOutputPortEnabled_loop [] s = s"
| "OnOutputPortEnabled_loop ((k, p) # rest) s =
     (case omx_buffer_header p of
        None \<Rightarrow> crash s
      | Some a \<Rightarrow>
          (case headers s a of
             None \<Rightarrow> crash s
           | Some h \<Rightarrow>
               let h1 = h\<lparr>nFlags := nFlags h AND NOT OMX_BUFFERFLAG_EOS,
                          nOutputPortIndex := output_port s\<rparr>;
                   s1 = s\<lparr>headers := (headers s)(a \<mapsto> h1),
                          output_buffers_at_component := output_buffers_at_component s + 1\<rparr>;
                   s2 = omx_done (OMX_FillThisBuffer (Some a)) s1
               in if \<not> omx_ok s1 then StopOnError PLATFORM_FAILURE s2
                  else OnOutputPortEnabled_loop rest s2))"

definition OnOutputPortEnabled :: "ovda \<Rightarrow> ovda" where
  "OnOutputPortEnabled s =
     (if current_state_change s = RESETTING
      then s\<lparr>queued_picture_buffer_ids := queued_picture_buffer_ids s @ map fst (pictures s)\<rparr>
      else if \<not> CanFillBuffer s then StopOnError ILLEGAL_STATE s
      else OnOutputPortEnabled_loop (pictures s) s)"

text \<open>\<open>FillBufferDoneTask\<close>.  The picture id read at the top is that of the header's
  \<open>media::Picture\<close>, or \<open>-1\<close> when \<open>pAppPrivate\<close> is null.  The bitstream buffer id given to
  the client is the header's 64-bit \<open>nTimeStamp\<close> converted to \<open>int32_t\<close>.\<close>

definition FillBufferDoneTask :: "nat \<Rightarrow> ovda \<Rightarrow> ovda" where
  "FillBufferDoneTask buffer s =
     (case headers s buffer of
        None \<Rightarrow> crash s
      | Some h \<Rightarrow>
          (case pAppPrivate h of
             Some (SharedMemoryAndId m i) \<Rightarrow> crash s
           | _ \<Rightarrow>
          let picture = (case pAppPrivate h of Some (PicturePtr p) \<Rightarrow> Some p | _ \<Rightarrow> None);
              picture_id = (case picture of Some p \<Rightarrow> picture_buffer_id p | None \<Rightarrow> - 1)
          in
          seq [\<lambda>s. DCHECK (output_buffers_at_component s > 0) s,
               \<lambda>s. s\<lparr>output_buffers_at_component := output_buffers_at_component s - 1\<rparr>,
               \<lambda>s. if current_state_change s = DESTROYING \<or> current_state_change s = ERRORING
                    then s
                    else if fake_output_buffers s \<noteq> [] \<and> buffer \<in> set (fake_output_buffers s)
                    then
                      let s1 = s\<lparr>fake_output_buffers := removeAll buffer (fake_output_buffers s)\<rparr>;
                          s2 = (omx_done (OMX_FreeBuffer (output_port s1) buffer) s1)
                                 \<lparr>headers := (if omx_ok s1 then (headers s1)(buffer := None)
                                               else headers s1)\<rparr>
                      in if \<not> omx_ok s1 then StopOnError PLATFORM_FAILURE s2 else s2
                    else
                      seq [\<lambda>s. DCHECK (fake_output_buffers s = []) s,
                           \<lambda>s. if nFlags h AND OMX_BUFFERFLAG_EOS \<noteq> 0
                                then
                                  seq [\<lambda>s. s\<lparr>headers := (headers s)(buffer \<mapsto>
                                             h\<lparr>nFlags := nFlags h AND NOT OMX_BUFFERFLAG_EOS\<rparr>)\<rparr>,
                                       OnReachedEOSInFlushing,
                                       ReusePictureBuffer picture_id] s
                                else if current_state_change s = RESETTING
                                then s\<lparr>queued_picture_buffer_ids :=
                                          queued_picture_buffer_ids s @ [picture_id]\<rparr>
                                else
                                  (case picture of
                                     None \<Rightarrow> crash s
                                   | Some p \<Rightarrow>
                                       let p1 = p\<lparr>bitstream_buffer_id := ucast (nTimeStamp h)\<rparr>;
                                           s1 = s\<lparr>headers := (headers s)(buffer \<mapsto>
                                                  h\<lparr>pAppPrivate := Some (PicturePtr p1)\<rparr>)\<rparr>
                                       in if client s1 then notify (PictureReady p1) s1
                                          else s1)] s] s))"

text \<open>\<open>EmptyBufferDoneTask\<close>.  \<open>input_buffer_details->second\<close> is read only when the client
  is still there; \<open>delete\<close> of a null pointer does nothing.\<close>

definition EmptyBufferDoneTask :: "nat \<Rightarrow> ovda \<Rightarrow> ovda" where
  "EmptyBufferDoneTask buffer s =
     seq [\<lambda>s. DCHECK (input_buffers_at_component s > 0) s,
          \<lambda>s. s\<lparr>free_input_buffers := free_input_buffers s @ [buffer],
                 input_buffers_at_component := input_buffers_at_component s - 1\<rparr>,
          \<lambda>s. case headers s buffer of
                 None \<Rightarrow> crash s
               | Some h \<Rightarrow>
                   if nFlags h AND OMX_BUFFERFLAG_EOS \<noteq> 0 then s
                   else
                     seq [\<lambda>s. DCHECK (pAppPrivate h \<noteq> None) s,
                          \<lambda>s. s\<lparr>headers := (headers s)(buffer \<mapsto> h\<lparr>pAppPrivate := None\<rparr>)\<rparr>,
                          \<lambda>s. if client s
                               then (case pAppPrivate h of
                                       Some (SharedMemoryAndId m i) \<Rightarrow>
                                         notify (NotifyEndOfBitstreamBuffer i) s
                                     | _ \<Rightarrow> crash s)
                               else s,
                          DecodeQueuedBitstreamBuffers] s] s"

section \<open>Dispatch of engine events\<close>

definition DispatchStateReached :: "OMX_STATETYPE \<Rightarrow> ovda \<Rightarrow> ovda option" where
  "DispatchStateReached reached s =
     (case current_state_change s of
        INITIALIZING \<Rightarrow>
          (if reached = OMX_StateIdle then Some (OnReachedIdleInInitializing s)
           else if reached = OMX_StateExecuting then Some (OnReachedExecutingInInitializing s)
           else Some (DCHECK False s))
      | RESETTING \<Rightarrow>
          (if reached = OMX_StatePause then Some (OnReachedPauseInResetting s)
           else if reached = OMX_StateExecuting then OnReachedExecutingInResetting s
           else Some (DCHECK False s))
      | DESTROYING \<Rightarrow>
          (if reached = OMX_StatePause \<or> reached = OMX_StateExecuting then Some s
           else if reached = OMX_StateIdle then Some (OnReachedIdleInDestroying s)
           else if reached = OMX_StateLoaded then Some (OnReachedLoadedInDestroying s)
           else Some (DCHECK False s))
      | ERRORING \<Rightarrow>
          (if reached = OMX_StateInvalid then Some (OnReachedInvalidInErroring s)
           else Some (DCHECK False s))
      | _ \<Rightarrow> Some (DCHECK False s))"

text \<open>An engine event as \<open>EventHandlerCompleteTask\<close> distinguishes them: the event kind with
  \<open>data1\<close> and \<open>data2\<close> decoded the way the \<open>switch\<close> reads them.\<close>

datatype OmxEvent =
  CmdComplete_PortDisable nat
  | CmdComplete_PortEnable nat
  | CmdComplete_StateSet OMX_STATETYPE
  | CmdComplete_Flush nat
  | CmdComplete_Other
  | EventError
  | EventPortSettingsChanged nat OMX_INDEXTYPE
  | EventBufferFlag nat
  | EventOther

definition EventHandlerCompleteTask :: "OmxEvent \<Rightarrow> ovda \<Rightarrow> ovda option" where
  "EventHandlerCompleteTask ev s =
     (case ev of
        CmdComplete_PortDisable data2 \<Rightarrow>
          Some (seq [\<lambda>s. DCHECK (data2 = output_port s) s, OnOutputPortDisabled] s)
      | CmdComplete_PortEnable data2 \<Rightarrow>
          Some (seq [\<lambda>s. DCHECK (data2 = output_port s) s, OnOutputPortEnabled] s)
      | CmdComplete_StateSet reached \<Rightarrow> DispatchStateReached reached s
      | CmdComplete_Flush data2 \<Rightarrow>
          (if current_state_change s = DESTROYING \<or> current_state_change s = ERRORING
           then Some s
           else
             let s1 = DCHECK (current_state_change s = RESETTING) s
             in if fault s1 then Some s1
                else if data2 = input_port s1 then Some (InputPortFlushDone s1)
                else if data2 = output_port s1 then Some (OutputPortFlushDone s1)
                else Some (DCHECK False s1))
      | CmdComplete_Other \<Rightarrow> Some (StopOnError PLATFORM_FAILURE s)
      | EventError \<Rightarrow>
          (if current_state_change s \<noteq> DESTROYING \<and> current_state_change s \<noteq> ERRORING
           then Some (StopOnError PLATFORM_FAILURE s) else Some s)
      | EventPortSettingsChanged data1 data2 \<Rightarrow>
          (if data1 = output_port s \<and> data2 = OMX_IndexParamPortDefinition
           then Some (snd (SendCommandToPort OMX_CommandPortDisable (output_port s) s))
           else if data1 = output_port s \<and> data2 = OMX_IndexConfigCommonOutputCrop then Some s
           else if data1 = output_port s \<and> data2 = OMX_IndexConfigCommonScale then Some s
           else Some (StopOnError PLATFORM_FAILURE s))
      | EventBufferFlag data1 \<Rightarrow>
          (if data1 = output_port s
           then (if current_state_change s = DESTROYING then Some s
                 else Some (DCHECK (current_state_change s = FLUSHING) s))
           else Some (StopOnError PLATFORM_FAILURE s))
      | EventOther \<Rightarrow> Some (StopOnError PLATFORM_FAILURE s))"

section \<open>One object over time\<close>

text \<open>
  What can happen to the object: a call by the client, or a task that was posted to the
  client thread.  The three engine callbacks and the fence poll are posted through the weak
  pointer to the object, so they do nothing once it is deleted; the keep-alive task of
  \<open>Destroy\<close> holds the object itself.  Before \<open>FillBufferDoneTask\<close> runs the engine has
  written the flags and the timestamp of the header it returns.  Nothing happens in a
  process that has stopped; a client call on a deleted object is a use after free.
\<close>

datatype Op =
  Call_Initialize int
  | Call_Decode BitstreamBuffer
  | Call_AssignPictureBuffers "PictureBuffer list"
  | Call_ReusePictureBuffer "32 word"
  | Call_Flush
  | Call_Reset
  | Call_Destroy
  | Task_EventHandlerComplete OmxEvent
  | Task_EmptyBufferDone nat
  | Task_FillBufferDone nat "32 word" "64 word"
  | Task_CheckPictureStatus "32 word"
  | Task_BusyLoopInDestroying

definition engine_writes :: "nat \<Rightarrow> 32 word \<Rightarrow> 64 word \<Rightarrow> ovda \<Rightarrow> ovda" where
  "engine_writes a fl ts s =
     (case headers s a of
        None \<Rightarrow> s
      | Some h \<Rightarrow> s\<lparr>headers := (headers s)(a \<mapsto> h\<lparr>nFlags := fl, nTimeStamp := ts\<rparr>)\<rparr>)"

definition step :: "video_codecs \<Rightarrow> Op \<Rightarrow> ovda \<Rightarrow> ovda option" where
  "step vc op s =
     (if fault s then Some s
      else case op of
        Call_Initialize profile \<Rightarrow>
          Some (if deleted s then crash s else snd (Initialize vc profile s))
      | Call_Decode b \<Rightarrow> Some (if deleted s then crash s else Decode b s)
      | Call_AssignPictureBuffers bs \<Rightarrow>
          Some (if deleted s then crash s else AssignPictureBuffers bs s)
      | Call_ReusePictureBuffer i \<Rightarrow>
          Some (if deleted s then crash s else ReusePictureBuffer i s)
      | Call_Flush \<Rightarrow> Some (if deleted s then crash s else Flush s)
      | Call_Reset \<Rightarrow> Some (if deleted s then crash s else Reset s)
      | Call_Destroy \<Rightarrow> Some (if deleted s then crash s else Destroy s)
      | Task_EventHandlerComplete ev \<Rightarrow>
          (if deleted s then Some s else EventHandlerCompleteTask ev s)
      | Task_EmptyBufferDone a \<Rightarrow> Some (if deleted s then s else EmptyBufferDoneTask a s)
      | Task_FillBufferDone a fl ts \<Rightarrow>
          Some (if deleted s then s else FillBufferDoneTask a (engine_writes a fl ts s))
      | Task_CheckPictureStatus i \<Rightarrow>
          Some (if deleted s \<or> i \<notin> set (pending_sync s) then s
                else CheckPictureStatus i (s\<lparr>pending_sync := remove1 i (pending_sync s)\<rparr>))
      | Task_BusyLoopInDestroying \<Rightarrow>
          Some (if busy_loop s then BusyLoopInDestroying s else s))"

fun run :: "video_codecs \<Rightarrow> Op list \<Rightarrow> ovda \<Rightarrow> ovda option" where
  "run vc [] s = Some s"
| "run vc (op # ops) s = (case step vc op s of None \<Rightarrow> None | Some s1 \<Rightarrow> run vc ops s1)"

section \<open>Describing traces\<close>

text \<open>\<open>adds_only P t t'\<close>: the trace \<open>t'\<close> is \<open>t\<close> followed by effects that all satisfy \<open>P\<close>.\<close>

definition adds_only :: "(Effect \<Rightarrow> bool) \<Rightarrow> Effect list \<Rightarrow> Effect list \<Rightarrow> bool" where
  "adds_only P t t' \<longleftrightarrow> (\<exists>es. t' = t @ es \<and> list_all P es)"

text \<open>The effects \<open>StopOnError\<close> can have: the error notification and the request to go
  to \<open>OMX_StateInvalid\<close>.\<close>

definition stop_effect :: "Effect \<Rightarrow> bool" where
  "stop_effect e =
     (case e of
        Client (NotifyError x) \<Rightarrow> True
      | Engine (OMX_SendCommandStateSet st) r \<Rightarrow> st = OMX_StateInvalid
      | _ \<Rightarrow> False)"

text \<open>\<open>StopOnError\<close> and \<open>BeginTransitionToState\<close> write five members only; two objects
  agree elsewhere when they are equal after these five are reset.\<close>

definition stop_reset :: "ovda \<Rightarrow> ovda" where
  "stop_reset s = s\<lparr>fault := False, client := False, current_state_change := NO_TRANSITION,
                     omx_results := [], trace := []\<rparr>"

definition is_EmptyThisBuffer :: "Effect \<Rightarrow> bool" where
  "is_EmptyThisBuffer e = (case e of Engine (OMX_EmptyThisBuffer a h) r \<Rightarrow> True | _ \<Rightarrow> False)"

definition is_client_call :: "Effect \<Rightarrow> bool" where
  "is_client_call e = (case e of Client c \<Rightarrow> True | _ \<Rightarrow> False)"

definition is_NotifyError :: "Effect \<Rightarrow> bool" where
  "is_NotifyError e = (case e of Client (NotifyError x) \<Rightarrow> True | _ \<Rightarrow> False)"

section \<open>A concrete engine and a concrete object\<close>

text \<open>An engine that offers one component with two ports and two input buffers, and an
  object constructed on it; \<open>d\<close> is whether the build checks its \<open>DCHECK\<close>s.  Every engine
  call succeeds, the context can be made current, every fence has signalled.\<close>

definition example_engine :: EngineInfo where
  "example_engine =
     \<lparr>num_components = 1, nPorts = 2, nStartPortNumber = 0, input_port_is_input = True,
      output_port_is_output = True, nBufferCountActual = 2, nBufferSize = 4096,
      nBufferCountMin = 4, nFrameWidth = 640, nFrameHeight = 480\<rparr>"

definition example_new :: "bool \<Rightarrow> ovda" where
  "example_new d = OmxVideoDecodeAccelerator d True True example_engine [] True True [] []"

definition example_input_header :: OMX_BUFFERHEADERTYPE where
  "example_input_header =
     \<lparr>pBuffer = Placeholder, nAllocLen = 0, nFilledLen = 0, nOffset = 0, pAppPrivate = None,
      nFlags = 0, nTimeStamp = 0, nInputPortIndex = 0, nOutputPortIndex = 0\<rparr>"

definition example_fake_header :: OMX_BUFFERHEADERTYPE where
  "example_fake_header =
     \<lparr>pBuffer = EngineMem, nAllocLen = 0, nFilledLen = 0, nOffset = 0, pAppPrivate = None,
      nFlags = 0, nTimeStamp = - 1, nInputPortIndex = 0, nOutputPortIndex = 1\<rparr>"

definition example_trace :: "Effect list" where
  "example_trace =
     [Engine OMX_Init True,
      Engine (OMX_GetComponentsOfRole ''video_decoder.avc'') True,
      Engine OMX_GetHandle True,
      Engine (OMX_GetParameter OMX_IndexParamVideoInit) True,
      Engine (OMX_SetParameter OMX_IndexParamStandardComponentRole) True,
      Engine (OMX_GetParameter OMX_IndexParamPortDefinition) True,
      Engine (OMX_GetParameter OMX_IndexParamPortDefinition) True,
      Engine (OMX_SetParameter OMX_IndexParamPortDefinition) True,
      Engine (OMX_SendCommandStateSet OMX_StateIdle) True,
      Engine (OMX_UseBuffer 0) True, Engine (OMX_UseBuffer 0) True,
      Engine (OMX_AllocateBuffer 1) True, Engine (OMX_AllocateBuffer 1) True,
      Engine (OMX_AllocateBuffer 1) True, Engine (OMX_AllocateBuffer 1) True,
      Engine (OMX_AllocateBuffer 1) True, Engine (OMX_AllocateBuffer 1) True,
      Engine (OMX_AllocateBuffer 1) True, Engine (OMX_AllocateBuffer 1) True,
      Engine (OMX_SendCommandStateSet OMX_StateExecuting) True,
      Engine (OMX_FillThisBuffer (Some 2)) True, Engine (OMX_FillThisBuffer (Some 3)) True,
      Engine (OMX_FillThisBuffer (Some 4)) True, Engine (OMX_FillThisBuffer (Some 5)) True,
      Engine (OMX_FillThisBuffer (Some 6)) True, Engine (OMX_FillThisBuffer (Some 7)) True,
      Engine (OMX_FillThisBuffer (Some 8)) True, Engine (OMX_FillThisBuffer (Some 9)) True,
      Client (NotifyInitializationComplete True)]"

text \<open>The object after \<open>Initialize(H264PROFILE_MAIN)\<close> and after the engine has acknowledged
  \<open>OMX_StateIdle\<close> and then \<open>OMX_StateExecuting\<close>: no operation in progress, the engine
  executing, both input headers (addresses 0 and 1) free, the eight fake output buffers
  (addresses 2 to 9) at the engine.\<close>

definition example_executing :: "bool \<Rightarrow> ovda" where
  "example_executing d =
     \<lparr>dcheck_is_on = d, fault = False, deleted = False, pre_sandbox_init_done = True,
      component_handle = True, client_ptr_factory = True, client = True, init_begun = True,
      client_state = OMX_StateExecuting, current_state_change = NO_TRANSITION,
      input_buffer_count = 2, input_buffer_size = 4096, input_port = 0,
      input_buffers_at_component = 0, output_port = 1, output_buffers_at_component = 8,
      free_input_buffers = [0, 1], queued_bitstream_buffers = [],
      queued_picture_buffer_ids = [], pictures = [],
      fake_output_buffers = [2, 3, 4, 5, 6, 7, 8, 9],
      last_requested_picture_buffer_dimensions = (0, 0), codec = H264,
      h264_profile = OMX_VIDEO_AVCProfileMain,
      headers = [0 \<mapsto> example_input_header, 1 \<mapsto> example_input_header,
                 2 \<mapsto> example_fake_header, 3 \<mapsto> example_fake_header,
                 4 \<mapsto> example_fake_header, 5 \<mapsto> example_fake_header,
                 6 \<mapsto> example_fake_header, 7 \<mapsto> example_fake_header,
                 8 \<mapsto> example_fake_header, 9 \<mapsto> example_fake_header],
      next_header = 10, engine = example_engine, omx_results = [],
      make_context_current = True, egl_display = True, egl_sync_created = [],
      egl_synced = [], pending_sync = [], busy_loop = False,
      trace = example_trace\<rparr>"

text \<open>A bitstream buffer of 1 KiB with id 5 whose shared memory maps.\<close>

definition example_buffer :: BitstreamBuffer where
  "example_buffer = \<lparr>bb_id = 5, bb_handle = 42, bb_size = 1024, bb_mappable = True\<rparr>"

section \<open>Facts about \<open>StopOnError\<close>\<close>

lemma adds_only_refl [simp]: "adds_only P t t"
  by (simp add: adds_only_def)

lemma adds_only_trans: "adds_only P t t' \<Longrightarrow> adds_only P t' t'' \<Longrightarrow> adds_only P t t''"
  by (auto simp: adds_only_def)

lemma adds_only_snoc: "P e \<Longrightarrow> adds_only P t (t @ [e])"
  by (simp add: adds_only_def)

lemma adds_only_snoc_left: "P e \<Longrightarrow> adds_only P (t @ [e]) t' \<Longrightarrow> adds_only P t t'"
  by (auto simp: adds_only_def)

lemma adds_only_mono: "adds_only P t t' \<Longrightarrow> (\<And>e. P e \<Longrightarrow> Q e) \<Longrightarrow> adds_only Q t t'"
  by (auto simp: adds_only_def list_all_iff)

lemma stop_trace:
  "new_state = OMX_StateInvalid \<longrightarrow>
     adds_only stop_effect (trace s) (trace (BeginTransitionToState new_state s))"
  "adds_only stop_effect (trace s) (trace (StopOnError error s))"
proof (induction new_state s and error s rule: BeginTransitionToState_StopOnError.induct)
  case (1 new_state s)
  show ?case
  proof
    assume inv: "new_state = OMX_StateInvalid"
    have e: "stop_effect (Engine (OMX_SendCommandStateSet OMX_StateInvalid) r)" for r
      by (simp add: stop_effect_def)
    note u = BeginTransitionToState.simps[of OMX_StateInvalid s]
    show "adds_only stop_effect (trace s) (trace (BeginTransitionToState new_state s))"
    proof (cases "fault s \<or> current_state_change s = ERRORING")
      case True
      then show ?thesis using inv by (auto simp: u)
    next
      case False
      show ?thesis
      proof (cases "omx_ok s")
        case True
        then show ?thesis using False inv e
          by (simp add: u omx_done_def adds_only_snoc)
      next
        case ok: False
        have "adds_only stop_effect (trace (omx_done (OMX_SendCommandStateSet new_state) s))
                (trace (StopOnError PLATFORM_FAILURE
                          (omx_done (OMX_SendCommandStateSet new_state) s)))"
          using 1[of s] False ok inv by simp
        then have "adds_only stop_effect (trace s)
                (trace (StopOnError PLATFORM_FAILURE
                          (omx_done (OMX_SendCommandStateSet new_state) s)))"
          using inv
          by (rule_tac e = "Engine (OMX_SendCommandStateSet OMX_StateInvalid) (omx_ok s)"
                in adds_only_snoc_left)
             (simp_all add: e omx_done_def)
        then show ?thesis using False ok inv
          by (simp add: u)
      qed
    qed
  qed
next
  case (2 error s)
  have n: "stop_effect (Client (NotifyError error))"
    by (simp add: stop_effect_def)
  note u = StopOnError.simps[of error s]
  show ?case
  proof (cases "current_state_change s = ERRORING \<or> \<not> client_ptr_factory s
                \<or> client_state s = OMX_StateInvalid \<or> client_state s = OMX_StateMax")
    case True
    then show ?thesis using n
      by (auto simp: u notify_def crash_def adds_only_snoc)
  next
    case False
    define s1 where "s1 = (if client s \<and> init_begun s then notify (NotifyError error) s else s)"
    define s2 where "s2 = s1\<lparr>client := False\<rparr>"
    have a: "adds_only stop_effect (trace s) (trace s2)"
      using n by (simp add: s1_def s2_def notify_def adds_only_snoc)
    have "adds_only stop_effect (trace s2) (trace (BeginTransitionToState OMX_StateInvalid s2))"
      using 2[of s1 s2] False by (simp add: s1_def s2_def notify_def)
    with a have b:
      "adds_only stop_effect (trace s) (trace (BeginTransitionToState OMX_StateInvalid s2))"
      by (rule adds_only_trans)
    have "StopOnError error s =
            (let s3 = BeginTransitionToState OMX_StateInvalid s2
             in if fault s3 then s3 else s3\<lparr>current_state_change := ERRORING\<rparr>)"
      using False
      by (simp add: u s1_def s2_def notify_def Let_def)
    then show ?thesis using b
      by (simp add: Let_def)
  qed
qed

lemma stop_frame:
  "stop_reset (BeginTransitionToState new_state s) = stop_reset s"
  "stop_reset (StopOnError error s) = stop_reset s"
proof (induction new_state s and error s rule: BeginTransitionToState_StopOnError.induct)
  case (1 new_state s)
  define s1 where "s1 = (if new_state \<noteq> OMX_StateInvalid
                then DCHECK (current_state_change s \<noteq> NO_TRANSITION) s else s)"
  have a: "stop_reset s1 = stop_reset s"
    by (simp add: s1_def DCHECK_def crash_def stop_reset_def)
  have b: "stop_reset (omx_done c s1) = stop_reset s1" for c
    by (simp add: omx_done_def stop_reset_def)
  show ?case
  proof (cases "fault s1 \<or> current_state_change s1 = ERRORING \<or> omx_ok s1")
    case True
    then show ?thesis using a b
      by (auto simp: BeginTransitionToState.simps[of new_state s] s1_def[symmetric])
  next
    case False
    then have "stop_reset (StopOnError PLATFORM_FAILURE (omx_done (OMX_SendCommandStateSet new_state) s1))
        = stop_reset (omx_done (OMX_SendCommandStateSet new_state) s1)"
      using 1[of s1] by (simp add: s1_def)
    then show ?thesis using False a b
      by (simp add: BeginTransitionToState.simps[of new_state s] s1_def[symmetric])
  qed
next
  case (2 error s)
  define s1 where "s1 = (if client s \<and> init_begun s then notify (NotifyError error) s else s)"
  define s2 where "s2 = s1\<lparr>client := False\<rparr>"
  have a: "stop_reset s1 = stop_reset s" "stop_reset s2 = stop_reset s"
    by (simp_all add: s1_def s2_def notify_def stop_reset_def)
  have c: "stop_reset (crash x) = stop_reset x" "stop_reset (x\<lparr>current_state_change := y\<rparr>) = stop_reset x" for x y
    by (simp_all add: crash_def stop_reset_def)
  show ?case
  proof (cases "current_state_change s = ERRORING \<or> \<not> client_ptr_factory s1
                \<or> client_state s2 = OMX_StateInvalid \<or> client_state s2 = OMX_StateMax")
    case True
    then show ?thesis using a c
      by (auto simp: StopOnError.simps[of error s] s1_def[symmetric] s2_def[symmetric] Let_def)
  next
    case False
    then have "stop_reset (BeginTransitionToState OMX_StateInvalid s2) = stop_reset s2"
      using 2[of s1 s2] by (simp add: s1_def s2_def)
    then show ?thesis using False a c
      by (simp add: StopOnError.simps[of error s] s1_def[symmetric] s2_def[symmetric] Let_def)
  qed
qed

lemma stop_fields:
  "free_input_buffers (StopOnError e s) = free_input_buffers s"
  "input_buffers_at_component (StopOnError e s) = input_buffers_at_component s"
  "queued_bitstream_buffers (StopOnError e s) = queued_bitstream_buffers s"
  "headers (StopOnError e s) = headers s"
  using arg_cong[OF stop_frame(2)[of e s], of free_input_buffers]
        arg_cong[OF stop_frame(2)[of e s], of input_buffers_at_component]
        arg_cong[OF stop_frame(2)[of e s], of queued_bitstream_buffers]
        arg_cong[OF stop_frame(2)[of e s], of headers]
  by (simp_all add: stop_reset_def)

lemma stop_effect_not_EmptyThisBuffer: "stop_effect e \<Longrightarrow> \<not> is_EmptyThisBuffer e"
  by (auto simp: stop_effect_def is_EmptyThisBuffer_def split: Effect.splits ClientCall.splits OmxCall.splits)

lemma example_executing_sel:
  "dcheck_is_on (example_executing d) = d"
  "fault (example_executing d) = False"
  "deleted (example_executing d) = False"
  "client_ptr_factory (example_executing d) = True"
  "client (example_executing d) = True"
  "init_begun (example_executing d) = True"
  "component_handle (example_executing d) = True"
  "client_state (example_executing d) = OMX_StateExecuting"
  "current_state_change (example_executing d) = NO_TRANSITION"
  "input_buffer_count (example_executing d) = 2"
  "input_port (example_executing d) = 0"
  "output_port (example_executing d) = 1"
  "input_buffers_at_component (example_executing d) = 0"
  "output_buffers_at_component (example_executing d) = 8"
  "free_input_buffers (example_executing d) = [0, 1]"
  "queued_bitstream_buffers (example_executing d) = []"
  "queued_picture_buffer_ids (example_executing d) = []"
  "pictures (example_executing d) = []"
  "fake_output_buffers (example_executing d) = [2, 3, 4, 5, 6, 7, 8, 9]"
  "headers (example_executing d) 0 = Some example_input_header"
  "headers (example_executing d) 1 = Some example_input_header"
  "headers (example_executing d) (Suc 0) = Some example_input_header"
  "omx_results (example_executing d) = []"
  "egl_display (example_executing d) = True"
  "egl_sync_created (example_executing d) = []"
  "egl_synced (example_executing d) = []"
  "pending_sync (example_executing d) = []"
  "busy_loop (example_executing d) = False"
  "make_context_current (example_executing d) = True"
  "trace (example_executing d) = example_trace"
  "engine (example_executing d) = example_engine"
  "codec (example_executing d) = H264"
  "next_header (example_executing d) = 10"
  by (simp_all add: example_executing_def)

section \<open>\<open>AssignPictureBuffers\<close> during reset, teardown and error\<close>

text \<open>
  Claim C9.  A call to \<open>AssignPictureBuffers\<close> made while the operation state is
  \<open>RESETTING\<close>, \<open>DESTROYING\<close> or \<open>ERRORING\<close> leaves the object exactly as it was, whatever
  the supplied buffers are and however many: nothing is registered in \<open>pictures\<close>, no engine
  command (in particular no port enable) and no client call is added to the trace, and no
  error is raised, also when the number of buffers is not the requested 8.
\<close>

theorem AssignPictureBuffers_ignored_in_transition:
  "current_state_change s = RESETTING \<or> current_state_change s = DESTROYING
     \<or> current_state_change s = ERRORING
   \<Longrightarrow> AssignPictureBuffers buffers s = s"
  by (auto simp: AssignPictureBuffers_def)

theorem AssignPictureBuffers_ignored_in_transition_witness:
  "current_state_change ((example_new False)\<lparr>current_state_change := RESETTING\<rparr>) = RESETTING
   \<and> length [\<lparr>pb_id = 7, pb_texture_id = 1\<rparr>] \<noteq> kNumPictureBuffers
   \<and> AssignPictureBuffers [\<lparr>pb_id = 7, pb_texture_id = 1\<rparr>]
       ((example_new False)\<lparr>current_state_change := RESETTING\<rparr>)
     = (example_new False)\<lparr>current_state_change := RESETTING\<rparr>"
  using AssignPictureBuffers_ignored_in_transition
          [of "(example_new False)\<lparr>current_state_change := RESETTING\<rparr>"
              "[\<lparr>pb_id = 7, pb_texture_id = 1\<rparr>]"]
  by (simp add: kNumPictureBuffers_def)

section \<open>\<open>Decode\<close>: queueing and the state check\<close>

text \<open>
  Claim C2.  For every call \<open>Decode(bitstream)\<close>: if the operation state is \<open>RESETTING\<close> or
  \<open>INITIALIZING\<close>, or the queued-bitstream list is not empty, or there is no free input
  buffer, the buffer is appended to the queued-bitstream list and nothing else changes (so
  the engine is not touched).  Otherwise, if it is not the case that the operation state is
  \<open>NONE\<close> or \<open>FLUSHING\<close> and the engine state is \<open>IDLE\<close> or \<open>EXECUTING\<close>, the call is exactly
  \<open>StopOnError(ILLEGAL_STATE)\<close>: no \<open>OMX_EmptyThisBuffer\<close> is added to the trace, and the free
  input buffers, the at-engine counter and the queue are as before.
\<close>

theorem Decode_queues_or_rejects:
  "(current_state_change s = RESETTING \<or> current_state_change s = INITIALIZING
      \<or> queued_bitstream_buffers s \<noteq> [] \<or> free_input_buffers s = []
    \<longrightarrow> Decode b s = s\<lparr>queued_bitstream_buffers := queued_bitstream_buffers s @ [b]\<rparr>)
   \<and> (\<not> (current_state_change s = RESETTING \<or> current_state_change s = INITIALIZING
          \<or> queued_bitstream_buffers s \<noteq> [] \<or> free_input_buffers s = [])
      \<and> \<not> ((current_state_change s = NO_TRANSITION \<or> current_state_change s = FLUSHING)
            \<and> (client_state s = OMX_StateIdle \<or> client_state s = OMX_StateExecuting))
    \<longrightarrow> Decode b s = StopOnError ILLEGAL_STATE s
        \<and> adds_only (\<lambda>e. \<not> is_EmptyThisBuffer e) (trace s) (trace (Decode b s))
        \<and> free_input_buffers (Decode b s) = free_input_buffers s
        \<and> input_buffers_at_component (Decode b s) = input_buffers_at_component s
        \<and> queued_bitstream_buffers (Decode b s) = queued_bitstream_buffers s)"
proof (intro conjI impI)
  assume "current_state_change s = RESETTING \<or> current_state_change s = INITIALIZING
      \<or> queued_bitstream_buffers s \<noteq> [] \<or> free_input_buffers s = []"
  then show "Decode b s = s\<lparr>queued_bitstream_buffers := queued_bitstream_buffers s @ [b]\<rparr>"
    by (simp add: Decode_def)
next
  assume h: "\<not> (current_state_change s = RESETTING \<or> current_state_change s = INITIALIZING
          \<or> queued_bitstream_buffers s \<noteq> [] \<or> free_input_buffers s = [])
      \<and> \<not> ((current_state_change s = NO_TRANSITION \<or> current_state_change s = FLUSHING)
            \<and> (client_state s = OMX_StateIdle \<or> client_state s = OMX_StateExecuting))"
  then have d: "Decode b s = StopOnError ILLEGAL_STATE s"
    by (simp add: Decode_def)
  show "Decode b s = StopOnError ILLEGAL_STATE s" by (rule d)
  show "adds_only (\<lambda>e. \<not> is_EmptyThisBuffer e) (trace s) (trace (Decode b s))"
    unfolding d by (rule adds_only_mono[OF stop_trace(2)]) (rule stop_effect_not_EmptyThisBuffer)
  show "free_input_buffers (Decode b s) = free_input_buffers s"
    "input_buffers_at_component (Decode b s) = input_buffers_at_component s"
    "queued_bitstream_buffers (Decode b s) = queued_bitstream_buffers s"
    unfolding d by (simp_all add: stop_fields)
qed

theorem Decode_queues_or_rejects_witness:
  "Decode example_buffer ((example_executing False)\<lparr>current_state_change := RESETTING\<rparr>)
     = (example_executing False)\<lparr>current_state_change := RESETTING,
                                  queued_bitstream_buffers := [example_buffer]\<rparr>
   \<and> Decode example_buffer ((example_executing False)\<lparr>client_state := OMX_StatePause\<rparr>)
     = StopOnError ILLEGAL_STATE ((example_executing False)\<lparr>client_state := OMX_StatePause\<rparr>)
   \<and> free_input_buffers
        (Decode example_buffer ((example_executing False)\<lparr>client_state := OMX_StatePause\<rparr>))
       = [0, 1]
   \<and> trace (Decode example_buffer ((example_executing False)\<lparr>client_state := OMX_StatePause\<rparr>))
       = example_trace @ [Client (NotifyError ILLEGAL_STATE),
                          Engine (OMX_SendCommandStateSet OMX_StateInvalid) True]"
proof -
  have a: "trace (StopOnError ILLEGAL_STATE
                    ((example_executing False)\<lparr>client_state := OMX_StatePause\<rparr>))
           = example_trace @ [Client (NotifyError ILLEGAL_STATE),
                              Engine (OMX_SendCommandStateSet OMX_StateInvalid) True]"
    by (simp add: StopOnError.simps BeginTransitionToState.simps example_executing_sel
          notify_def omx_ok_def omx_done_def)
  show ?thesis
    using Decode_queues_or_rejects
            [of "(example_executing False)\<lparr>current_state_change := RESETTING\<rparr>" example_buffer]
          Decode_queues_or_rejects
            [of "(example_executing False)\<lparr>client_state := OMX_StatePause\<rparr>" example_buffer]
    by (simp add: example_executing_sel a stop_fields)
qed

section \<open>The object after its constructor\<close>

lemma example_new_eq:
  "example_new d =
     \<lparr>dcheck_is_on = d, fault = False, deleted = False,
               pre_sandbox_init_done = True, component_handle = False,
               client_ptr_factory = False, client = False, init_begun = False,
               client_state = OMX_StateMax, current_state_change = NO_TRANSITION,
               input_buffer_count = 0, input_buffer_size = 0, input_port = 0,
               input_buffers_at_component = 0, output_port = 0,
               output_buffers_at_component = 0, free_input_buffers = [],
               queued_bitstream_buffers = [], queued_picture_buffer_ids = [],
               pictures = [], fake_output_buffers = [],
               last_requested_picture_buffer_dimensions = (0, 0), codec = UNKNOWN,
               h264_profile = OMX_VIDEO_AVCProfileMax, headers = (\<lambda>a. None),
               next_header = 0, engine = example_engine, omx_results = [],
               make_context_current = True, egl_display = True, egl_sync_created = [],
               egl_synced = [], pending_sync = [],
               busy_loop = False, trace = [Engine OMX_Init True]\<rparr>"
  by (simp add: example_new_def OmxVideoDecodeAccelerator_def PostSandboxInitialization_def
        omx_ok_def omx_done_def)

section \<open>Profile validation in \<open>Initialize\<close>\<close>

text \<open>The case labels of the \<open>switch\<close> in \<open>MapH264ProfileToOMXAVCProfile\<close>.\<close>

definition H264_case_labels :: "video_codecs \<Rightarrow> int list" where
  "H264_case_labels vc =
     [H264PROFILE_BASELINE vc, H264PROFILE_MAIN vc, H264PROFILE_EXTENDED vc,
      H264PROFILE_HIGH vc, H264PROFILE_HIGH10PROFILE vc, H264PROFILE_HIGH422PROFILE vc,
      H264PROFILE_HIGH444PREDICTIVEPROFILE vc, H264PROFILE_SCALABLEBASELINE vc,
      H264PROFILE_SCALABLEHIGH vc, H264PROFILE_STEREOHIGH vc, H264PROFILE_MULTIVIEWHIGH vc]"

text \<open>What the theorem below needs of the header: every value from \<open>H264PROFILE_MIN\<close> to
  \<open>H264PROFILE_MAX\<close> is the value of one of these labels.\<close>

definition H264_range_is_named :: "video_codecs \<Rightarrow> bool" where
  "H264_range_is_named vc \<longleftrightarrow>
     list_all (\<lambda>p. p \<in> set (H264_case_labels vc)) [H264PROFILE_MIN vc..H264PROFILE_MAX vc]"

text \<open>A table to run the model on: the H264 enumerators numbered from 0 in the order of
  the \<open>switch\<close>, followed by VP8.  It is an example only; the theorem about \<open>Initialize\<close>
  is stated for every table.\<close>

definition chromium_video_codecs :: video_codecs where
  "chromium_video_codecs =
     \<lparr>H264PROFILE_MIN = 0, H264PROFILE_BASELINE = 0, H264PROFILE_MAIN = 1,
      H264PROFILE_EXTENDED = 2, H264PROFILE_HIGH = 3, H264PROFILE_HIGH10PROFILE = 4,
      H264PROFILE_HIGH422PROFILE = 5, H264PROFILE_HIGH444PREDICTIVEPROFILE = 6,
      H264PROFILE_SCALABLEBASELINE = 7, H264PROFILE_SCALABLEHIGH = 8,
      H264PROFILE_STEREOHIGH = 9, H264PROFILE_MULTIVIEWHIGH = 10, H264PROFILE_MAX = 10,
      VP8PROFILE_MIN = 11, VP8PROFILE_ANY = 11, VP8PROFILE_MAX = 11\<rparr>"

text \<open>An effect other than the notification of an \<open>INVALID_ARGUMENT\<close> error.\<close>

definition not_INVALID_ARGUMENT :: "Effect \<Rightarrow> bool" where
  "not_INVALID_ARGUMENT e \<longleftrightarrow> e \<noteq> Client (NotifyError INVALID_ARGUMENT)"

lemma MapH264Profile_in_range:
  assumes "H264PROFILE_MIN vc \<le> profile" and "profile \<le> H264PROFILE_MAX vc"
    and "H264_range_is_named vc"
  shows "MapH264ProfileToOMXAVCProfile vc profile \<noteq> OMX_VIDEO_AVCProfileMax"
proof -
  have "profile \<in> set [H264PROFILE_MIN vc..H264PROFILE_MAX vc]"
    using assms(1,2) by simp
  then have "profile \<in> set (H264_case_labels vc)"
    using assms(3) by (simp add: H264_range_is_named_def list_all_iff)
  then show ?thesis
    by (auto simp: H264_case_labels_def MapH264ProfileToOMXAVCProfile_def)
qed

lemma chromium_range_is_named: "H264_range_is_named chromium_video_codecs"
  by (simp add: H264_range_is_named_def H264_case_labels_def chromium_video_codecs_def
        upto_rec1)

text \<open>Engine calls and \<open>StopOnError(PLATFORM_FAILURE)\<close> add no \<open>INVALID_ARGUMENT\<close> error.\<close>

lemma platform_failure_trace:
  "adds_only not_INVALID_ARGUMENT (trace s) (trace (BeginTransitionToState new_state s))"
  "error \<noteq> INVALID_ARGUMENT \<longrightarrow>
     adds_only not_INVALID_ARGUMENT (trace s) (trace (StopOnError error s))"
proof (induction new_state s and error s rule: BeginTransitionToState_StopOnError.induct)
  case (1 new_state s)
  define s1 where "s1 = (if new_state \<noteq> OMX_StateInvalid
                then DCHECK (current_state_change s \<noteq> NO_TRANSITION) s else s)"
  have t: "trace s1 = trace s"
    by (simp add: s1_def DCHECK_def crash_def)
  have e: "adds_only not_INVALID_ARGUMENT (trace s) (trace (omx_done c s1))" for c
    by (simp add: omx_done_def t adds_only_snoc not_INVALID_ARGUMENT_def)
  show ?case
  proof (cases "fault s1 \<or> current_state_change s1 = ERRORING \<or> omx_ok s1")
    case True
    then show ?thesis using e t
      by (auto simp: BeginTransitionToState.simps[of new_state s] s1_def[symmetric])
  next
    case False
    then have "adds_only not_INVALID_ARGUMENT
                 (trace (omx_done (OMX_SendCommandStateSet new_state) s1))
                 (trace (StopOnError PLATFORM_FAILURE
                           (omx_done (OMX_SendCommandStateSet new_state) s1)))"
      using 1[of s1] by (simp add: s1_def)
    with e have "adds_only not_INVALID_ARGUMENT (trace s)
                 (trace (StopOnError PLATFORM_FAILURE
                           (omx_done (OMX_SendCommandStateSet new_state) s1)))"
      by (rule adds_only_trans)
    then show ?thesis using False
      by (simp add: BeginTransitionToState.simps[of new_state s] s1_def[symmetric])
  qed
next
  case (2 error s)
  note u = StopOnError.simps[of error s]
  show ?case
  proof
    assume k: "error \<noteq> INVALID_ARGUMENT"
    then have n: "not_INVALID_ARGUMENT (Client (NotifyError error))"
      by (simp add: not_INVALID_ARGUMENT_def)
    show "adds_only not_INVALID_ARGUMENT (trace s) (trace (StopOnError error s))"
    proof (cases "current_state_change s = ERRORING \<or> \<not> client_ptr_factory s
                \<or> client_state s = OMX_StateInvalid \<or> client_state s = OMX_StateMax")
      case True
      then show ?thesis using n
        by (auto simp: u notify_def crash_def adds_only_snoc)
    next
      case False
      define s1 where "s1 = (if client s \<and> init_begun s then notify (NotifyError error) s else s)"
      define s2 where "s2 = s1\<lparr>client := False\<rparr>"
      have a: "adds_only not_INVALID_ARGUMENT (trace s) (trace s2)"
        using n by (simp add: s1_def s2_def notify_def adds_only_snoc)
      have "adds_only not_INVALID_ARGUMENT (trace s2)
              (trace (BeginTransitionToState OMX_StateInvalid s2))"
        using 2[of s1 s2] False by (simp add: s1_def s2_def notify_def)
      with a have b: "adds_only not_INVALID_ARGUMENT (trace s)
              (trace (BeginTransitionToState OMX_StateInvalid s2))"
        by (rule adds_only_trans)
      have "StopOnError error s =
              (let s3 = BeginTransitionToState OMX_StateInvalid s2
               in if fault s3 then s3 else s3\<lparr>current_state_change := ERRORING\<rparr>)"
        using False by (simp add: u s1_def s2_def notify_def Let_def)
      then show ?thesis using b
        by (simp add: Let_def)
    qed
  qed
qed

named_theorems platform_failure

lemma pf_omx_done [platform_failure]:
  "adds_only not_INVALID_ARGUMENT t (trace s)
   \<Longrightarrow> adds_only not_INVALID_ARGUMENT t (trace (omx_done c s))"
  by (erule adds_only_trans) (simp add: omx_done_def adds_only_snoc not_INVALID_ARGUMENT_def)

lemma pf_StopOnError [platform_failure]:
  "adds_only not_INVALID_ARGUMENT t (trace s)
   \<Longrightarrow> adds_only not_INVALID_ARGUMENT t (trace (StopOnError PLATFORM_FAILURE s))"
  by (erule adds_only_trans) (simp add: platform_failure_trace)

lemma pf_BeginTransitionToState [platform_failure]:
  "adds_only not_INVALID_ARGUMENT t (trace s)
   \<Longrightarrow> adds_only not_INVALID_ARGUMENT t (trace (BeginTransitionToState n s))"
  by (erule adds_only_trans) (simp add: platform_failure_trace)

lemma pf_DCHECK [platform_failure]:
  "adds_only not_INVALID_ARGUMENT t (trace s)
   \<Longrightarrow> adds_only not_INVALID_ARGUMENT t (trace (DCHECK c s))"
  by (simp add: DCHECK_def crash_def)

lemma pf_AllocateInputBuffers_loop [platform_failure]:
  "adds_only not_INVALID_ARGUMENT t (trace s)
   \<Longrightarrow> adds_only not_INVALID_ARGUMENT t (trace (snd (AllocateInputBuffers_loop n s)))"
  by (induction n arbitrary: s) (simp_all add: Let_def platform_failure)

lemma pf_AllocateFakeOutputBuffers_loop [platform_failure]:
  "adds_only not_INVALID_ARGUMENT t (trace s)
   \<Longrightarrow> adds_only not_INVALID_ARGUMENT t (trace (snd (AllocateFakeOutputBuffers_loop n s)))"
  by (induction n arbitrary: s) (simp_all add: Let_def platform_failure crash_def)

definition pf_result :: "Effect list \<Rightarrow> bool \<times> ovda \<Rightarrow> bool" where
  "pf_result t r \<longleftrightarrow> adds_only not_INVALID_ARGUMENT t (trace (snd r))"

lemma pf_result_Let:
  "adds_only not_INVALID_ARGUMENT t (trace a)
   \<Longrightarrow> (\<And>x. adds_only not_INVALID_ARGUMENT t (trace x) \<Longrightarrow> pf_result t (f x))
   \<Longrightarrow> pf_result t (Let a f)"
  by simp

lemma pf_result_if:
  "(c \<Longrightarrow> pf_result t a) \<Longrightarrow> (\<not> c \<Longrightarrow> pf_result t b) \<Longrightarrow> pf_result t (if c then a else b)"
  by simp

lemma pf_result_pair:
  "adds_only not_INVALID_ARGUMENT t (trace s) \<Longrightarrow> pf_result t (b, s)"
  by (simp add: pf_result_def)

lemma pf_CreateComponent [platform_failure]:
  assumes "adds_only not_INVALID_ARGUMENT t (trace s)"
  shows "adds_only not_INVALID_ARGUMENT t (trace (snd (CreateComponent s)))"
proof -
  have "pf_result t (CreateComponent s)"
    unfolding CreateComponent_def
    apply (subst Let_def)
    apply (rule pf_result_Let pf_result_if pf_result_pair
           | (simp add: platform_failure assms; fail))+
    done
  then show ?thesis
    by (simp add: pf_result_def)
qed


lemma pf_CreateComponent_first:
  "pf_result
     (trace s @ [Engine (OMX_GetComponentsOfRole
                           (if codec s = H264 then ''video_decoder.avc''
                            else ''video_decoder.vpx'')) (omx_ok s)])
     (CreateComponent s)"
  unfolding CreateComponent_def
  apply (subst Let_def)
  apply (rule pf_result_Let)
   apply (simp add: omx_done_def)
  apply (rule pf_result_Let pf_result_if pf_result_pair
         | (simp add: platform_failure; fail))+
  done

lemma pf_Allocate [platform_failure]:
  "adds_only not_INVALID_ARGUMENT t (trace s)
   \<Longrightarrow> adds_only not_INVALID_ARGUMENT t (trace (snd (AllocateInputBuffers s)))"
  "adds_only not_INVALID_ARGUMENT t (trace s)
   \<Longrightarrow> adds_only not_INVALID_ARGUMENT t (trace (snd (AllocateFakeOutputBuffers s)))"
  by (simp_all add: AllocateInputBuffers_def AllocateFakeOutputBuffers_def platform_failure)

subsection \<open>Evaluating the model on concrete objects\<close>

text \<open>Equations for the two mutually recursive methods that apply only where they make
  progress, and the allocation loops at a numeral count.\<close>

lemma BeginTransitionToState_sent:
  "\<not> fault s \<Longrightarrow> current_state_change s \<noteq> ERRORING \<Longrightarrow> omx_ok s
   \<Longrightarrow> new_state = OMX_StateInvalid \<or> \<not> dcheck_is_on s \<or> current_state_change s \<noteq> NO_TRANSITION
   \<Longrightarrow> BeginTransitionToState new_state s = omx_done (OMX_SendCommandStateSet new_state) s"
  by (auto simp: BeginTransitionToState.simps DCHECK_def)

lemma StopOnError_sent:
  "\<not> fault s \<Longrightarrow> current_state_change s \<noteq> ERRORING \<Longrightarrow> client_ptr_factory s
   \<Longrightarrow> client_state s \<noteq> OMX_StateInvalid \<Longrightarrow> client_state s \<noteq> OMX_StateMax \<Longrightarrow> omx_ok s
   \<Longrightarrow> StopOnError e s =
       (omx_done (OMX_SendCommandStateSet OMX_StateInvalid)
          ((if client s \<and> init_begun s then notify (NotifyError e) s else s)\<lparr>client := False\<rparr>))
         \<lparr>current_state_change := ERRORING\<rparr>"
  by (simp add: StopOnError.simps BeginTransitionToState.simps omx_ok_def omx_done_def notify_def)

lemma BeginTransitionToState_failed:
  "\<not> fault s \<Longrightarrow> current_state_change s \<noteq> ERRORING \<Longrightarrow> \<not> omx_ok s
   \<Longrightarrow> new_state = OMX_StateInvalid \<or> \<not> dcheck_is_on s \<or> current_state_change s \<noteq> NO_TRANSITION
   \<Longrightarrow> BeginTransitionToState new_state s
       = StopOnError PLATFORM_FAILURE (omx_done (OMX_SendCommandStateSet new_state) s)"
  by (auto simp: BeginTransitionToState.simps DCHECK_def)

lemmas loops_numeral =
  AllocateInputBuffers_loop.simps(2)[of "pred_numeral k" for k, folded numeral_eq_Suc]
  AllocateFakeOutputBuffers_loop.simps(2)[of "pred_numeral k" for k, folded numeral_eq_Suc]

lemmas evaluate =
  DCHECK_def crash_def notify_def omx_ok_def omx_done_def Let_def
  BeginTransitionToState_sent BeginTransitionToState_failed StopOnError_sent StopOnError_ERRORING

lemma run_append:
  "run vc (xs @ ys) s = (case run vc xs s of None \<Rightarrow> None | Some s' \<Rightarrow> run vc ys s')"
  by (induction xs arbitrary: s) (simp_all split: option.splits)

lemma example_executing_fakes:
  "headers (example_executing d) 2 = Some example_fake_header"
  "headers (example_executing d) 3 = Some example_fake_header"
  "headers (example_executing d) 4 = Some example_fake_header"
  "headers (example_executing d) 5 = Some example_fake_header"
  "headers (example_executing d) 6 = Some example_fake_header"
  "headers (example_executing d) 7 = Some example_fake_header"
  "headers (example_executing d) 8 = Some example_fake_header"
  "headers (example_executing d) 9 = Some example_fake_header"
  by (simp_all add: example_executing_def)

lemma chromium_Map:
  "0 \<le> p \<Longrightarrow> p \<le> 10 \<Longrightarrow> MapH264ProfileToOMXAVCProfile chromium_video_codecs p \<noteq> OMX_VIDEO_AVCProfileMax"
  by (rule MapH264Profile_in_range) (simp_all add: chromium_range_is_named, simp_all add: chromium_video_codecs_def)

lemma example_initializing:
  assumes "0 \<le> p" and "p \<le> 10"
  shows "Initialize chromium_video_codecs p (example_new d) =
     (True, (example_executing d)
        \<lparr>client_state := OMX_StateLoaded, current_state_change := INITIALIZING,
         output_buffers_at_component := 0,
         h264_profile := MapH264ProfileToOMXAVCProfile chromium_video_codecs p,
         trace := take 19 example_trace\<rparr>)"
proof -
  have r: "H264PROFILE_MIN chromium_video_codecs \<le> p \<and> p \<le> H264PROFILE_MAX chromium_video_codecs"
    using assms by (simp add: chromium_video_codecs_def)
  show ?thesis
    using r chromium_Map[OF assms]
    by (simp add: example_new_eq Initialize_def
          CreateComponent_def example_engine_def AllocateInputBuffers_def AllocateFakeOutputBuffers_def
          kNumPictureBuffers_def loops_numeral new_header_def evaluate example_executing_def example_trace_def
          example_input_header_def example_fake_header_def
          cong: let_weak_cong)
       (simp add: numeral_eq_Suc)
qed

text \<open>The executing example is what the constructor, \<open>Initialize\<close> with the Main profile
  and the engine's two acknowledgements produce.\<close>

definition example_initializing_state :: "bool \<Rightarrow> ovda" where
  "example_initializing_state d =
     (example_executing d)
        \<lparr>client_state := OMX_StateLoaded, current_state_change := INITIALIZING,
         output_buffers_at_component := 0, trace := take 19 example_trace\<rparr>"

lemma step_Initialize_example:
  "step chromium_video_codecs (Call_Initialize (H264PROFILE_MAIN chromium_video_codecs))
     (example_new d)
     = Some (example_initializing_state d)"
proof -
  have "\<not> fault (example_new d)" "\<not> deleted (example_new d)"
    by (simp_all add: example_new_eq)
  moreover have "MapH264ProfileToOMXAVCProfile chromium_video_codecs 1 = OMX_VIDEO_AVCProfileMain"
    by (simp add: MapH264ProfileToOMXAVCProfile_def chromium_video_codecs_def)
  moreover have "H264PROFILE_MAIN chromium_video_codecs = 1"
    by (simp add: chromium_video_codecs_def)
  ultimately show ?thesis
    by (simp add: step_def example_initializing example_initializing_state_def)
       (simp add: example_executing_def)
qed

lemmas step_eval = step_def EventHandlerCompleteTask_def DispatchStateReached_def
  OnReachedIdleInInitializing_def OnReachedExecutingInInitializing_def
  example_executing_sel example_input_header_def example_fake_header_def
  OMX_BUFFERFLAG_EOS_def evaluate

lemma example_executing_reached:
  "run chromium_video_codecs
     [Task_EventHandlerComplete (CmdComplete_StateSet OMX_StateIdle),
      Task_EventHandlerComplete (CmdComplete_StateSet OMX_StateExecuting)]
     (example_initializing_state d)
   = Some (example_executing d)"
  apply (simp add: example_initializing_state_def)
  apply (simp add: step_eval cong: let_weak_cong)
  apply (simp add: example_executing_def example_trace_def)
  done

subsection \<open>Every profile of the H264 range is accepted\<close>

text \<open>
  Claim C10.  \<open>Initialize\<close> accepts every profile of the H264 range, from \<open>H264PROFILE_MIN\<close>
  to \<open>H264PROFILE_MAX\<close>, provided the header declares no value in that range besides the
  case labels of \<open>MapH264ProfileToOMXAVCProfile\<close> (which include Extended, High10, High422,
  High444 Predictive, Scalable Baseline, Scalable High, Stereo High and Multiview High).
  For such a profile the mapped OpenMAX profile is never \<open>OMX_VIDEO_AVCProfileMax\<close>, and
  \<open>Initialize\<close> goes past the profile validation: when the context can be made current its
  next effect is the engine call \<open>OMX_GetComponentsOfRole\<close> for the H264 role, and when it
  cannot the method returns false through \<open>StopOnError(PLATFORM_FAILURE)\<close> with the codec
  and the mapped profile stored.  In both cases nothing \<open>Initialize\<close> adds to the trace is an
  \<open>INVALID_ARGUMENT\<close> notification.  This holds although the list reported by
  \<open>GetSupportedProfiles\<close> consists of H264 Baseline, Main and High and of VP8 only.
\<close>

theorem Initialize_accepts_every_H264_profile:
  "H264PROFILE_MIN vc \<le> profile \<and> profile \<le> H264PROFILE_MAX vc \<and> H264_range_is_named vc
   \<and> \<not> fault s \<longrightarrow>
     MapH264ProfileToOMXAVCProfile vc profile \<noteq> OMX_VIDEO_AVCProfileMax
     \<and> (if make_context_current s
        then adds_only not_INVALID_ARGUMENT
               (trace s @ [Engine (OMX_GetComponentsOfRole ''video_decoder.avc'') (omx_ok s)])
               (trace (snd (Initialize vc profile s)))
        else Initialize vc profile s
               = (False, StopOnError PLATFORM_FAILURE
                    (s\<lparr>codec := H264,
                       h264_profile := MapH264ProfileToOMXAVCProfile vc profile\<rparr>)))
     \<and> adds_only not_INVALID_ARGUMENT (trace s) (trace (snd (Initialize vc profile s)))
     \<and> map fst (GetSupportedProfiles vc)
         = [H264PROFILE_BASELINE vc, H264PROFILE_MAIN vc, H264PROFILE_HIGH vc, VP8PROFILE_ANY vc]"
proof (intro impI)
  assume h: "H264PROFILE_MIN vc \<le> profile \<and> profile \<le> H264PROFILE_MAX vc
             \<and> H264_range_is_named vc \<and> \<not> fault s"
  define s1 where "s1 = s\<lparr>codec := H264,
                       h264_profile := MapH264ProfileToOMXAVCProfile vc profile\<rparr>"
  define s2 where "s2 = s1\<lparr>client_ptr_factory := True, client := True\<rparr>"
  define t where "t = trace s @ [Engine (OMX_GetComponentsOfRole ''video_decoder.avc'') (omx_ok s)]"
  have m: "MapH264ProfileToOMXAVCProfile vc profile \<noteq> OMX_VIDEO_AVCProfileMax"
    using h by (simp add: MapH264Profile_in_range)
  have e: "Initialize vc profile s =
     (if \<not> make_context_current s then (False, StopOnError PLATFORM_FAILURE s1)
      else
      let r3 = CreateComponent s2; s3 = snd r3
      in if \<not> fst r3 then (False, s3)
      else
      let s4 = DCHECK (current_state_change s3 = NO_TRANSITION) s3
      in if fault s4 then (False, s4)
      else
      let s5 = BeginTransitionToState OMX_StateIdle (s4\<lparr>current_state_change := INITIALIZING\<rparr>)
      in if fault s5 then (False, s5)
      else
      let r6 = AllocateInputBuffers s5; s6 = snd r6
      in if \<not> fst r6 then (False, s6)
      else
      let r7 = AllocateFakeOutputBuffers s6; s7 = snd r7
      in if \<not> fst r7 then (False, s7)
      else (True, s7\<lparr>init_begun := True\<rparr>))"
    using h m by (simp add: Initialize_def DCHECK_def s1_def s2_def cong: let_weak_cong)
  have "pf_result t (CreateComponent s2)"
    using pf_CreateComponent_first[of s2] by (simp add: s2_def s1_def t_def omx_ok_def)
  then have c: "adds_only not_INVALID_ARGUMENT t (trace (snd (CreateComponent s2)))"
    by (simp add: pf_result_def)
  have a: "make_context_current s \<Longrightarrow>
             adds_only not_INVALID_ARGUMENT t (trace (snd (Initialize vc profile s)))"
    using c by (simp add: e Let_def platform_failure)
  have "adds_only not_INVALID_ARGUMENT (trace s) t"
    by (simp add: t_def adds_only_snoc not_INVALID_ARGUMENT_def)
  then have b: "make_context_current s \<Longrightarrow>
             adds_only not_INVALID_ARGUMENT (trace s) (trace (snd (Initialize vc profile s)))"
    using a adds_only_trans by blast
  have "adds_only not_INVALID_ARGUMENT (trace s) (trace (StopOnError PLATFORM_FAILURE s1))"
    by (rule pf_StopOnError) (simp add: s1_def)
  then have d: "\<not> make_context_current s \<Longrightarrow>
             adds_only not_INVALID_ARGUMENT (trace s) (trace (snd (Initialize vc profile s)))"
    by (simp add: e)
  have l: "map fst (GetSupportedProfiles vc)
         = [H264PROFILE_BASELINE vc, H264PROFILE_MAIN vc, H264PROFILE_HIGH vc, VP8PROFILE_ANY vc]"
    by (simp add: GetSupportedProfiles_def kSupportedProfiles_def)
  show "MapH264ProfileToOMXAVCProfile vc profile \<noteq> OMX_VIDEO_AVCProfileMax
     \<and> (if make_context_current s
        then adds_only not_INVALID_ARGUMENT
               (trace s @ [Engine (OMX_GetComponentsOfRole ''video_decoder.avc'') (omx_ok s)])
               (trace (snd (Initialize vc profile s)))
        else Initialize vc profile s
               = (False, StopOnError PLATFORM_FAILURE
                    (s\<lparr>codec := H264,
                       h264_profile := MapH264ProfileToOMXAVCProfile vc profile\<rparr>)))
     \<and> adds_only not_INVALID_ARGUMENT (trace s) (trace (snd (Initialize vc profile s)))
     \<and> map fst (GetSupportedProfiles vc)
         = [H264PROFILE_BASELINE vc, H264PROFILE_MAIN vc, H264PROFILE_HIGH vc, VP8PROFILE_ANY vc]"
    using m a b d l e by (cases "make_context_current s") (simp_all add: t_def s1_def)
qed

theorem Initialize_accepts_every_H264_profile_witness:
  "H264PROFILE_MIN chromium_video_codecs \<le> H264PROFILE_EXTENDED chromium_video_codecs
   \<and> H264PROFILE_EXTENDED chromium_video_codecs \<le> H264PROFILE_MAX chromium_video_codecs
   \<and> H264_range_is_named chromium_video_codecs
   \<and> \<not> fault (example_new False)
   \<and> make_context_current (example_new False)
   \<and> MapH264ProfileToOMXAVCProfile chromium_video_codecs
        (H264PROFILE_EXTENDED chromium_video_codecs) = OMX_VIDEO_AVCProfileExtended
   \<and> adds_only not_INVALID_ARGUMENT
        [Engine OMX_Init True, Engine (OMX_GetComponentsOfRole ''video_decoder.avc'') True]
        (trace (snd (Initialize chromium_video_codecs
                       (H264PROFILE_EXTENDED chromium_video_codecs) (example_new False))))
   \<and> fst (Initialize chromium_video_codecs
             (H264PROFILE_EXTENDED chromium_video_codecs) (example_new False))
   \<and> H264PROFILE_EXTENDED chromium_video_codecs
        \<notin> set (map fst (GetSupportedProfiles chromium_video_codecs))"
proof -
  have x: "H264PROFILE_EXTENDED chromium_video_codecs = 2"
    by (simp add: chromium_video_codecs_def)
  have a: "fst (Initialize chromium_video_codecs 2 (example_new False))"
    by (simp add: example_initializing)
  have b: "MapH264ProfileToOMXAVCProfile chromium_video_codecs 2 = OMX_VIDEO_AVCProfileExtended"
    by (simp add: MapH264ProfileToOMXAVCProfile_def chromium_video_codecs_def)
  have c: "map fst (GetSupportedProfiles chromium_video_codecs) = [0, 1, 3, 11]"
    by (simp add: GetSupportedProfiles_def kSupportedProfiles_def chromium_video_codecs_def)
  have d: "H264PROFILE_MIN chromium_video_codecs \<le> 2 \<and> 2 \<le> H264PROFILE_MAX chromium_video_codecs"
    by (simp add: chromium_video_codecs_def)
  have e: "\<not> fault (example_new False)" "make_context_current (example_new False)"
    "trace (example_new False) = [Engine OMX_Init True]" "omx_ok (example_new False)"
    by (simp_all add: example_new_eq omx_ok_def)
  show ?thesis
    using Initialize_accepts_every_H264_profile[of chromium_video_codecs 2 "example_new False"]
          a b c d e chromium_range_is_named
    by (simp add: x)
qed

section \<open>\<open>Flush\<close> outside its precondition\<close>

text \<open>The end-of-stream sentinel that \<open>Flush\<close> passes to \<open>Decode\<close>.\<close>

definition EOS_sentinel :: BitstreamBuffer where
  "EOS_sentinel = \<lparr>bb_id = - 1, bb_handle = 0, bb_size = 0, bb_mappable = False\<rparr>"

text \<open>Claim C1 as the specification states it: a call to \<open>Flush\<close> made when the operation
  state is not \<open>NONE\<close> or the engine state is not \<open>EXECUTING\<close> is \<open>StopOnError(ILLEGAL_STATE)\<close>,
  feeds no end-of-stream buffer to the engine and does not set \<open>FLUSHING\<close>.\<close>

definition Flush_as_specified :: "ovda \<Rightarrow> bool" where
  "Flush_as_specified s \<longleftrightarrow>
     (current_state_change s \<noteq> NO_TRANSITION \<or> client_state s \<noteq> OMX_StateExecuting
      \<longrightarrow> Flush s = StopOnError ILLEGAL_STATE s
          \<and> adds_only (\<lambda>e. \<not> is_EmptyThisBuffer e) (trace s) (trace (Flush s))
          \<and> current_state_change (Flush s) \<noteq> FLUSHING)"

lemmas flush_eval = Flush_def Decode_def DCHECK_def crash_def omx_ok_def omx_done_def
  example_executing_sel example_input_header_def OMX_BUFFERFLAG_EOS_def Let_def

lemma example_flushing:
  "Flush (example_executing d) =
     (example_executing d)
       \<lparr>current_state_change := FLUSHING, free_input_buffers := [1],
        headers := (headers (example_executing d))
                     (0 \<mapsto> example_input_header\<lparr>nFlags := 1, nTimeStamp := - 2\<rparr>),
        omx_results := [],
        trace := example_trace
                 @ [Engine (OMX_EmptyThisBuffer 0
                              (example_input_header\<lparr>nFlags := 1, nTimeStamp := - 2\<rparr>)) True],
        input_buffers_at_component := 1\<rparr>"
  by (simp add: flush_eval cong: let_weak_cong)


text \<open>
  Claim C1 fails on the code.  After one \<open>Flush\<close> of the executing example the operation
  state is \<open>FLUSHING\<close>, so a second \<open>Flush\<close> is outside the precondition.  In a build without
  \<open>DCHECK\<close>s the second call leaves the operation state \<open>FLUSHING\<close> (it feeds a second
  end-of-stream buffer); in a build with \<open>DCHECK\<close>s it stops the process at the assertion and
  adds nothing to the trace, where \<open>StopOnError(ILLEGAL_STATE)\<close> would notify the client.
\<close>

theorem Flush_violation_counterexample:
  "\<not> Flush_as_specified (Flush (example_executing False))
   \<and> \<not> Flush_as_specified (Flush (example_executing True))"
proof -
  have a: "current_state_change (Flush (example_executing d)) = FLUSHING" for d
    by (simp add: example_flushing)
  have b: "current_state_change (Flush (Flush (example_executing False))) = FLUSHING"
    by (simp add: example_flushing) (simp add: flush_eval cong: let_weak_cong)
  have c: "trace (Flush (Flush (example_executing True))) = trace (Flush (example_executing True))"
    by (simp add: example_flushing) (simp add: flush_eval cong: let_weak_cong)
  have d: "trace (StopOnError ILLEGAL_STATE (Flush (example_executing True)))
           = trace (Flush (example_executing True)) @ [Client (NotifyError ILLEGAL_STATE),
                Engine (OMX_SendCommandStateSet OMX_StateInvalid) True]"
    by (simp add: example_flushing)
       (simp add: StopOnError.simps BeginTransitionToState.simps example_executing_sel
          notify_def omx_ok_def omx_done_def)
  have "\<not> Flush_as_specified (Flush (example_executing False))"
    using a[of False] b by (simp add: Flush_as_specified_def)
  moreover have "Flush (Flush (example_executing True))
        \<noteq> StopOnError ILLEGAL_STATE (Flush (example_executing True))"
    using c d by (metis append_self_conv list.distinct(1))
  then have "\<not> Flush_as_specified (Flush (example_executing True))"
    using a[of True] by (simp add: Flush_as_specified_def)
  ultimately show ?thesis by simp
qed

text \<open>
  Claim C1 as amended.  \<open>Flush\<close> only asserts its precondition.  In a build that checks
  \<open>DCHECK\<close>s, a call made when the operation state is not \<open>NONE\<close> or the engine state is not
  \<open>EXECUTING\<close> stops the process and does nothing else.  In a build without them \<open>Flush\<close>
  always sets \<open>FLUSHING\<close> and calls \<open>Decode\<close> with the end-of-stream sentinel: the sentinel
  is queued when the queue is not empty or no input buffer is free; otherwise, when the
  engine state is neither \<open>IDLE\<close> nor \<open>EXECUTING\<close>, the call is
  \<open>StopOnError(ILLEGAL_STATE)\<close> (after \<open>FLUSHING\<close> was set) and no buffer is fed to the
  engine; otherwise the first thing added to the trace is the \<open>OMX_EmptyThisBuffer\<close> of the
  end-of-stream buffer, whatever the operation state was.
\<close>

theorem Flush_unguarded:
  "\<not> fault s \<longrightarrow>
     (dcheck_is_on s
        \<and> (current_state_change s \<noteq> NO_TRANSITION \<or> client_state s \<noteq> OMX_StateExecuting)
      \<longrightarrow> Flush s = crash s)
   \<and> (\<not> dcheck_is_on s
      \<longrightarrow> Flush s = Decode EOS_sentinel (s\<lparr>current_state_change := FLUSHING\<rparr>))
   \<and> (\<not> dcheck_is_on s \<and> (queued_bitstream_buffers s \<noteq> [] \<or> free_input_buffers s = [])
      \<longrightarrow> Flush s = s\<lparr>current_state_change := FLUSHING,
                       queued_bitstream_buffers := queued_bitstream_buffers s @ [EOS_sentinel]\<rparr>)
   \<and> (\<not> dcheck_is_on s \<and> queued_bitstream_buffers s = [] \<and> free_input_buffers s \<noteq> []
        \<and> client_state s \<noteq> OMX_StateIdle \<and> client_state s \<noteq> OMX_StateExecuting
      \<longrightarrow> Flush s = StopOnError ILLEGAL_STATE (s\<lparr>current_state_change := FLUSHING\<rparr>)
          \<and> adds_only (\<lambda>e. \<not> is_EmptyThisBuffer e) (trace s) (trace (Flush s)))
   \<and> (\<not> dcheck_is_on s \<and> queued_bitstream_buffers s = [] \<and> free_input_buffers s \<noteq> []
        \<and> (client_state s = OMX_StateIdle \<or> client_state s = OMX_StateExecuting)
        \<and> headers s (hd (free_input_buffers s)) = Some h
      \<longrightarrow> take (Suc (length (trace s))) (trace (Flush s))
            = trace s @ [Engine (OMX_EmptyThisBuffer (hd (free_input_buffers s))
                           (h\<lparr>nFilledLen := 0, nAllocLen := 0,
                              nFlags := nFlags h OR OMX_BUFFERFLAG_EOS, nTimeStamp := - 2\<rparr>))
                         (omx_ok s)])"
proof (intro impI conjI)
  assume nf: "\<not> fault s"
  {
    assume "dcheck_is_on s
        \<and> (current_state_change s \<noteq> NO_TRANSITION \<or> client_state s \<noteq> OMX_StateExecuting)"
    then show "Flush s = crash s"
      using nf by (auto simp: Flush_def DCHECK_def crash_def)
  }
  have off: "Flush s = Decode EOS_sentinel (s\<lparr>current_state_change := FLUSHING\<rparr>)"
    if "\<not> dcheck_is_on s"
    using that nf by (simp add: Flush_def DCHECK_def EOS_sentinel_def)
  {
    assume "\<not> dcheck_is_on s"
    then show "Flush s = Decode EOS_sentinel (s\<lparr>current_state_change := FLUSHING\<rparr>)"
      by (rule off)
  }
  {
    assume h: "\<not> dcheck_is_on s \<and> (queued_bitstream_buffers s \<noteq> [] \<or> free_input_buffers s = [])"
    then show "Flush s = s\<lparr>current_state_change := FLUSHING,
                       queued_bitstream_buffers := queued_bitstream_buffers s @ [EOS_sentinel]\<rparr>"
      using off by (auto simp: Decode_def)
  }
  {
    assume h: "\<not> dcheck_is_on s \<and> queued_bitstream_buffers s = [] \<and> free_input_buffers s \<noteq> []
        \<and> client_state s \<noteq> OMX_StateIdle \<and> client_state s \<noteq> OMX_StateExecuting"
    then show e: "Flush s = StopOnError ILLEGAL_STATE (s\<lparr>current_state_change := FLUSHING\<rparr>)"
      using off by (simp add: Decode_def)
    have "adds_only stop_effect (trace s)
            (trace (StopOnError ILLEGAL_STATE (s\<lparr>current_state_change := FLUSHING\<rparr>)))"
      using stop_trace(2)[of "s\<lparr>current_state_change := FLUSHING\<rparr>" ILLEGAL_STATE] by simp
    then show "adds_only (\<lambda>e. \<not> is_EmptyThisBuffer e) (trace s) (trace (Flush s))"
      unfolding e by (rule adds_only_mono) (simp_all add: stop_effect_not_EmptyThisBuffer)
  }
  {
    assume h: "\<not> dcheck_is_on s \<and> queued_bitstream_buffers s = [] \<and> free_input_buffers s \<noteq> []
        \<and> (client_state s = OMX_StateIdle \<or> client_state s = OMX_StateExecuting)
        \<and> headers s (hd (free_input_buffers s)) = Some h"
    define h1 where "h1 = h\<lparr>nFilledLen := 0, nAllocLen := 0,
                              nFlags := nFlags h OR OMX_BUFFERFLAG_EOS, nTimeStamp := - 2\<rparr>"
    define s2 where "s2 = s\<lparr>current_state_change := FLUSHING,
                            free_input_buffers := tl (free_input_buffers s),
                            headers := (headers s)(hd (free_input_buffers s) \<mapsto> h1)\<rparr>"
    define s3 where "s3 = omx_done (OMX_EmptyThisBuffer (hd (free_input_buffers s)) h1) s2"
    have t3: "trace s3 = trace s @ [Engine (OMX_EmptyThisBuffer (hd (free_input_buffers s)) h1) (omx_ok s)]"
      by (simp add: s3_def s2_def omx_done_def omx_ok_def)
    have f: "Flush s = (if \<not> omx_ok s2 then StopOnError PLATFORM_FAILURE s3
                        else s3\<lparr>input_buffers_at_component := input_buffers_at_component s3 + 1\<rparr>)"
      using h off
      by (simp add: Decode_def EOS_sentinel_def Let_def h1_def s2_def s3_def)
    have "adds_only stop_effect (trace s3) (trace (StopOnError PLATFORM_FAILURE s3))"
      by (rule stop_trace(2))
    then have "\<exists>es. trace (Flush s) = trace s3 @ es"
      unfolding f by (auto simp: adds_only_def)
    then show "take (Suc (length (trace s))) (trace (Flush s))
            = trace s @ [Engine (OMX_EmptyThisBuffer (hd (free_input_buffers s))
                           (h\<lparr>nFilledLen := 0, nAllocLen := 0,
                              nFlags := nFlags h OR OMX_BUFFERFLAG_EOS, nTimeStamp := - 2\<rparr>))
                         (omx_ok s)]"
      using t3 by (auto simp: h1_def)
  }
qed


theorem Flush_unguarded_witness:
  "\<not> fault ((example_executing True)\<lparr>current_state_change := RESETTING\<rparr>)
   \<and> Flush ((example_executing True)\<lparr>current_state_change := RESETTING\<rparr>)
       = crash ((example_executing True)\<lparr>current_state_change := RESETTING\<rparr>)
   \<and> Flush ((example_executing False)\<lparr>client_state := OMX_StatePause\<rparr>)
       = StopOnError ILLEGAL_STATE
           ((example_executing False)\<lparr>client_state := OMX_StatePause,
                                        current_state_change := FLUSHING\<rparr>)
   \<and> take (Suc (length example_trace))
        (trace (Flush ((example_executing False)\<lparr>current_state_change := RESETTING\<rparr>)))
       = example_trace
         @ [Engine (OMX_EmptyThisBuffer 0
                      (example_input_header
                         \<lparr>nFilledLen := 0, nAllocLen := 0,
                          nFlags := nFlags example_input_header OR OMX_BUFFERFLAG_EOS,
                          nTimeStamp := - 2\<rparr>))
              True]"
proof -
  have a: "Flush ((example_executing True)\<lparr>current_state_change := RESETTING\<rparr>)
           = crash ((example_executing True)\<lparr>current_state_change := RESETTING\<rparr>)"
    using Flush_unguarded [of "(example_executing True)\<lparr>current_state_change := RESETTING\<rparr>"
                              example_input_header]
    by (simp add: example_executing_sel)
  have b: "Flush ((example_executing False)\<lparr>client_state := OMX_StatePause\<rparr>)
           = StopOnError ILLEGAL_STATE
               ((example_executing False)\<lparr>client_state := OMX_StatePause,
                                            current_state_change := FLUSHING\<rparr>)"
    using Flush_unguarded [of "(example_executing False)\<lparr>client_state := OMX_StatePause\<rparr>"
                              example_input_header]
    by (auto simp: example_executing_sel)
  have c: "take (Suc (length example_trace))
             (trace (Flush ((example_executing False)\<lparr>current_state_change := RESETTING\<rparr>)))
           = example_trace
             @ [Engine (OMX_EmptyThisBuffer 0
                          (example_input_header
                             \<lparr>nFilledLen := 0, nAllocLen := 0,
                              nFlags := nFlags example_input_header OR OMX_BUFFERFLAG_EOS,
                              nTimeStamp := - 2\<rparr>))
                  True]"
    using Flush_unguarded [of "(example_executing False)\<lparr>current_state_change := RESETTING\<rparr>"
                              example_input_header]
    by (auto simp: example_executing_sel omx_ok_def)
  show ?thesis
    using a b c by (simp add: example_executing_sel)
qed

section \<open>Input buffers coming back from the engine\<close>

text \<open>The first two statements of \<open>EmptyBufferDoneTask\<close>: the header goes back to the free
  list and the counter goes down.\<close>

definition returned_input :: "nat \<Rightarrow> ovda \<Rightarrow> ovda" where
  "returned_input buffer s =
     s\<lparr>free_input_buffers := free_input_buffers s @ [buffer],
       input_buffers_at_component := input_buffers_at_component s - 1\<rparr>"

text \<open>Claim C8 as the specification states it: the header is returned; with the EOS flag set
  nothing else happens; otherwise the client is told the end of the bitstream buffer whose
  id the binding holds, the binding is dropped, and the queued buffers are decoded in
  order.\<close>

definition EmptyBufferDone_as_specified :: "nat \<Rightarrow> ovda \<Rightarrow> bool" where
  "EmptyBufferDone_as_specified buffer s \<longleftrightarrow>
     (\<forall>h. headers s buffer = Some h \<longrightarrow>
        (nFlags h AND OMX_BUFFERFLAG_EOS \<noteq> 0 \<longrightarrow>
           EmptyBufferDoneTask buffer s = returned_input buffer s)
      \<and> (nFlags h AND OMX_BUFFERFLAG_EOS = 0 \<longrightarrow>
           (\<forall>m i. pAppPrivate h = Some (SharedMemoryAndId m i) \<longrightarrow>
              EmptyBufferDoneTask buffer s =
                seq (map Decode (queued_bitstream_buffers s))
                  ((notify (NotifyEndOfBitstreamBuffer i) (returned_input buffer s))
                     \<lparr>headers := (headers s)(buffer \<mapsto> h\<lparr>pAppPrivate := None\<rparr>),
                      queued_bitstream_buffers := []\<rparr>))))"

text \<open>The header of input buffer 0 once \<open>example_buffer\<close> has been handed to the engine in it.\<close>

definition example_bound_header :: OMX_BUFFERHEADERTYPE where
  "example_bound_header =
     \<lparr>pBuffer = ShmMemory 42, nAllocLen = 1024, nFilledLen = 1024, nOffset = 0,
      pAppPrivate = Some (SharedMemoryAndId 42 5), nFlags = 0, nTimeStamp = 5,
      nInputPortIndex = 0, nOutputPortIndex = 0\<rparr>"

lemma example_decoding:
  "Decode example_buffer (example_executing d) =
     (example_executing d)
       \<lparr>free_input_buffers := [1],
        headers := (headers (example_executing d))(0 \<mapsto> example_bound_header),
        omx_results := [],
        trace := example_trace @ [Engine (OMX_EmptyThisBuffer 0 example_bound_header) True],
        input_buffers_at_component := 1\<rparr>"
  by (simp add: Decode_def DCHECK_def crash_def omx_ok_def omx_done_def example_executing_sel
        example_input_header_def example_bound_header_def example_buffer_def
        OMX_BUFFERFLAG_EOS_def Let_def cong: let_weak_cong)

lemma example_destroying:
  "Destroy (Decode example_buffer (example_executing d)) =
     (example_executing d)
       \<lparr>client := False, current_state_change := DESTROYING, busy_loop := True,
        free_input_buffers := [1],
        headers := (headers (example_executing d))(0 \<mapsto> example_bound_header),
        omx_results := [],
        trace := example_trace @ [Engine (OMX_EmptyThisBuffer 0 example_bound_header) True,
                                  Engine (OMX_SendCommandStateSet OMX_StateIdle) True],
        input_buffers_at_component := 1\<rparr>"
  by (simp add: example_decoding)
     (simp add: Destroy_def DCHECK_def crash_def omx_ok_def omx_done_def example_executing_sel
        BeginTransitionToState.simps BusyLoopInDestroying_def Let_def cong: let_weak_cong)

text \<open>
  Claim C8 fails on the code.  In the executing example \<open>example_buffer\<close> is decoded and
  the client then calls \<open>Destroy\<close>, which invalidates the client pointer.  When the engine
  returns input header 0 (EOS flag clear, binding with id 5) nothing is added to the trace:
  the client is not told.
\<close>

theorem EmptyBufferDone_counterexample:
  "\<not> EmptyBufferDone_as_specified 0 (Destroy (Decode example_buffer (example_executing False)))"
proof
  assume a: "EmptyBufferDone_as_specified 0 (Destroy (Decode example_buffer (example_executing False)))"
  have h: "headers (Destroy (Decode example_buffer (example_executing False))) 0 = Some example_bound_header"
    by (simp add: example_destroying)
  have e: "trace (EmptyBufferDoneTask 0 (Destroy (Decode example_buffer (example_executing False))))
           = trace (Destroy (Decode example_buffer (example_executing False)))"
    by (simp add: example_destroying)
       (simp add: EmptyBufferDoneTask_def DCHECK_def example_executing_sel example_bound_header_def
          OMX_BUFFERFLAG_EOS_def DecodeQueuedBitstreamBuffers_def)
  have q: "queued_bitstream_buffers (Destroy (Decode example_buffer (example_executing False))) = []"
    by (simp add: example_destroying example_executing_sel)
  have "trace (EmptyBufferDoneTask 0 (Destroy (Decode example_buffer (example_executing False))))
        = trace (Destroy (Decode example_buffer (example_executing False)))
          @ [Client (NotifyEndOfBitstreamBuffer 5)]"
    using a h q
    by (simp add: EmptyBufferDone_as_specified_def example_bound_header_def OMX_BUFFERFLAG_EOS_def
          notify_def returned_input_def)
  with e show False by simp
qed

text \<open>
  Claim C8 as amended.  For every input header the engine returns (with the counter
  positive where \<open>DCHECK\<close>s are checked), the header is pushed onto the free list and the
  counter decremented.  If the header's EOS flag is set nothing else happens.  Otherwise,
  for a header with a binding, the binding is dropped, the client is told
  \<open>NotifyEndOfBitstreamBuffer\<close> with the binding's id if the client pointer is still valid
  (and is not told otherwise), and then \<open>DecodeQueuedBitstreamBuffers\<close> runs: it empties the
  queue, and decodes the buffers it held in order unless the operation state is
  \<open>DESTROYING\<close> or \<open>ERRORING\<close>, in which case they are dropped.
\<close>

theorem EmptyBufferDoneTask_returns_input:
  "\<not> fault s \<and> headers s buffer = Some h
     \<and> (dcheck_is_on s \<longrightarrow> input_buffers_at_component s > 0) \<longrightarrow>
     (nFlags h AND OMX_BUFFERFLAG_EOS \<noteq> 0 \<longrightarrow>
        EmptyBufferDoneTask buffer s = returned_input buffer s)
   \<and> (nFlags h AND OMX_BUFFERFLAG_EOS = 0 \<and> pAppPrivate h = Some (SharedMemoryAndId m i) \<longrightarrow>
        EmptyBufferDoneTask buffer s =
          DecodeQueuedBitstreamBuffers
            (if client s
             then notify (NotifyEndOfBitstreamBuffer i)
                    ((returned_input buffer s)
                       \<lparr>headers := (headers s)(buffer \<mapsto> h\<lparr>pAppPrivate := None\<rparr>)\<rparr>)
             else (returned_input buffer s)
                    \<lparr>headers := (headers s)(buffer \<mapsto> h\<lparr>pAppPrivate := None\<rparr>)\<rparr>))
   \<and> DecodeQueuedBitstreamBuffers x =
       (if current_state_change x = DESTROYING \<or> current_state_change x = ERRORING
        then x\<lparr>queued_bitstream_buffers := []\<rparr>
        else seq (map Decode (queued_bitstream_buffers x)) (x\<lparr>queued_bitstream_buffers := []\<rparr>))"
proof -
  have "DecodeQueuedBitstreamBuffers x =
       (if current_state_change x = DESTROYING \<or> current_state_change x = ERRORING
        then x\<lparr>queued_bitstream_buffers := []\<rparr>
        else seq (map Decode (queued_bitstream_buffers x)) (x\<lparr>queued_bitstream_buffers := []\<rparr>))"
    by (simp add: DecodeQueuedBitstreamBuffers_def)
  then show ?thesis
    by (auto simp: EmptyBufferDoneTask_def returned_input_def DCHECK_def crash_def notify_def)
qed

theorem EmptyBufferDoneTask_returns_input_witness:
  "EmptyBufferDoneTask 0 (Decode example_buffer (example_executing True))
     = (example_executing True)
         \<lparr>free_input_buffers := [1, 0],
          headers := (headers (example_executing True))
                       (0 \<mapsto> example_bound_header\<lparr>pAppPrivate := None\<rparr>),
          omx_results := [],
          trace := example_trace @ [Engine (OMX_EmptyThisBuffer 0 example_bound_header) True,
                                    Client (NotifyEndOfBitstreamBuffer 5)],
          input_buffers_at_component := 0\<rparr>"
proof -
  let ?s = "Decode example_buffer (example_executing True)"
  have p: "\<not> fault ?s" "headers ?s 0 = Some example_bound_header"
    "input_buffers_at_component ?s > 0" "client ?s"
    "nFlags example_bound_header AND OMX_BUFFERFLAG_EOS = 0"
    "pAppPrivate example_bound_header = Some (SharedMemoryAndId 42 5)"
    by (simp_all add: example_decoding example_executing_sel example_bound_header_def
          OMX_BUFFERFLAG_EOS_def)
  have "EmptyBufferDoneTask 0 ?s =
          DecodeQueuedBitstreamBuffers
            (notify (NotifyEndOfBitstreamBuffer 5)
               ((returned_input 0 ?s)
                  \<lparr>headers := (headers ?s)(0 \<mapsto> example_bound_header\<lparr>pAppPrivate := None\<rparr>)\<rparr>))"
    using EmptyBufferDoneTask_returns_input [of ?s 0 example_bound_header 42 5 ?s] p
    by simp
  also have "\<dots> = (example_executing True)
         \<lparr>free_input_buffers := [1, 0],
          headers := (headers (example_executing True))
                       (0 \<mapsto> example_bound_header\<lparr>pAppPrivate := None\<rparr>),
          omx_results := [],
          trace := example_trace @ [Engine (OMX_EmptyThisBuffer 0 example_bound_header) True,
                                    Client (NotifyEndOfBitstreamBuffer 5)],
          input_buffers_at_component := 0\<rparr>"
    by (simp add: example_decoding)
       (simp add: example_executing_sel returned_input_def notify_def
          DecodeQueuedBitstreamBuffers_def)
  finally show ?thesis .
qed

section \<open>The client route: what every operation preserves\<close>

text \<open>
  Many properties of the trace depend on the trace and on whether the client pointer is
  valid, and on nothing else.  \<open>route I s\<close> says that the predicate \<open>I\<close> holds of the two (and
  that a valid client pointer has a factory).  \<open>route_stable I\<close> collects what \<open>I\<close> must
  tolerate: effects that are not client calls; client calls other than the error
  notification and the picture delivery while the pointer is valid; the error notification
  together with the invalidation that follows it; and invalidation alone.  Every method
  except \<open>Initialize\<close>, which creates a new client pointer, then preserves \<open>route I\<close>.
\<close>

definition is_PictureReady :: "Effect \<Rightarrow> bool" where
  "is_PictureReady e = (case e of Client (PictureReady q) \<Rightarrow> True | _ \<Rightarrow> False)"

definition route :: "(bool \<Rightarrow> Effect list \<Rightarrow> bool) \<Rightarrow> ovda \<Rightarrow> bool" where
  "route I s \<longleftrightarrow> I (client s) (trace s) \<and> (client s \<longrightarrow> client_ptr_factory s)"

definition route_stable :: "(bool \<Rightarrow> Effect list \<Rightarrow> bool) \<Rightarrow> bool" where
  "route_stable I \<longleftrightarrow>
     (\<forall>c t e. I c t \<and> \<not> is_client_call e \<longrightarrow> I c (t @ [e]))
   \<and> (\<forall>t x. I True t \<and> \<not> is_NotifyError (Client x) \<and> \<not> is_PictureReady (Client x)
          \<longrightarrow> I True (t @ [Client x]))
   \<and> (\<forall>t x. I True t \<longrightarrow> I False (t @ [Client (NotifyError x)]))
   \<and> (\<forall>c t. I c t \<longrightarrow> I False t)"

named_theorems route_keep

lemma route_upd [simp]:
  "route I (s\<lparr>dcheck_is_on := x1\<rparr>) = route I s"
  "route I (s\<lparr>fault := x2\<rparr>) = route I s"
  "route I (s\<lparr>deleted := x3\<rparr>) = route I s"
  "route I (s\<lparr>pre_sandbox_init_done := x4\<rparr>) = route I s"
  "route I (s\<lparr>component_handle := x5\<rparr>) = route I s"
  "route I (s\<lparr>init_begun := x7\<rparr>) = route I s"
  "route I (s\<lparr>client_state := x8\<rparr>) = route I s"
  "route I (s\<lparr>current_state_change := x9\<rparr>) = route I s"
  "route I (s\<lparr>input_buffer_count := x10\<rparr>) = route I s"
  "route I (s\<lparr>input_buffer_size := x11\<rparr>) = route I s"
  "route I (s\<lparr>input_port := x12\<rparr>) = route I s"
  "route I (s\<lparr>input_buffers_at_component := x13\<rparr>) = route I s"
  "route I (s\<lparr>output_port := x14\<rparr>) = route I s"
  "route I (s\<lparr>output_buffers_at_component := x15\<rparr>) = route I s"
  "route I (s\<lparr>free_input_buffers := x16\<rparr>) = route I s"
  "route I (s\<lparr>queued_bitstream_buffers := x17\<rparr>) = route I s"
  "route I (s\<lparr>queued_picture_buffer_ids := x18\<rparr>) = route I s"
  "route I (s\<lparr>pictures := x19\<rparr>) = route I s"
  "route I (s\<lparr>fake_output_buffers := x20\<rparr>) = route I s"
  "route I (s\<lparr>last_requested_picture_buffer_dimensions := x21\<rparr>) = route I s"
  "route I (s\<lparr>codec := x22\<rparr>) = route I s"
  "route I (s\<lparr>h264_profile := x23\<rparr>) = route I s"
  "route I (s\<lparr>headers := x24\<rparr>) = route I s"
  "route I (s\<lparr>next_header := x25\<rparr>) = route I s"
  "route I (s\<lparr>engine := x26\<rparr>) = route I s"
  "route I (s\<lparr>omx_results := x27\<rparr>) = route I s"
  "route I (s\<lparr>make_context_current := x28\<rparr>) = route I s"
  "route I (s\<lparr>egl_synced := x29\<rparr>) = route I s"
  "route I (s\<lparr>egl_display := x31\<rparr>) = route I s"
  "route I (s\<lparr>egl_sync_created := x32\<rparr>) = route I s"
  "route I (s\<lparr>pending_sync := x30\<rparr>) = route I s"
  "route I (s\<lparr>busy_loop := x31\<rparr>) = route I s"
  by (simp_all add: route_def)

lemma route_engine_effect [route_keep]:
  "route_stable I \<Longrightarrow> route I s \<Longrightarrow> \<not> is_client_call e \<Longrightarrow> route I (s\<lparr>trace := trace s @ [e]\<rparr>)"
  by (auto simp: route_def route_stable_def)

lemma route_omx_done [route_keep]:
  "route_stable I \<Longrightarrow> route I s \<Longrightarrow> route I (omx_done c s)"
  by (auto simp: omx_done_def route_def route_stable_def is_client_call_def)

lemma route_invalidate [route_keep]:
  "route_stable I \<Longrightarrow> route I s \<Longrightarrow> route I (s\<lparr>client := False\<rparr>)"
  by (auto simp: route_def route_stable_def)

lemma route_crash [route_keep]: "route I s \<Longrightarrow> route I (crash s)"
  by (simp add: crash_def)

lemma route_DCHECK [route_keep]: "route I s \<Longrightarrow> route I (DCHECK c s)"
  by (simp add: DCHECK_def route_crash)

lemma route_notify [route_keep]:
  "route_stable I \<Longrightarrow> route I s \<Longrightarrow> client s \<Longrightarrow> \<not> is_NotifyError (Client x)
     \<Longrightarrow> \<not> is_PictureReady (Client x) \<Longrightarrow> route I (notify x s)"
  by (auto simp: route_def route_stable_def notify_def)

lemma route_stop:
  assumes st: "route_stable I"
  shows "route I s \<longrightarrow> route I (BeginTransitionToState new_state s)"
    and "route I s \<longrightarrow> route I (StopOnError error s)"
proof (induction new_state s and error s rule: BeginTransitionToState_StopOnError.induct)
  case (1 new_state s)
  define s1 where "s1 = (if new_state \<noteq> OMX_StateInvalid
                then DCHECK (current_state_change s \<noteq> NO_TRANSITION) s else s)"
  show ?case
  proof
    assume r: "route I s"
    then have r1: "route I s1" by (simp add: s1_def route_DCHECK)
    then have r2: "route I (omx_done (OMX_SendCommandStateSet new_state) s1)"
      using st by (simp add: route_omx_done)
    show "route I (BeginTransitionToState new_state s)"
    proof (cases "fault s1 \<or> current_state_change s1 = ERRORING \<or> omx_ok s1")
      case True
      then show ?thesis using r1 r2
        by (auto simp: BeginTransitionToState.simps[of new_state s] s1_def[symmetric])
    next
      case False
      then have "route I (StopOnError PLATFORM_FAILURE (omx_done (OMX_SendCommandStateSet new_state) s1))"
        using 1[of s1] r2 by (simp add: s1_def)
      then show ?thesis using False
        by (simp add: BeginTransitionToState.simps[of new_state s] s1_def[symmetric])
    qed
  qed
next
  case (2 error s)
  define s1 where "s1 = (if client s \<and> init_begun s then notify (NotifyError error) s else s)"
  define s2 where "s2 = s1\<lparr>client := False\<rparr>"
  show ?case
  proof
    assume r: "route I s"
    have r2: "route I s2"
      using r st by (auto simp: s1_def s2_def route_def notify_def route_stable_def)
    have f: "client_ptr_factory s1 = client_ptr_factory s"
      by (simp add: s1_def notify_def)
    show "route I (StopOnError error s)"
    proof (cases "current_state_change s = ERRORING")
      case True
      then show ?thesis using r by (simp add: StopOnError.simps)
    next
      case e: False
      show ?thesis
      proof (cases "client_ptr_factory s")
        case False
        then have "s1 = s" using r by (auto simp: s1_def route_def)
        then show ?thesis using False e r
          by (simp add: StopOnError.simps[of error s] s1_def[symmetric] route_crash)
      next
        case t: True
        show ?thesis
        proof (cases "client_state s2 = OMX_StateInvalid \<or> client_state s2 = OMX_StateMax")
          case True
          then show ?thesis using e t f r2
            by (simp add: StopOnError.simps[of error s] s1_def[symmetric] s2_def[symmetric] Let_def)
        next
          case False
          then have "route I (BeginTransitionToState OMX_StateInvalid s2)"
            using 2[of s1 s2] e t f r2 by (simp add: s1_def s2_def)
          then show ?thesis using False e t f
            by (simp add: StopOnError.simps[of error s] s1_def[symmetric] s2_def[symmetric] Let_def)
        qed
      qed
    qed
  qed
qed

lemma route_StopOnError [route_keep]:
  "route_stable I \<Longrightarrow> route I s \<Longrightarrow> route I (StopOnError e s)"
  "route_stable I \<Longrightarrow> route I s \<Longrightarrow> route I (BeginTransitionToState n s)"
  by (simp_all add: route_stop)

lemma route_seq:
  "(\<And>f x. f \<in> set fs \<Longrightarrow> P x \<Longrightarrow> P (f x)) \<Longrightarrow> P s \<Longrightarrow> P (seq fs s)"
  by (induction fs arbitrary: s) auto

lemma route_Decode [route_keep]:
  "route_stable I \<Longrightarrow> route I s \<Longrightarrow> route I (Decode b s)"
  by (simp add: Decode_def route_keep Let_def split: option.splits)

lemma route_SendCommandToPort [route_keep]:
  "route_stable I \<Longrightarrow> route I s \<Longrightarrow> route I (snd (SendCommandToPort c p s))"
  by (simp add: SendCommandToPort_def route_keep Let_def)

lemma route_QueuePictureBuffer [route_keep]:
  "route_stable I \<Longrightarrow> route I s \<Longrightarrow> route I (QueuePictureBuffer i s)"
  by (simp add: QueuePictureBuffer_def route_keep Let_def split: option.splits)

lemma route_CheckPictureStatus [route_keep]:
  "route_stable I \<Longrightarrow> route I s \<Longrightarrow> route I (CheckPictureStatus i s)"
  by (simp add: CheckPictureStatus_def route_keep Let_def split: list.splits)

lemma route_ReusePictureBuffer [route_keep]:
  assumes st: "route_stable I" and r: "route I s"
  shows "route I (ReusePictureBuffer i s)"
proof -
  define s1 where "s1 = DCHECK (egl_display s) s"
  define s2 where "s2 = DCHECK (case egl_sync_created s1 of [] \<Rightarrow> True | c # rest \<Rightarrow> c)
                 (s1\<lparr>trace := trace s1 @ [CreateSync i],
                     egl_sync_created := tl (egl_sync_created s1)\<rparr>)"
  have r1: "route I s1"
    using r by (simp add: s1_def route_DCHECK)
  have "route I (s1\<lparr>trace := trace s1 @ [CreateSync i]\<rparr>)"
    using st r1 by (rule route_engine_effect) (simp add: is_client_call_def)
  then have r2: "route I s2"
    by (simp add: s2_def route_DCHECK)
  have "ReusePictureBuffer i s
          = (if fault s1 then s1 else if fault s2 then s2 else CheckPictureStatus i s2)"
    by (simp add: ReusePictureBuffer_def Let_def s1_def s2_def)
  then show ?thesis
    using st r1 r2 by (simp add: route_CheckPictureStatus)
qed

lemma route_Flush [route_keep]:
  "route_stable I \<Longrightarrow> route I s \<Longrightarrow> route I (Flush s)"
  by (simp add: Flush_def route_keep)

lemma route_Reset [route_keep]:
  "route_stable I \<Longrightarrow> route I s \<Longrightarrow> route I (Reset s)"
  by (simp add: Reset_def route_keep)

lemma omx_done_sel [simp]:
  "client (omx_done c s) = client s"
  "client_ptr_factory (omx_done c s) = client_ptr_factory s"
  "fault (omx_done c s) = fault s"
  "deleted (omx_done c s) = deleted s"
  "init_begun (omx_done c s) = init_begun s"
  "current_state_change (omx_done c s) = current_state_change s"
  "client_state (omx_done c s) = client_state s"
  "dcheck_is_on (omx_done c s) = dcheck_is_on s"
  "free_input_buffers (omx_done c s) = free_input_buffers s"
  "input_buffers_at_component (omx_done c s) = input_buffers_at_component s"
  "input_buffer_count (omx_done c s) = input_buffer_count s"
  "queued_bitstream_buffers (omx_done c s) = queued_bitstream_buffers s"
  "queued_picture_buffer_ids (omx_done c s) = queued_picture_buffer_ids s"
  by (simp_all add: omx_done_def)

lemma notify_sel [simp]:
  "client (notify x s) = client s"
  "client_ptr_factory (notify x s) = client_ptr_factory s"
  "fault (notify x s) = fault s"
  "deleted (notify x s) = deleted s"
  "init_begun (notify x s) = init_begun s"
  "current_state_change (notify x s) = current_state_change s"
  "client_state (notify x s) = client_state s"
  "dcheck_is_on (notify x s) = dcheck_is_on s"
  "free_input_buffers (notify x s) = free_input_buffers s"
  "input_buffers_at_component (notify x s) = input_buffers_at_component s"
  "input_buffer_count (notify x s) = input_buffer_count s"
  "queued_bitstream_buffers (notify x s) = queued_bitstream_buffers s"
  "queued_picture_buffer_ids (notify x s) = queued_picture_buffer_ids s"
  by (simp_all add: notify_def)

lemma crash_sel [simp]:
  "client (crash s) = client s"
  "client_ptr_factory (crash s) = client_ptr_factory s"
  "fault (crash s) = True"
  "deleted (crash s) = deleted s"
  "init_begun (crash s) = init_begun s"
  "current_state_change (crash s) = current_state_change s"
  "client_state (crash s) = client_state s"
  "dcheck_is_on (crash s) = dcheck_is_on s"
  "free_input_buffers (crash s) = free_input_buffers s"
  "input_buffers_at_component (crash s) = input_buffers_at_component s"
  "input_buffer_count (crash s) = input_buffer_count s"
  "queued_bitstream_buffers (crash s) = queued_bitstream_buffers s"
  "queued_picture_buffer_ids (crash s) = queued_picture_buffer_ids s"
  "trace (crash s) = trace s"
  by (simp_all add: crash_def)

lemma DCHECK_sel [simp]:
  "client (DCHECK c s) = client s"
  "client_ptr_factory (DCHECK c s) = client_ptr_factory s"
  "deleted (DCHECK c s) = deleted s"
  "init_begun (DCHECK c s) = init_begun s"
  "current_state_change (DCHECK c s) = current_state_change s"
  "client_state (DCHECK c s) = client_state s"
  "dcheck_is_on (DCHECK c s) = dcheck_is_on s"
  "free_input_buffers (DCHECK c s) = free_input_buffers s"
  "input_buffers_at_component (DCHECK c s) = input_buffers_at_component s"
  "input_buffer_count (DCHECK c s) = input_buffer_count s"
  "queued_bitstream_buffers (DCHECK c s) = queued_bitstream_buffers s"
  "queued_picture_buffer_ids (DCHECK c s) = queued_picture_buffer_ids s"
  "trace (DCHECK c s) = trace s"
  by (simp_all add: DCHECK_def)

lemma route_stable_client:
  "route_stable I \<Longrightarrow> I True t \<Longrightarrow> \<not> is_NotifyError (Client x)
     \<Longrightarrow> \<not> is_PictureReady (Client x) \<Longrightarrow> I True (t @ [Client x])"
  by (simp add: route_stable_def)

lemma route_dismiss_all [route_keep]:
  "route_stable I \<Longrightarrow> route I s \<Longrightarrow> client s
   \<Longrightarrow> route I (s\<lparr>trace := trace s @ map (\<lambda>i. Client (DismissPictureBuffer i)) ids\<rparr>)"
proof (induction ids rule: rev_induct)
  case Nil
  then show ?case by (simp add: route_def)
next
  case (snoc i ids)
  then have "I True (trace s @ map (\<lambda>i. Client (DismissPictureBuffer i)) ids)"
    by (simp add: route_def)
  then have "I True ((trace s @ map (\<lambda>i. Client (DismissPictureBuffer i)) ids)
                     @ [Client (DismissPictureBuffer i)])"
    by (rule route_stable_client[OF snoc.prems(1)])
       (simp_all add: is_NotifyError_def is_PictureReady_def)
  then show ?case using snoc.prems
    by (simp add: route_def)
qed

lemma route_OnReachedEOSInFlushing [route_keep]:
  "route_stable I \<Longrightarrow> route I s \<Longrightarrow> route I (OnReachedEOSInFlushing s)"
  by (simp add: OnReachedEOSInFlushing_def route_keep is_NotifyError_def is_PictureReady_def)

lemma route_flush_ports [route_keep]:
  "route_stable I \<Longrightarrow> route I s \<Longrightarrow> route I (FlushIOPorts s)"
  "route_stable I \<Longrightarrow> route I s \<Longrightarrow> route I (InputPortFlushDone s)"
  "route_stable I \<Longrightarrow> route I s \<Longrightarrow> route I (OutputPortFlushDone s)"
  by (simp_all add: FlushIOPorts_def InputPortFlushDone_def OutputPortFlushDone_def route_keep)

lemma route_ShutdownComponent [route_keep]:
  "route_stable I \<Longrightarrow> route I s \<Longrightarrow> route I (ShutdownComponent s)"
  by (simp add: ShutdownComponent_def route_keep Let_def)

lemma route_destructor [route_keep]:
  "route I s \<Longrightarrow> route I (destructor s)"
  by (simp add: destructor_def route_keep)

lemma route_BusyLoopInDestroying [route_keep]:
  "route I s \<Longrightarrow> route I (BusyLoopInDestroying s)"
  by (simp add: BusyLoopInDestroying_def route_keep)

lemma route_free_headers [route_keep]:
  "route_stable I \<Longrightarrow> route I (snd r) \<Longrightarrow> route I (snd (free_headers port as r))"
  by (induction port as r rule: free_headers.induct) (simp_all add: route_keep)

lemma route_FreeOMXBuffers_pictures [route_keep]:
  "route_stable I \<Longrightarrow> route I (snd r) \<Longrightarrow> route I (snd (FreeOMXBuffers_pictures ps r))"
proof (induction ps arbitrary: r)
  case Nil
  then show ?case by simp
next
  case (Cons kp ps)
  obtain k p where kp: "kp = (k, p)" by (cases kp)
  obtain fs s where r: "r = (fs, s)" by (cases r)
  show ?case
    using Cons.prems unfolding kp r
    by (simp add: Cons.IH route_keep Let_def is_NotifyError_def is_PictureReady_def
          split: option.splits)
qed

lemma route_FreeOMXBuffers [route_keep]:
  assumes st: "route_stable I" and r: "route I s"
  shows "route I (FreeOMXBuffers s)"
proof -
  define r1 where "r1 = free_headers (input_port s) (free_input_buffers s) (False, s)"
  define s1 where "s1 = (snd r1)\<lparr>free_input_buffers := []\<rparr>"
  define r2 where "r2 = FreeOMXBuffers_pictures (pictures s1) (fst r1, s1)"
  define s2 where "s2 = (snd r2)\<lparr>pictures := []\<rparr>"
  define r3 where "r3 = free_headers (output_port s2) (fake_output_buffers s2) (fst r2, s2)"
  define s3 where "s3 = (snd r3)\<lparr>fake_output_buffers := []\<rparr>"
  define s4 where "s4 = (if client s3
                then s3\<lparr>trace := trace s3
                          @ map (\<lambda>i. Client (DismissPictureBuffer i)) (queued_picture_buffer_ids s3)\<rparr>
                else s3)"
  define s5 where "s5 = s4\<lparr>queued_picture_buffer_ids := []\<rparr>"
  have "route I s1" using st r by (simp add: s1_def r1_def route_free_headers)
  then have a: "route I (snd r2)" using st by (simp add: r2_def route_FreeOMXBuffers_pictures)
  then have "route I s2" by (simp add: s2_def)
  then have "route I s3" using st by (simp add: s3_def r3_def route_free_headers)
  then have "route I s4" using st by (simp add: s4_def route_dismiss_all)
  then have "route I s5" by (simp add: s5_def)
  then have "route I (if fst r3 then StopOnError PLATFORM_FAILURE s5 else s5)"
    using st by (simp add: route_StopOnError)
  moreover have "FreeOMXBuffers s =
      (if fault (snd r2) then snd r2 else if fst r3 then StopOnError PLATFORM_FAILURE s5 else s5)"
    by (simp add: FreeOMXBuffers_def Let_def r1_def s1_def r2_def s2_def r3_def s3_def s4_def s5_def)
  ultimately show ?thesis using a by simp
qed

lemma route_Destroy [route_keep]:
  "route_stable I \<Longrightarrow> route I s \<Longrightarrow> route I (Destroy s)"
  by (simp add: Destroy_def route_keep Let_def)

lemma route_OnReached [route_keep]:
  "route_stable I \<Longrightarrow> route I s \<Longrightarrow> route I (OnReachedIdleInDestroying s)"
  "route_stable I \<Longrightarrow> route I s \<Longrightarrow> route I (OnReachedLoadedInDestroying s)"
  "route_stable I \<Longrightarrow> route I s \<Longrightarrow> route I (OnReachedInvalidInErroring s)"
  "route_stable I \<Longrightarrow> route I s \<Longrightarrow> route I (OnReachedIdleInInitializing s)"
  "route_stable I \<Longrightarrow> route I s \<Longrightarrow> route I (OnReachedPauseInResetting s)"
  by (simp_all add: OnReachedIdleInDestroying_def OnReachedLoadedInDestroying_def
        OnReachedInvalidInErroring_def OnReachedIdleInInitializing_def
        OnReachedPauseInResetting_def route_keep)

lemma route_FillFakeOutputBuffers [route_keep]:
  "route_stable I \<Longrightarrow> route I s \<Longrightarrow> route I (snd (FillFakeOutputBuffers bs s))"
  by (induction bs s rule: FillFakeOutputBuffers.induct) (simp_all add: route_keep Let_def)

lemma route_OnReachedExecutingInInitializing [route_keep]:
  "route_stable I \<Longrightarrow> route I s \<Longrightarrow> route I (OnReachedExecutingInInitializing s)"
  by (simp add: OnReachedExecutingInInitializing_def route_keep Let_def
        is_NotifyError_def is_PictureReady_def)

lemma route_seq_all:
  "(\<And>f x. f \<in> set fs \<Longrightarrow> route I x \<Longrightarrow> route I (f x)) \<Longrightarrow> route I s \<Longrightarrow> route I (seq fs s)"
  by (rule route_seq)

lemma route_DecodeQueuedBitstreamBuffers [route_keep]:
  "route_stable I \<Longrightarrow> route I s \<Longrightarrow> route I (DecodeQueuedBitstreamBuffers s)"
  by (auto simp: DecodeQueuedBitstreamBuffers_def Let_def route_Decode intro!: route_seq_all)

lemma stop_csc:
  "current_state_change (BeginTransitionToState new_state s) = current_state_change s
     \<or> current_state_change (BeginTransitionToState new_state s) = ERRORING"
  "current_state_change (StopOnError error s) = current_state_change s
     \<or> current_state_change (StopOnError error s) = ERRORING"
proof (induction new_state s and error s rule: BeginTransitionToState_StopOnError.induct)
  case (1 new_state s)
  define s1 where "s1 = (if new_state \<noteq> OMX_StateInvalid
                then DCHECK (current_state_change s \<noteq> NO_TRANSITION) s else s)"
  have c: "current_state_change s1 = current_state_change s"
    by (simp add: s1_def)
  show ?case
  proof (cases "fault s1 \<or> current_state_change s1 = ERRORING \<or> omx_ok s1")
    case True
    then show ?thesis using c
      by (auto simp: BeginTransitionToState.simps[of new_state s] s1_def[symmetric])
  next
    case False
    then show ?thesis using 1[of s1] c
      by (simp add: BeginTransitionToState.simps[of new_state s] s1_def[symmetric])
  qed
next
  case (2 error s)
  define s1 where "s1 = (if client s \<and> init_begun s then notify (NotifyError error) s else s)"
  define s2 where "s2 = s1\<lparr>client := False\<rparr>"
  have c: "current_state_change s2 = current_state_change s"
    "current_state_change s1 = current_state_change s"
    by (simp_all add: s1_def s2_def)
  show ?case
  proof (cases "current_state_change s = ERRORING \<or> \<not> client_ptr_factory s1
                \<or> client_state s2 = OMX_StateInvalid \<or> client_state s2 = OMX_StateMax")
    case True
    then show ?thesis using c
      by (auto simp: StopOnError.simps[of error s] s1_def[symmetric] s2_def[symmetric] Let_def)
  next
    case False
    then have "current_state_change (BeginTransitionToState OMX_StateInvalid s2)
                 = current_state_change s2
               \<or> current_state_change (BeginTransitionToState OMX_StateInvalid s2) = ERRORING"
      using 2[of s1 s2] by (simp add: s1_def s2_def)
    then show ?thesis using False c
      by (auto simp: StopOnError.simps[of error s] s1_def[symmetric] s2_def[symmetric] Let_def)
  qed
qed

lemma stop_more_fields:
  "queued_picture_buffer_ids (StopOnError e s) = queued_picture_buffer_ids s"
  "client_state (StopOnError e s) = client_state s"
  "input_buffer_count (StopOnError e s) = input_buffer_count s"
  "dcheck_is_on (StopOnError e s) = dcheck_is_on s"
  "deleted (StopOnError e s) = deleted s"
  "client_ptr_factory (StopOnError e s) = client_ptr_factory s"
  "busy_loop (StopOnError e s) = busy_loop s"
  "component_handle (StopOnError e s) = component_handle s"
  "pending_sync (StopOnError e s) = pending_sync s"
  using arg_cong[OF stop_frame(2)[of e s], of queued_picture_buffer_ids]
        arg_cong[OF stop_frame(2)[of e s], of client_state]
        arg_cong[OF stop_frame(2)[of e s], of input_buffer_count]
        arg_cong[OF stop_frame(2)[of e s], of dcheck_is_on]
        arg_cong[OF stop_frame(2)[of e s], of deleted]
        arg_cong[OF stop_frame(2)[of e s], of client_ptr_factory]
        arg_cong[OF stop_frame(2)[of e s], of busy_loop]
        arg_cong[OF stop_frame(2)[of e s], of component_handle]
        arg_cong[OF stop_frame(2)[of e s], of pending_sync]
  by (simp_all add: stop_reset_def)

lemma StopOnError_not_RESETTING:
  "current_state_change s \<noteq> RESETTING \<Longrightarrow> current_state_change (StopOnError e s) \<noteq> RESETTING"
  using stop_csc(2)[of e s] by auto

lemma QueuePictureBuffer_outside_reset:
  assumes "current_state_change s \<noteq> RESETTING"
  shows "current_state_change (QueuePictureBuffer i s) \<noteq> RESETTING"
    and "queued_picture_buffer_ids (QueuePictureBuffer i s) = queued_picture_buffer_ids s"
  using assms
  by (simp_all add: QueuePictureBuffer_def Let_def stop_more_fields StopOnError_not_RESETTING
        split: option.splits)

lemma CheckPictureStatus_outside_reset:
  assumes "current_state_change s \<noteq> RESETTING"
  shows "current_state_change (CheckPictureStatus i s) \<noteq> RESETTING"
    and "queued_picture_buffer_ids (CheckPictureStatus i s) = queued_picture_buffer_ids s"
  using assms
  by (simp_all add: CheckPictureStatus_def QueuePictureBuffer_outside_reset Let_def
        split: list.splits)

lemma ReusePictureBuffer_outside_reset:
  assumes "current_state_change s \<noteq> RESETTING"
  shows "current_state_change (ReusePictureBuffer i s) \<noteq> RESETTING"
    and "queued_picture_buffer_ids (ReusePictureBuffer i s) = queued_picture_buffer_ids s"
  using assms
  by (simp_all add: ReusePictureBuffer_def CheckPictureStatus_outside_reset Let_def)

lemma seq_fault: "fault s \<Longrightarrow> seq fs s = s"
  by (cases fs) simp_all

lemma ReuseQueuedPictureBuffers_outside_reset:
  "current_state_change s \<noteq> RESETTING \<Longrightarrow>
     ReuseQueuedPictureBuffers i s
       = Some (seq (map ReusePictureBuffer (drop i (queued_picture_buffer_ids s))) s)"
proof (induction "length (queued_picture_buffer_ids s) - i" arbitrary: i s)
  case 0
  then show ?case
    by (simp add: ReuseQueuedPictureBuffers.simps[of i s])
next
  case (Suc n)
  let ?q = "queued_picture_buffer_ids s"
  let ?s = "ReusePictureBuffer (?q ! i) s"
  have i: "i < length ?q" using Suc.hyps(2) by simp
  have d: "drop i ?q = ?q ! i # drop (Suc i) ?q"
    using i by (simp add: Cons_nth_drop_Suc)
  show ?case
  proof (cases "fault s")
    case True
    then show ?thesis
      by (simp add: ReuseQueuedPictureBuffers.simps[of i s] seq_fault)
  next
    case False
    have q: "queued_picture_buffer_ids ?s = ?q" and c: "current_state_change ?s \<noteq> RESETTING"
      using ReusePictureBuffer_outside_reset[OF Suc.prems] by simp_all
    have "ReuseQueuedPictureBuffers (Suc i) ?s
            = Some (seq (map ReusePictureBuffer (drop (Suc i) (queued_picture_buffer_ids ?s))) ?s)"
      using Suc.hyps(2) q c by (intro Suc.hyps(1)) simp_all
    then show ?thesis using False i d q
      by (simp add: ReuseQueuedPictureBuffers.simps[of i s])
  qed
qed

section \<open>The end of a reset\<close>

text \<open>A bitstream buffer whose shared memory does not map, and the object in the middle of a
  reset: \<open>Reset\<close> was called on the executing example, \<open>example_unmappable\<close> was passed to
  \<open>Decode\<close> (and queued), the engine acknowledged \<open>OMX_StatePause\<close>, returned the eight fake
  output buffers and acknowledged the flush of both ports.\<close>

definition example_unmappable :: BitstreamBuffer where
  "example_unmappable = \<lparr>bb_id = 6, bb_handle = 43, bb_size = 1024, bb_mappable = False\<rparr>"

definition example_resetting :: "bool \<Rightarrow> ovda" where
  "example_resetting d =
     (example_executing d)
       \<lparr>client_state := OMX_StatePause, current_state_change := RESETTING,
        output_buffers_at_component := 0, fake_output_buffers := [],
        queued_bitstream_buffers := [example_unmappable],
        headers := [0 \<mapsto> example_input_header, 1 \<mapsto> example_input_header],
        trace := example_trace
          @ [Engine (OMX_SendCommandStateSet OMX_StatePause) True,
             Engine (OMX_FreeBuffer 1 2) True, Engine (OMX_FreeBuffer 1 3) True,
             Engine (OMX_FreeBuffer 1 4) True, Engine (OMX_FreeBuffer 1 5) True,
             Engine (OMX_FreeBuffer 1 6) True, Engine (OMX_FreeBuffer 1 7) True,
             Engine (OMX_FreeBuffer 1 8) True, Engine (OMX_FreeBuffer 1 9) True,
             Engine (OMX_SendCommandPort OMX_CommandFlush 0) True,
             Engine (OMX_SendCommandPort OMX_CommandFlush 1) True,
             Engine (OMX_SendCommandStateSet OMX_StateExecuting) True]\<rparr>"

lemma example_resetting_sel:
  "fault (example_resetting d) = False"
  "dcheck_is_on (example_resetting d) = d"
  "client (example_resetting d) = True"
  "client_ptr_factory (example_resetting d) = True"
  "init_begun (example_resetting d) = True"
  "client_state (example_resetting d) = OMX_StatePause"
  "current_state_change (example_resetting d) = RESETTING"
  "free_input_buffers (example_resetting d) = [0, 1]"
  "queued_bitstream_buffers (example_resetting d) = [example_unmappable]"
  "queued_picture_buffer_ids (example_resetting d) = []"
  "headers (example_resetting d) 0 = Some example_input_header"
  "omx_results (example_resetting d) = []"
  "egl_synced (example_resetting d) = []"
  "input_buffers_at_component (example_resetting d) = 0"
  "output_buffers_at_component (example_resetting d) = 0"
  by (simp_all add: example_resetting_def example_executing_sel)

text \<open>What the specification says happens when the engine then acknowledges
  \<open>OMX_StateExecuting\<close>: the operation state becomes \<open>NONE\<close>, every queued bitstream buffer is
  passed to \<open>Decode\<close> in order, then every queued picture id to \<open>ReusePictureBuffer\<close> in
  order (\<open>reset_drained\<close>), and then the client is told that the reset is done.\<close>

definition reset_drained :: "ovda \<Rightarrow> ovda" where
  "reset_drained s =
     (let s1 = s\<lparr>client_state := OMX_StateExecuting, current_state_change := NO_TRANSITION\<rparr>;
          s2 = seq (map Decode (queued_bitstream_buffers s1)) (s1\<lparr>queued_bitstream_buffers := []\<rparr>)
      in seq (map ReusePictureBuffer (queued_picture_buffer_ids s2)) s2)"

definition reset_done_as_specified :: "ovda \<Rightarrow> ovda" where
  "reset_done_as_specified s =
     notify NotifyResetDone ((reset_drained s)\<lparr>queued_picture_buffer_ids := []\<rparr>)"

definition OnReachedExecutingInResetting_as_specified :: "ovda \<Rightarrow> bool" where
  "OnReachedExecutingInResetting_as_specified s \<longleftrightarrow>
     (current_state_change s = RESETTING
      \<longrightarrow> OnReachedExecutingInResetting s = Some (reset_done_as_specified s))"

lemma example_drain:
  "DecodeQueuedBitstreamBuffers
     ((example_resetting d)\<lparr>client_state := OMX_StateExecuting,
                             current_state_change := NO_TRANSITION\<rparr>)
   = (example_resetting d)
       \<lparr>client_state := OMX_StateExecuting, current_state_change := ERRORING,
        queued_bitstream_buffers := [], free_input_buffers := [1], client := False,
        omx_results := [],
        trace := trace (example_resetting d)
                 @ [Client (NotifyError UNREADABLE_INPUT),
                    Engine (OMX_SendCommandStateSet OMX_StateInvalid) True]\<rparr>"
  apply (simp add: DecodeQueuedBitstreamBuffers_def Decode_def example_resetting_sel Let_def
        example_unmappable_def cong: let_weak_cong)
  apply (simp add: StopOnError.simps BeginTransitionToState.simps example_resetting_sel notify_def
        omx_ok_def omx_done_def)
  done

text \<open>The calls and engine events that lead from the executing example to
  \<open>example_resetting\<close>.\<close>

definition reset_ops :: "Op list" where
  "reset_ops =
     [Call_Reset, Call_Decode example_unmappable,
      Task_FillBufferDone 2 0 (- 1), Task_FillBufferDone 3 0 (- 1),
      Task_FillBufferDone 4 0 (- 1), Task_FillBufferDone 5 0 (- 1),
      Task_FillBufferDone 6 0 (- 1), Task_FillBufferDone 7 0 (- 1),
      Task_FillBufferDone 8 0 (- 1), Task_FillBufferDone 9 0 (- 1),
      Task_EventHandlerComplete (CmdComplete_StateSet OMX_StatePause),
      Task_EventHandlerComplete (CmdComplete_Flush 0),
      Task_EventHandlerComplete (CmdComplete_Flush 1)]"

lemmas reset_eval = step_def EventHandlerCompleteTask_def DispatchStateReached_def
  Reset_def Decode_def FillBufferDoneTask_def engine_writes_def
  OnReachedPauseInResetting_def FlushIOPorts_def InputPortFlushDone_def OutputPortFlushDone_def
  SendCommandToPort_def
  example_executing_sel example_input_header_def example_fake_header_def
  OMX_BUFFERFLAG_EOS_def evaluate

lemma example_resetting_reached:
  "run chromium_video_codecs reset_ops (example_executing d) = Some (example_resetting d)"
  apply (simp add: reset_ops_def reset_eval example_executing_fakes cong: let_weak_cong)
  apply (simp add: example_resetting_def example_executing_def fun_eq_iff)
  done

lemma example_reset_stops:
  "OnReachedExecutingInResetting (example_resetting d)
   = Some ((example_resetting d)
        \<lparr>client_state := OMX_StateExecuting, current_state_change := ERRORING,
         queued_bitstream_buffers := [], free_input_buffers := [1], client := False,
         trace := trace (example_resetting d)
                  @ [Client (NotifyError UNREADABLE_INPUT),
                     Engine (OMX_SendCommandStateSet OMX_StateInvalid) True],
         fault := True\<rparr>)"
  by (simp add: OnReachedExecutingInResetting_def DCHECK_def example_resetting_sel Let_def
        example_drain ReuseQueuedPictureBuffers_outside_reset crash_def cong: let_weak_cong)

text \<open>
  Claim C7: when the engine acknowledges \<open>OMX_StateExecuting\<close> during a reset, the adapter
  sets the operation state to \<open>NONE\<close>, drains the queued bitstream buffers through \<open>Decode\<close>,
  then the queued picture ids through \<open>ReusePictureBuffer\<close>, and then tells the client that
  the reset is done.  The code misses this when a drained \<open>Decode\<close> fails.  From the
  constructor, \<open>Initialize\<close>, the engine's two acknowledgements, \<open>Reset\<close>, a \<open>Decode\<close> of a
  buffer whose shared memory does not map (queued, since a reset is in progress), the
  return of the fake output buffers and the acknowledgements of the pause and of both port
  flushes lead to \<open>example_resetting\<close>, in a build with \<open>DCHECK\<close>s and in one without.  When the
  engine then acknowledges \<open>OMX_StateExecuting\<close>, the drain's \<open>Decode\<close> ends in
  \<open>StopOnError(UNREADABLE_INPUT)\<close>, which invalidates the client pointer, and the method
  stops the process at \<open>client_->NotifyResetDone()\<close>, which dereferences the pointer without
  the test that the other notifications make: the client is told of the error and
  never that the reset is done.
\<close>

theorem NotifyResetDone_lost_after_failed_drain:
  "run chromium_video_codecs
     ([Call_Initialize (H264PROFILE_MAIN chromium_video_codecs),
       Task_EventHandlerComplete (CmdComplete_StateSet OMX_StateIdle),
       Task_EventHandlerComplete (CmdComplete_StateSet OMX_StateExecuting)] @ reset_ops)
     (example_new d)
   = Some (example_resetting d)
   \<and> current_state_change (example_resetting d) = RESETTING
   \<and> client (example_resetting d)
   \<and> step chromium_video_codecs
        (Task_EventHandlerComplete (CmdComplete_StateSet OMX_StateExecuting))
        (example_resetting d)
     = Some ((example_resetting d)
          \<lparr>client_state := OMX_StateExecuting, current_state_change := ERRORING,
           queued_bitstream_buffers := [], free_input_buffers := [1], client := False,
           trace := trace (example_resetting d)
                    @ [Client (NotifyError UNREADABLE_INPUT),
                       Engine (OMX_SendCommandStateSet OMX_StateInvalid) True],
           fault := True\<rparr>)
   \<and> OnReachedExecutingInResetting (example_resetting d)
       \<noteq> Some (reset_done_as_specified (example_resetting d))"
proof -
  have a: "run chromium_video_codecs
     ([Call_Initialize (H264PROFILE_MAIN chromium_video_codecs),
       Task_EventHandlerComplete (CmdComplete_StateSet OMX_StateIdle),
       Task_EventHandlerComplete (CmdComplete_StateSet OMX_StateExecuting)] @ reset_ops)
     (example_new d)
   = Some (example_resetting d)"
  proof -
    have i: "run chromium_video_codecs
               [Call_Initialize (H264PROFILE_MAIN chromium_video_codecs)] (example_new d)
             = Some (example_initializing_state d)"
      by (simp add: step_Initialize_example)
    have "run chromium_video_codecs
            ([Call_Initialize (H264PROFILE_MAIN chromium_video_codecs)]
             @ [Task_EventHandlerComplete (CmdComplete_StateSet OMX_StateIdle),
                Task_EventHandlerComplete (CmdComplete_StateSet OMX_StateExecuting)]
             @ reset_ops)
            (example_new d)
          = Some (example_resetting d)"
      by (simp only: run_append i example_executing_reached example_resetting_reached
            option.case)
    then show ?thesis by simp
  qed
  have b: "step chromium_video_codecs
        (Task_EventHandlerComplete (CmdComplete_StateSet OMX_StateExecuting))
        (example_resetting d)
     = OnReachedExecutingInResetting (example_resetting d)"
  proof -
    have "\<not> deleted (example_resetting d)"
      by (simp add: example_resetting_def example_executing_sel)
    then show ?thesis
      by (simp add: step_def EventHandlerCompleteTask_def DispatchStateReached_def
            example_resetting_sel)
  qed
  have "\<not> fault (reset_done_as_specified (example_resetting d))"
    by (simp add: reset_done_as_specified_def reset_drained_def Let_def example_resetting_sel
          Decode_def example_unmappable_def stop_fields stop_more_fields)
       (simp add: StopOnError.simps BeginTransitionToState.simps example_resetting_sel
          notify_def omx_ok_def omx_done_def)
  moreover have "\<exists>s'. OnReachedExecutingInResetting (example_resetting d) = Some s' \<and> fault s'"
    by (simp add: example_reset_stops)
  ultimately have c: "OnReachedExecutingInResetting (example_resetting d)
       \<noteq> Some (reset_done_as_specified (example_resetting d))"
    by auto
  show ?thesis
    using a b c by (simp add: example_reset_stops example_resetting_sel)
qed

lemma Decode_outside_reset:
  "current_state_change s \<noteq> RESETTING \<Longrightarrow> current_state_change (Decode b s) \<noteq> RESETTING"
  by (simp add: Decode_def Let_def StopOnError_not_RESETTING split: option.splits)

lemma seq_outside_reset:
  "(\<And>f x. f \<in> set fs \<Longrightarrow> current_state_change x \<noteq> RESETTING
            \<Longrightarrow> current_state_change (f x) \<noteq> RESETTING)
   \<Longrightarrow> current_state_change s \<noteq> RESETTING
   \<Longrightarrow> current_state_change (seq fs s) \<noteq> RESETTING"
  by (rule route_seq)

text \<open>
  Where no drained call stops the object the method does what the specification says.
  When the engine acknowledges \<open>OMX_StateExecuting\<close> during a reset (in state
  \<open>OMX_StatePause\<close> where \<open>DCHECK\<close>s are checked), the engine state becomes \<open>EXECUTING\<close> and
  the operation state \<open>NONE\<close>.  If the client pointer is not valid, nothing else happens.
  Otherwise every queued bitstream buffer is passed to \<open>Decode\<close> in FIFO order, then every
  queued picture id to \<open>ReusePictureBuffer\<close> in order, and, when the client pointer is still
  valid after the two drains, the client is told \<open>NotifyResetDone\<close> as the last effect.
\<close>

lemma OnReachedExecutingInResetting_drains:
  "\<not> fault s \<and> (dcheck_is_on s \<longrightarrow> client_state s = OMX_StatePause) \<longrightarrow>
     (\<not> client s \<longrightarrow>
        OnReachedExecutingInResetting s
          = Some (s\<lparr>client_state := OMX_StateExecuting, current_state_change := NO_TRANSITION\<rparr>))
   \<and> (client s \<and> client (reset_drained s) \<and> \<not> fault (reset_drained s) \<longrightarrow>
        OnReachedExecutingInResetting s = Some (reset_done_as_specified s)
        \<and> trace (reset_done_as_specified s) = trace (reset_drained s) @ [Client NotifyResetDone])"
proof (intro impI conjI)
  assume h: "\<not> fault s \<and> (dcheck_is_on s \<longrightarrow> client_state s = OMX_StatePause)"
  define s1 where "s1 = s\<lparr>client_state := OMX_StateExecuting, current_state_change := NO_TRANSITION\<rparr>"
  define s2 where "s2 = seq (map Decode (queued_bitstream_buffers s1)) (s1\<lparr>queued_bitstream_buffers := []\<rparr>)"
  define s3 where "s3 = seq (map ReusePictureBuffer (queued_picture_buffer_ids s2)) s2"
  have d: "DCHECK (client_state s = OMX_StatePause) s = s"
    using h by (auto simp: DCHECK_def)
  {
    assume "\<not> client s"
    then show "OnReachedExecutingInResetting s
          = Some (s\<lparr>client_state := OMX_StateExecuting, current_state_change := NO_TRANSITION\<rparr>)"
      using h d by (simp add: OnReachedExecutingInResetting_def)
  }
  have dq: "DecodeQueuedBitstreamBuffers s1 = s2"
    by (simp add: DecodeQueuedBitstreamBuffers_def s2_def s1_def)
  have "current_state_change s2 \<noteq> RESETTING"
    unfolding s2_def
    by (rule seq_outside_reset) (auto simp: s1_def Decode_outside_reset)
  then have rq: "ReuseQueuedPictureBuffers 0 s2 = Some s3"
    by (simp add: ReuseQueuedPictureBuffers_outside_reset s3_def)
  have rd: "reset_drained s = s3"
    by (simp add: reset_drained_def s1_def s2_def s3_def Let_def)
  {
    assume a: "client s \<and> client (reset_drained s) \<and> \<not> fault (reset_drained s)"
    then have f2: "\<not> fault s2"
      using rd seq_fault[of s2 "map ReusePictureBuffer (queued_picture_buffer_ids s2)"]
      by (auto simp: s3_def)
    have c1: "client s1" using a by (simp add: s1_def)
    show "OnReachedExecutingInResetting s = Some (reset_done_as_specified s)"
      using h d a f2 dq rq rd c1
      by (simp add: OnReachedExecutingInResetting_def reset_done_as_specified_def
            s1_def[symmetric] Let_def)
  }
  show "trace (reset_done_as_specified s) = trace (reset_drained s) @ [Client NotifyResetDone]"
    by (simp add: reset_done_as_specified_def notify_def)
qed

lemma example_reset_drained:
  "reset_drained ((example_resetting True)\<lparr>queued_bitstream_buffers := [example_buffer]\<rparr>)
   = (example_resetting True)
       \<lparr>queued_bitstream_buffers := [], client_state := OMX_StateExecuting,
        current_state_change := NO_TRANSITION, free_input_buffers := [1],
        headers := (headers (example_resetting True))(0 \<mapsto> example_bound_header),
        omx_results := [],
        trace := trace (example_resetting True)
                 @ [Engine (OMX_EmptyThisBuffer 0 example_bound_header) True],
        input_buffers_at_component := 1\<rparr>"
  by (simp add: reset_drained_def Decode_def DCHECK_def crash_def omx_ok_def omx_done_def
        example_resetting_sel example_input_header_def example_bound_header_def
        example_buffer_def OMX_BUFFERFLAG_EOS_def Let_def cong: let_weak_cong)

lemma example_reset_done:
  "OnReachedExecutingInResetting
     ((example_resetting True)\<lparr>queued_bitstream_buffers := [example_buffer]\<rparr>)
   = Some (reset_done_as_specified
             ((example_resetting True)\<lparr>queued_bitstream_buffers := [example_buffer]\<rparr>))
   \<and> trace (reset_done_as_specified
               ((example_resetting True)\<lparr>queued_bitstream_buffers := [example_buffer]\<rparr>))
     = trace (example_resetting True)
       @ [Engine (OMX_EmptyThisBuffer 0 example_bound_header) True, Client NotifyResetDone]
   \<and> OnReachedExecutingInResetting ((example_resetting True)\<lparr>client := False\<rparr>)
     = Some ((example_resetting True)
               \<lparr>client := False, client_state := OMX_StateExecuting,
                current_state_change := NO_TRANSITION\<rparr>)"
proof -
  let ?w = "(example_resetting True)\<lparr>queued_bitstream_buffers := [example_buffer]\<rparr>"
  have p: "\<not> fault ?w" "client_state ?w = OMX_StatePause" "client ?w"
    "client (reset_drained ?w)" "\<not> fault (reset_drained ?w)"
    by (simp_all add: example_reset_drained) (simp_all add: example_resetting_sel)
  have a: "OnReachedExecutingInResetting ?w = Some (reset_done_as_specified ?w)
           \<and> trace (reset_done_as_specified ?w) = trace (reset_drained ?w) @ [Client NotifyResetDone]"
    using OnReachedExecutingInResetting_drains [of ?w] p by simp
  have b: "OnReachedExecutingInResetting ((example_resetting True)\<lparr>client := False\<rparr>)
     = Some ((example_resetting True)
               \<lparr>client := False, client_state := OMX_StateExecuting,
                current_state_change := NO_TRANSITION\<rparr>)"
    using OnReachedExecutingInResetting_drains [of "(example_resetting True)\<lparr>client := False\<rparr>"]
    by (simp add: example_resetting_sel)
  show ?thesis
    using a b by (simp add: example_reset_drained)
qed


section \<open>The client route through every step of an object's life\<close>

definition route_pictures :: "(bool \<Rightarrow> Effect list \<Rightarrow> bool) \<Rightarrow> Picture set \<Rightarrow> bool" where
  "route_pictures I Q \<longleftrightarrow> (\<forall>t q. I True t \<and> q \<in> Q \<longrightarrow> I True (t @ [Client (PictureReady q)]))"

text \<open>The pictures \<open>FillBufferDoneTask\<close> can deliver for a header: its picture with the
  header's timestamp as bitstream buffer id.\<close>

definition delivered :: "nat \<Rightarrow> ovda \<Rightarrow> Picture set" where
  "delivered buffer s =
     {q. \<exists>h p. headers s buffer = Some h \<and> pAppPrivate h = Some (PicturePtr p)
            \<and> q = p\<lparr>bitstream_buffer_id := ucast (nTimeStamp h)\<rparr>}"

lemma route_ReuseQueuedPictureBuffers:
  assumes "route_stable I" "route I s" "ReuseQueuedPictureBuffers i s = Some s'"
    "current_state_change s \<noteq> RESETTING"
  shows "route I s'"
proof -
  have "s' = seq (map ReusePictureBuffer (drop i (queued_picture_buffer_ids s))) s"
    using assms(3,4) by (simp add: ReuseQueuedPictureBuffers_outside_reset)
  then show ?thesis
    using assms(1,2) by (auto intro!: route_seq_all simp: route_ReusePictureBuffer)
qed

lemma DecodeQueuedBitstreamBuffers_outside_reset:
  "current_state_change s \<noteq> RESETTING
   \<Longrightarrow> current_state_change (DecodeQueuedBitstreamBuffers s) \<noteq> RESETTING"
proof -
  assume a: "current_state_change s \<noteq> RESETTING"
  have "current_state_change
          (seq (map Decode (queued_bitstream_buffers s)) (s\<lparr>queued_bitstream_buffers := []\<rparr>))
        \<noteq> RESETTING"
    by (rule seq_outside_reset) (use a in \<open>auto simp: Decode_outside_reset\<close>)
  then show ?thesis
    using a by (simp add: DecodeQueuedBitstreamBuffers_def Let_def)
qed

lemma route_OnReachedExecutingInResetting:
  assumes st: "route_stable I" and r: "route I s"
    and e: "OnReachedExecutingInResetting s = Some s'"
  shows "route I s'"
proof -
  define s0 where "s0 = DCHECK (client_state s = OMX_StatePause) s"
  define s1 where "s1 = s0\<lparr>client_state := OMX_StateExecuting, current_state_change := NO_TRANSITION\<rparr>"
  define s2 where "s2 = DecodeQueuedBitstreamBuffers s1"
  have r0: "route I s0" using r by (simp add: s0_def route_DCHECK)
  then have r1: "route I s1" by (simp add: s1_def)
  then have r2: "route I s2" using st by (simp add: s2_def route_DecodeQueuedBitstreamBuffers)
  have c2: "current_state_change s2 \<noteq> RESETTING"
    unfolding s2_def by (rule DecodeQueuedBitstreamBuffers_outside_reset) (simp add: s1_def)
  obtain s3 where s3: "ReuseQueuedPictureBuffers 0 s2 = Some s3"
    using c2 by (simp add: ReuseQueuedPictureBuffers_outside_reset)
  have r3: "route I s3"
    using route_ReuseQueuedPictureBuffers[OF st r2 s3 c2] .
  have "s' = (if fault s0 then s0 else if \<not> client s1 then s1 else if fault s2 then s2
              else if fault s3 then s3
              else if \<not> client s3 then crash (s3\<lparr>queued_picture_buffer_ids := []\<rparr>)
              else notify NotifyResetDone (s3\<lparr>queued_picture_buffer_ids := []\<rparr>))"
    using e s3
    by (simp add: OnReachedExecutingInResetting_def Let_def s0_def[symmetric] s1_def[symmetric]
          s2_def[symmetric] split: if_splits)
  then show ?thesis
    using r0 r1 r2 r3 st
    by (simp add: route_keep is_NotifyError_def is_PictureReady_def)
qed

lemma route_OnOutputPortDisabled [route_keep]:
  "route_stable I \<Longrightarrow> route I s \<Longrightarrow> route I (OnOutputPortDisabled s)"
  by (simp add: OnOutputPortDisabled_def route_keep Let_def is_NotifyError_def is_PictureReady_def)

lemma route_OnOutputPortEnabled_loop [route_keep]:
  "route_stable I \<Longrightarrow> route I s \<Longrightarrow> route I (OnOutputPortEnabled_loop ps s)"
proof (induction ps arbitrary: s)
  case Nil
  then show ?case by simp
next
  case (Cons kp ps)
  obtain k p where kp: "kp = (k, p)" by (cases kp)
  show ?case
    using Cons.prems unfolding kp
    by (simp add: Cons.IH route_keep Let_def split: option.splits)
qed

lemma route_OnOutputPortEnabled [route_keep]:
  "route_stable I \<Longrightarrow> route I s \<Longrightarrow> route I (OnOutputPortEnabled s)"
  by (simp add: OnOutputPortEnabled_def route_keep)

lemma route_AllocateOutputBuffers_loop [route_keep]:
  "route_stable I \<Longrightarrow> route I s \<Longrightarrow> route I (snd (AllocateOutputBuffers_loop ps s))"
proof (induction ps arbitrary: s)
  case Nil
  then show ?case by simp
next
  case (Cons kp ps)
  obtain k p where kp: "kp = (k, p)" by (cases kp)
  show ?case
    using Cons.prems unfolding kp
    by (simp add: Cons.IH route_keep Let_def)
qed

lemma route_AllocateOutputBuffers [route_keep]:
  "route_stable I \<Longrightarrow> route I s \<Longrightarrow> route I (snd (AllocateOutputBuffers s))"
  by (simp add: AllocateOutputBuffers_def route_keep Let_def)

lemma route_AssignPictureBuffers [route_keep]:
  "route_stable I \<Longrightarrow> route I s \<Longrightarrow> route I (AssignPictureBuffers bs s)"
  by (simp add: AssignPictureBuffers_def route_keep Let_def)

lemma route_EmptyBufferDoneTask [route_keep]:
  "route_stable I \<Longrightarrow> route I s \<Longrightarrow> route I (EmptyBufferDoneTask a s)"
  by (simp add: EmptyBufferDoneTask_def route_keep is_NotifyError_def is_PictureReady_def
        split: option.splits AppPrivate.splits)

lemma route_FillBufferDoneTask:
  assumes st: "route_stable I" and pc: "route_pictures I (delivered a s)" and r: "route I s"
  shows "route I (FillBufferDoneTask a s)"
proof (cases "headers s a")
  case None
  then show ?thesis using r by (simp add: FillBufferDoneTask_def route_crash)
next
  case (Some h)
  have pic: "route I x \<Longrightarrow> client x \<Longrightarrow> pAppPrivate h = Some (PicturePtr p)
       \<Longrightarrow> route I (notify (PictureReady (p\<lparr>bitstream_buffer_id := ucast (nTimeStamp h)\<rparr>)) x)"
    for x p
    using pc Some by (auto simp: route_pictures_def delivered_def route_def notify_def)
  show ?thesis
    using st r Some
    by (simp add: FillBufferDoneTask_def route_keep pic Let_def is_NotifyError_def
          is_PictureReady_def split: option.splits AppPrivate.splits)
qed

definition route_opt :: "(bool \<Rightarrow> Effect list \<Rightarrow> bool) \<Rightarrow> ovda option \<Rightarrow> bool" where
  "route_opt I x = (case x of None \<Rightarrow> True | Some s \<Rightarrow> route I s)"

lemma route_opt_simps [simp]:
  "route_opt I (Some s) = route I s"
  "route_opt I None = True"
  by (simp_all add: route_opt_def)

lemma route_opt_OnReachedExecutingInResetting [route_keep]:
  "route_stable I \<Longrightarrow> route I s \<Longrightarrow> route_opt I (OnReachedExecutingInResetting s)"
  using route_OnReachedExecutingInResetting[of I s]
  by (cases "OnReachedExecutingInResetting s") simp_all

lemma route_DispatchStateReached [route_keep]:
  "route_stable I \<Longrightarrow> route I s \<Longrightarrow> route_opt I (DispatchStateReached reached s)"
  by (simp add: DispatchStateReached_def route_keep split: CurrentStateChange.splits)

lemma route_EventHandlerCompleteTask [route_keep]:
  "route_stable I \<Longrightarrow> route I s \<Longrightarrow> route_opt I (EventHandlerCompleteTask ev s)"
  by (simp add: EventHandlerCompleteTask_def route_keep Let_def split: OmxEvent.splits)

lemma route_engine_writes [route_keep]: "route I s \<Longrightarrow> route I (engine_writes a fl ts s)"
  by (simp add: engine_writes_def split: option.splits)

definition is_Initialize :: "Op \<Rightarrow> bool" where
  "is_Initialize op = (case op of Call_Initialize p \<Rightarrow> True | _ \<Rightarrow> False)"

text \<open>\<open>I\<close> tolerates every picture delivery.\<close>

definition route_any_picture :: "(bool \<Rightarrow> Effect list \<Rightarrow> bool) \<Rightarrow> bool" where
  "route_any_picture I \<longleftrightarrow> (\<forall>t q. I True t \<longrightarrow> I True (t @ [Client (PictureReady q)]))"

lemma route_step:
  assumes st: "route_stable I" and pc: "route_any_picture I" and r: "route I s"
    and op: "\<not> is_Initialize op"
  shows "route_opt I (step vc op s)"
proof -
  have p: "route_pictures I Q" for Q
    using pc by (simp add: route_pictures_def route_any_picture_def)
  have f: "route I (FillBufferDoneTask a (engine_writes a fl ts s))" for a fl ts
    by (rule route_FillBufferDoneTask[OF st p]) (simp add: r route_engine_writes)
  show ?thesis
    using st r op
    by (cases op) (simp_all add: step_def is_Initialize_def route_keep f)
qed

lemma route_run:
  assumes st: "route_stable I" and pc: "route_any_picture I"
  shows "route I s \<Longrightarrow> list_all (\<lambda>op. \<not> is_Initialize op) ops \<Longrightarrow> route_opt I (run vc ops s)"
proof (induction ops arbitrary: s)
  case Nil
  then show ?case by simp
next
  case (Cons op ops)
  have "route_opt I (step vc op s)"
    using Cons.prems by (intro route_step[OF st pc]) simp_all
  then show ?case
    using Cons by (cases "step vc op s") simp_all
qed


section \<open>After \<open>Destroy\<close>\<close>

lemma run_fault: "fault s \<Longrightarrow> run vc ops s = Some s"
  by (induction ops) (simp_all add: step_def)

lemma Destroy_invalidates:
  "client_ptr_factory s \<Longrightarrow> Destroy s = Destroy (s\<lparr>client := False\<rparr>)"
  by (simp add: Destroy_def)

lemma step_Call_Destroy:
  "step vc Call_Destroy s
     = Some (if fault s then s else if deleted s then crash s else Destroy s)"
  by (simp add: step_def)

text \<open>The client pointer is invalid and the client calls in the trace are those of \<open>t0\<close>.\<close>

definition silent :: "Effect list \<Rightarrow> bool \<Rightarrow> Effect list \<Rightarrow> bool" where
  "silent t0 c t \<longleftrightarrow> \<not> c \<and> filter is_client_call t = filter is_client_call t0"

lemma silent_stable: "route_stable (silent t0)" "route_any_picture (silent t0)"
  by (simp_all add: route_stable_def route_any_picture_def silent_def)

lemma free_headers_ok:
  "omx_results s = [] \<Longrightarrow>
     free_headers port as (f, s)
       = (f, s\<lparr>headers := (\<lambda>x. if x \<in> set as then None else headers s x),
               trace := trace s @ map (\<lambda>a. Engine (OMX_FreeBuffer port a) True) as\<rparr>)"
proof (induction as arbitrary: f s)
  case Nil
  then show ?case by simp
next
  case (Cons a as)
  define s1 where "s1 = (omx_done (OMX_FreeBuffer port a) s)\<lparr>headers := (headers s)(a := None)\<rparr>"
  have o: "omx_ok s" using Cons.prems by (simp add: omx_ok_def)
  have r: "omx_results s1 = []" using Cons.prems by (simp add: s1_def omx_done_def)
  have "free_headers port (a # as) (f, s) = free_headers port as (f, s1)"
    using o by (simp add: s1_def)
  also have "\<dots> = (f, s1\<lparr>headers := (\<lambda>x. if x \<in> set as then None else headers s1 x),
               trace := trace s1 @ map (\<lambda>a. Engine (OMX_FreeBuffer port a) True) as\<rparr>)"
    using r by (rule Cons.IH)
  also have "\<dots> = (f, s\<lparr>headers := (\<lambda>x. if x \<in> set (a # as) then None else headers s x),
               trace := trace s @ map (\<lambda>a. Engine (OMX_FreeBuffer port a) True) (a # as)\<rparr>)"
    using o Cons.prems by (auto simp: s1_def omx_done_def fun_eq_iff)
  finally show ?case .
qed

lemmas teardown_eval = step_def Destroy_def EmptyBufferDoneTask_def FillBufferDoneTask_def
  engine_writes_def EventHandlerCompleteTask_def DispatchStateReached_def
  OnReachedIdleInDestroying_def OnReachedLoadedInDestroying_def FreeOMXBuffers_def
  ShutdownComponent_def BusyLoopInDestroying_def destructor_def free_headers_ok
  example_executing_sel example_executing_fakes example_input_header_def example_fake_header_def
  OMX_BUFFERFLAG_EOS_def evaluate

text \<open>What the engine does after \<open>Destroy\<close> was called during the flush of the executing
  example: it returns the end-of-stream input buffer and the eight fake output buffers,
  acknowledges \<open>OMX_StateIdle\<close> and \<open>OMX_StateLoaded\<close>; then the keep-alive task runs.\<close>

definition teardown_ops :: "Op list" where
  "teardown_ops =
     [Task_EmptyBufferDone 0,
      Task_FillBufferDone 2 0 (- 1), Task_FillBufferDone 3 0 (- 1),
      Task_FillBufferDone 4 0 (- 1), Task_FillBufferDone 5 0 (- 1),
      Task_FillBufferDone 6 0 (- 1), Task_FillBufferDone 7 0 (- 1),
      Task_FillBufferDone 8 0 (- 1), Task_FillBufferDone 9 0 (- 1),
      Task_EventHandlerComplete (CmdComplete_StateSet OMX_StateIdle),
      Task_EventHandlerComplete (CmdComplete_StateSet OMX_StateLoaded),
      Task_BusyLoopInDestroying]"

definition example_torn_down :: "bool \<Rightarrow> ovda" where
  "example_torn_down d =
     (example_executing d)
       \<lparr>deleted := True, component_handle := False, client := False,
        client_state := OMX_StateMax, free_input_buffers := [], fake_output_buffers := [],
        output_buffers_at_component := 0, headers := (\<lambda>a. None),
        trace := example_trace
          @ [Engine (OMX_EmptyThisBuffer 0
                       (example_input_header\<lparr>nFlags := 1, nTimeStamp := - 2\<rparr>)) True,
             Engine (OMX_SendCommandStateSet OMX_StateIdle) True,
             Engine (OMX_SendCommandStateSet OMX_StateLoaded) True,
             Engine (OMX_FreeBuffer 0 1) True, Engine (OMX_FreeBuffer 0 0) True,
             Engine (OMX_FreeBuffer 1 2) True, Engine (OMX_FreeBuffer 1 3) True,
             Engine (OMX_FreeBuffer 1 4) True, Engine (OMX_FreeBuffer 1 5) True,
             Engine (OMX_FreeBuffer 1 6) True, Engine (OMX_FreeBuffer 1 7) True,
             Engine (OMX_FreeBuffer 1 8) True, Engine (OMX_FreeBuffer 1 9) True,
             Engine OMX_FreeHandle True, Engine OMX_Deinit True]\<rparr>"

lemma example_teardown:
  "run vc (Call_Destroy # teardown_ops) (Flush (example_executing d))
     = Some (example_torn_down d)"
  apply (simp add: example_flushing)
  apply (simp add: teardown_ops_def teardown_eval del: free_headers.simps cong: let_weak_cong)
  apply (simp add: example_torn_down_def example_executing_def example_input_header_def
           fun_eq_iff)
  done

text \<open>
  Claim C6.  After \<open>Destroy\<close> has returned no client notification is delivered: whatever
  calls other than \<open>Initialize\<close>, engine events and posted tasks follow the call of
  \<open>Destroy\<close>, and in whatever state \<open>Destroy\<close> was called, the client calls in the trace
  at the end are exactly those that were in it before \<open>Destroy\<close>; \<open>Destroy\<close> itself adds
  none.  This covers \<open>PictureReady\<close>, \<open>NotifyFlushDone\<close>, \<open>NotifyResetDone\<close>,
  \<open>NotifyEndOfBitstreamBuffer\<close>, \<open>NotifyError\<close> and \<open>DismissPictureBuffer\<close>, and in
  particular a \<open>Destroy\<close> called during a flush.
\<close>

theorem no_client_call_after_Destroy:
  assumes ops: "list_all (\<lambda>op. \<not> is_Initialize op) ops"
    and run: "run vc (Call_Destroy # ops) s = Some s'"
  shows "filter is_client_call (trace s') = filter is_client_call (trace s)"
proof (cases "fault s \<or> deleted s \<or> \<not> client_ptr_factory s")
  case True
  define s1 where "s1 = (if fault s then s else if deleted s then crash s else Destroy s)"
  have "fault s1" "trace s1 = trace s"
    using True by (auto simp: s1_def Destroy_def crash_def)
  moreover have "run vc ops s1 = Some s'"
    using run by (simp add: step_Call_Destroy s1_def)
  ultimately show ?thesis
    by (simp add: run_fault)
next
  case False
  then have r: "run vc ops (Destroy s) = Some s'"
    using run by (simp add: step_Call_Destroy)
  have "route (silent (trace s)) (s\<lparr>client := False\<rparr>)"
    by (simp add: route_def silent_def)
  then have "route (silent (trace s)) (Destroy s)"
    using False Destroy_invalidates[of s] route_Destroy[OF silent_stable(1)] by metis
  then have "route_opt (silent (trace s)) (run vc ops (Destroy s))"
    using ops by (rule route_run[OF silent_stable])
  then show ?thesis
    using r by (simp add: route_def silent_def)
qed

theorem no_client_call_after_Destroy_witness:
  "list_all (\<lambda>op. \<not> is_Initialize op) teardown_ops
   \<and> current_state_change (Flush (example_executing True)) = FLUSHING
   \<and> run chromium_video_codecs (Call_Destroy # teardown_ops) (Flush (example_executing True))
       = Some (example_torn_down True)
   \<and> deleted (example_torn_down True) \<and> \<not> fault (example_torn_down True)
   \<and> filter is_client_call (trace (example_torn_down True))
       = filter is_client_call (trace (Flush (example_executing True)))
   \<and> Client NotifyFlushDone \<notin> set (trace (example_torn_down True))"
proof -
  have a: "list_all (\<lambda>op. \<not> is_Initialize op) teardown_ops"
    by (simp add: teardown_ops_def is_Initialize_def)
  have b: "deleted (example_torn_down True)" "\<not> fault (example_torn_down True)"
    "Client NotifyFlushDone \<notin> set (trace (example_torn_down True))"
    by (simp_all add: example_torn_down_def example_executing_sel example_trace_def)
  have c: "current_state_change (Flush (example_executing True)) = FLUSHING"
    by (simp add: example_flushing)
  show ?thesis
    using no_client_call_after_Destroy[OF a example_teardown[of chromium_video_codecs True]]
      a b c example_teardown[of chromium_video_codecs True]
    by simp
qed


end
